theory Spec2Isabelle
  imports Main "HOL-Library.Word"
begin

unbundle bit_operations_syntax

section \<open>Data model (MDB.h)\<close>

type_synonym u8 = "8 word"
type_synonym u16 = "16 word"
type_synonym u32 = "32 word"

datatype MDB_State_t =
    MDB_STATE_INACTIVE
  | MDB_STATE_DISABLED
  | MDB_STATE_ENABLED
  | MDB_STATE_SESSION_IDLE
  | MDB_STATE_VEND
  | MDB_STATE_REVALUE
  | MDB_STATE_NEGATIVE_VEND

text \<open>The enumerators count from 0, and the code compares states with \<open>>\<close>:
  \<open>state_ord\<close> is the enumerator's value.\<close>

fun state_ord :: "MDB_State_t \<Rightarrow> nat" where
  "state_ord MDB_STATE_INACTIVE = 0"
| "state_ord MDB_STATE_DISABLED = 1"
| "state_ord MDB_STATE_ENABLED = 2"
| "state_ord MDB_STATE_SESSION_IDLE = 3"
| "state_ord MDB_STATE_VEND = 4"
| "state_ord MDB_STATE_REVALUE = 5"
| "state_ord MDB_STATE_NEGATIVE_VEND = 6"

datatype MDB_LogLevel_t = LOG_NONE | LOG_ERROR | LOG_WARNING | LOG_INFO | LOG_DEBUG

datatype MDB_Error_t =
    MDB_ERR_NONE
  | MDB_ERR_NAK
  | MDB_ERR_TIMEOUT
  | MDB_ERR_CHECKSUM
  | MDB_ERR_STATE
  | MDB_ERR_PARAMETER
  | MDB_ERR_COMMUNICATION
  | MDB_ERR_SEQUENCE
  | MDB_ERR_FUNDS
  | MDB_ERR_HARDWARE

fun error_code :: "MDB_Error_t \<Rightarrow> nat" where
  "error_code MDB_ERR_NONE = 0"
| "error_code MDB_ERR_NAK = 1"
| "error_code MDB_ERR_TIMEOUT = 2"
| "error_code MDB_ERR_CHECKSUM = 3"
| "error_code MDB_ERR_STATE = 4"
| "error_code MDB_ERR_PARAMETER = 5"
| "error_code MDB_ERR_COMMUNICATION = 6"
| "error_code MDB_ERR_SEQUENCE = 7"
| "error_code MDB_ERR_FUNDS = 8"
| "error_code MDB_ERR_HARDWARE = 9"

datatype MDB_TransactionType_t =
  TRANS_PAID_VEND | TRANS_FREE_VEND | TRANS_TEST_VEND | TRANS_REVALUE | TRANS_NEGATIVE_VEND

definition MDB_ACK :: u8 where "MDB_ACK = 0x00"
definition MDB_NAK :: u8 where "MDB_NAK = 0xFF"
definition MDB_RET :: u8 where "MDB_RET = 0xAA"

definition MDB_CMD_RESET :: u8 where "MDB_CMD_RESET = 0x10"
definition MDB_CMD_SETUP :: u8 where "MDB_CMD_SETUP = 0x11"
definition MDB_CMD_POLL :: u8 where "MDB_CMD_POLL = 0x12"

definition MDB_RESPONSE_TIMEOUT :: u32 where "MDB_RESPONSE_TIMEOUT = 5"
definition MDB_INTERBYTE_TIMEOUT :: u32 where "MDB_INTERBYTE_TIMEOUT = 1"
definition MDB_POLL_INTERVAL :: u32 where "MDB_POLL_INTERVAL = 200"

definition MDB_MAX_MESSAGE_LENGTH :: nat where "MDB_MAX_MESSAGE_LENGTH = 36"
definition MDB_QUEUE_SIZE :: nat where "MDB_QUEUE_SIZE = 10"
definition MDB_TRANSACTION_LOG_SIZE :: nat where "MDB_TRANSACTION_LOG_SIZE = 50"
definition MDB_ERROR_LOG_SIZE :: nat where "MDB_ERROR_LOG_SIZE = 50"

record MDB_Config_t =
  featureLevel :: u8
  countryCode :: u16
  scaleFactor :: u8
  decimalPlaces :: u8
  maxPrice :: u16
  minPrice :: u16
  miscOptions :: u8

record MDB_Session_t =
  state :: MDB_State_t
  availableFunds :: u32
  vendAmount :: u32
  itemNumber :: u16
  multivend :: bool
  refundable :: bool
  sessionTimeout :: u32
  transType :: MDB_TransactionType_t

text \<open>The fields of the three structs below carry a prefix, since \<open>state\<close>,
  \<open>error\<close>, \<open>timestamp\<close>, \<open>length\<close> and \<open>lastCommand\<close> name other things too.\<close>

record MDB_Message_t =
  msg_data :: "u8 list"
  msg_length :: u8
  msg_timestamp :: u32

record MDB_MessageQueue_t =
  messages :: "MDB_Message_t list"
  head :: u8
  tail :: u8
  count :: u8

record MDB_TransactionLog_t =
  tl_timestamp :: u32
  tl_type :: MDB_TransactionType_t
  tl_amount :: u32
  tl_itemNumber :: u16
  tl_success :: bool
  tl_error :: MDB_Error_t

record MDB_ErrorLog_t =
  el_timestamp :: u32
  el_error :: MDB_Error_t
  el_state :: MDB_State_t
  el_lastCommand :: u8
  el_lastResponse :: u8

section \<open>What the engine does to the outside, as a list of events\<close>

text \<open>The functions of the repository that Mdb.c calls and does not define.\<close>

datatype helper =
    H_SetState MDB_State_t
  | H_EnableReader
  | H_DisableReader
  | H_SessionComplete
  | H_VendFailure
  | H_ParseConfiguration
  | H_HandleJustReset
  | H_HandleBeginSession
  | H_HandleVendApproved
  | H_HandleVendDenied
  | H_HandleEndSession

datatype event =
    EvLog MDB_LogLevel_t string "nat list"
  | EvError MDB_Error_t
  | EvDumpLogs
  | EvTransmit "u8 list" bool
  | EvReceive u32 "u8 option"
  | EvDelay u32
  | EvCall helper

section \<open>The engine: the file-level and function-level statics of Mdb.c, and the HAL\<close>

text \<open>
  \<open>lastErrorTime\<close>, \<open>rapidErrorCount\<close> and \<open>seriousErrorCount\<close> are the statics declared
  inside \<open>MDB_HandleError\<close>. \<open>tick\<close> is the HAL's millisecond counter. \<open>rx_script\<close> lists what
  the next calls of \<open>HAL_UART_Receive\<close> do: how long the call takes and the byte it delivers
  (\<open>None\<close>: it does not return \<open>HAL_OK\<close>); \<open>tx_script\<close> lists whether the next calls of
  \<open>HAL_UART_Transmit\<close> return \<open>HAL_OK\<close>. \<open>events\<close> records every call that leaves Mdb.c.
\<close>

record engine =
  mdbConfig :: MDB_Config_t
  mdbSession :: MDB_Session_t
  messageQueue :: MDB_MessageQueue_t
  transactionLog :: "MDB_TransactionLog_t list"
  errorLog :: "MDB_ErrorLog_t list"
  transactionLogIndex :: u8
  errorLogIndex :: u8
  lastPollTime :: u32
  currentLogLevel :: MDB_LogLevel_t
  txBuffer :: "u8 list"
  rxBuffer :: "u8 list"
  lastCommand :: "u8 list"
  lastCommandLength :: u8
  retryCount :: u8
  lastErrorTime :: u32
  rapidErrorCount :: u8
  seriousErrorCount :: u8
  tick :: u32
  rx_script :: "(u32 \<times> u8 option) list"
  tx_script :: "bool list"
  events :: "event list"

definition emit :: "event \<Rightarrow> engine \<Rightarrow> engine" where
  "emit e s = s\<lparr>events := events s @ [e]\<rparr>"

subsection \<open>The HAL\<close>

definition HAL_GetTick :: "engine \<Rightarrow> u32" where
  "HAL_GetTick s = tick s"

definition HAL_Delay :: "u32 \<Rightarrow> engine \<Rightarrow> engine" where
  "HAL_Delay ms s = emit (EvDelay ms) (s\<lparr>tick := tick s + ms\<rparr>)"

text \<open>Past the end of the script a transmission succeeds.\<close>

definition HAL_UART_Transmit :: "u8 list \<Rightarrow> engine \<Rightarrow> bool \<times> engine" where
  "HAL_UART_Transmit bytes s =
     (case tx_script s of
        [] \<Rightarrow> (True, emit (EvTransmit bytes True) s)
      | ok # rest \<Rightarrow> (ok, emit (EvTransmit bytes ok) (s\<lparr>tx_script := rest\<rparr>)))"

text \<open>Past the end of the script the line is silent: the call waits for its whole timeout
  and fails.\<close>

definition HAL_UART_Receive :: "u32 \<Rightarrow> engine \<Rightarrow> u8 option \<times> engine" where
  "HAL_UART_Receive timeout s =
     (case rx_script s of
        [] \<Rightarrow> (None, emit (EvReceive timeout None) (s\<lparr>tick := tick s + timeout\<rparr>))
      | (dt, r) # rest \<Rightarrow>
          (r, emit (EvReceive timeout r) (s\<lparr>tick := tick s + dt, rx_script := rest\<rparr>)))"

subsection \<open>Logging\<close>

text \<open>Modelled from the spec: \<open>MDB_LogMessage\<close>, \<open>MDB_LogError\<close> and \<open>MDB_DumpLogs\<close> are
  declared in MDB.h as the logging functions and defined nowhere in the sources. The spec
  has the log sink as an external collaborator that takes a severity and a formatted
  message; here a call hands its arguments to the sink and changes nothing else.\<close>

definition MDB_LogMessage :: "MDB_LogLevel_t \<Rightarrow> string \<Rightarrow> nat list \<Rightarrow> engine \<Rightarrow> engine" where
  "MDB_LogMessage level format args s = emit (EvLog level format args) s"

definition MDB_LogError :: "MDB_Error_t \<Rightarrow> engine \<Rightarrow> engine" where
  "MDB_LogError error s = emit (EvError error) s"

definition MDB_DumpLogs :: "engine \<Rightarrow> engine" where
  "MDB_DumpLogs s = emit EvDumpLogs s"

subsection \<open>The state-machine functions Mdb.c calls and does not define\<close>

text \<open>They are parameters of the model. \<open>ext\<close> runs one of them: whatever it does to the
  engine, the event list gets the call and nothing else.\<close>

record helpers =
  MDB_SetState :: "MDB_State_t \<Rightarrow> engine \<Rightarrow> engine"
  MDB_EnableReader :: "engine \<Rightarrow> bool \<times> engine"
  MDB_DisableReader :: "engine \<Rightarrow> bool \<times> engine"
  MDB_SessionComplete :: "engine \<Rightarrow> bool \<times> engine"
  MDB_VendFailure :: "engine \<Rightarrow> bool \<times> engine"
  ParseConfiguration :: "u8 list \<Rightarrow> u8 \<Rightarrow> engine \<Rightarrow> bool \<times> engine"
  HandleJustReset :: "engine \<Rightarrow> bool \<times> engine"
  HandleBeginSession :: "u8 list \<Rightarrow> u8 \<Rightarrow> engine \<Rightarrow> bool \<times> engine"
  HandleVendApproved :: "u8 list \<Rightarrow> u8 \<Rightarrow> engine \<Rightarrow> bool \<times> engine"
  HandleVendDenied :: "engine \<Rightarrow> bool \<times> engine"
  HandleEndSession :: "engine \<Rightarrow> bool \<times> engine"
  MDBRxCashlessJustReset :: u8
  MDBRxCashlessBeginSession :: u8
  MDBRxCashlessVendApproved :: u8
  MDBRxCashlessVendDenied :: u8
  MDBRxCashlessEndSession :: u8

definition ext :: "helper \<Rightarrow> (engine \<Rightarrow> bool \<times> engine) \<Rightarrow> engine \<Rightarrow> bool \<times> engine" where
  "ext h f s = (case f s of (r, s') \<Rightarrow> (r, s'\<lparr>events := events s @ [EvCall h]\<rparr>))"

section \<open>Transport and framing\<close>

text \<open>Modelled from the spec: \<open>CalculateChecksum\<close> is declared in Mdb.c and not defined
  there; the spec has it as the sum of all bytes modulo 256.\<close>

definition CalculateChecksum :: "u8 list \<Rightarrow> u8 \<Rightarrow> u8" where
  "CalculateChecksum data len = sum_list (take (unat len) data)"

text \<open>\<open>memcpy dst src n\<close> is the array \<open>dst\<close> after \<open>memcpy(dst, src, n)\<close>. The source must
  hold \<open>n\<close> bytes: C leaves a longer read undefined.\<close>

definition memcpy :: "'a list \<Rightarrow> 'a list \<Rightarrow> nat \<Rightarrow> 'a list" where
  "memcpy dst src n = take n src @ drop n dst"

definition SendCommand :: "u8 list \<Rightarrow> u8 \<Rightarrow> engine \<Rightarrow> bool \<times> engine" where
  "SendCommand data len s =
     (if unat len > MDB_MAX_MESSAGE_LENGTH - 1 then (False, MDB_LogError MDB_ERR_PARAMETER s)
      else
        let s1 = s\<lparr>lastCommand := memcpy (lastCommand s) data (unat len),
                   lastCommandLength := len\<rparr>;
            s2 = s1\<lparr>txBuffer := memcpy (txBuffer s1) data (unat len)\<rparr>;
            s3 = s2\<lparr>txBuffer := (txBuffer s2)[unat len := CalculateChecksum data len]\<rparr>
        in case HAL_UART_Transmit (take (unat len + 1) (txBuffer s3)) s3 of
             (ok, s4) \<Rightarrow>
               if \<not> ok then (False, MDB_LogError MDB_ERR_COMMUNICATION s4)
               else (True, s4))"

text \<open>The test \<open>response[*length-1] & 0x100\<close>: the byte is a \<open>uint8_t\<close>, promoted to a
  32-bit \<open>int\<close> before the mask is applied.\<close>

definition mode_bit :: "u8 \<Rightarrow> bool" where
  "mode_bit b = ((ucast b :: u32) AND 0x100 \<noteq> 0)"

text \<open>The inner loop of \<open>WaitForResponse\<close>, entered with \<open>*length = len\<close>, which is 1 or
  more. It returns whether the loop was left at its head (and not by a \<open>return false\<close>),
  \<open>*length\<close>, and the engine. The index \<open>*length - 1\<close> is computed in \<open>int\<close>; the counter itself
  is a \<open>uint8_t\<close>.\<close>

function WaitForResponse_more :: "u8 \<Rightarrow> engine \<Rightarrow> bool \<times> u8 \<times> engine" where
  "WaitForResponse_more len s =
     (if \<not> mode_bit (rxBuffer s ! (unat len - 1)) then
        (case HAL_UART_Receive MDB_INTERBYTE_TIMEOUT s of
           (None, s1) \<Rightarrow> (False, len, MDB_LogError MDB_ERR_COMMUNICATION s1)
         | (Some b, s1) \<Rightarrow>
             (let s2 = s1\<lparr>rxBuffer := (rxBuffer s1)[unat len := b]\<rparr> in
              if unat (len + 1) \<ge> MDB_MAX_MESSAGE_LENGTH
              then (False, len + 1, MDB_LogError MDB_ERR_PARAMETER s2)
              else WaitForResponse_more (len + 1) s2))
      else (True, len, s))"
  by pat_completeness auto
termination
proof (relation "measure (\<lambda>(len, s). unat (35 - len))")
  show "wf (measure (\<lambda>(len, s). unat (35 - len)))" by simp
next
  fix len :: u8 and s :: engine and x :: "u8 option \<times> engine" and x1 :: "u8 option"
    and s1 :: engine and b :: u8 and s2 :: engine
  assume "\<not> MDB_MAX_MESSAGE_LENGTH \<le> unat (len + 1)"
  then have "unat (len + 1) < 36" by (simp add: MDB_MAX_MESSAGE_LENGTH_def)
  then have "len \<noteq> 35" by auto
  then have nz: "35 - len \<noteq> 0" by simp
  have "35 - (len + 1) = (35 - len) - 1" by simp
  moreover have "unat ((35 - len) - 1) = unat (35 - len) - 1" using nz by (rule unat_minus_one)
  moreover have "unat (35 - len) \<noteq> 0" using nz by (simp add: unat_eq_zero)
  ultimately have "unat (35 - (len + 1)) < unat (35 - len)" by simp
  then show "((len + 1, s2), (len, s)) \<in> measure (\<lambda>(len, s). unat (35 - len))" by simp
qed

declare WaitForResponse_more.simps [simp del]

text \<open>What follows the first byte: the inner loop, then the checksum of a frame longer than
  one byte.\<close>

definition WaitForResponse_frame :: "engine \<Rightarrow> bool \<times> u8 \<times> engine" where
  "WaitForResponse_frame s =
     (case WaitForResponse_more 1 s of
        (False, len, s1) \<Rightarrow> (False, len, s1)
      | (True, len, s1) \<Rightarrow>
          if unat len > 1 then
            (let checksum = CalculateChecksum (rxBuffer s1) (len - 1) in
             if checksum \<noteq> rxBuffer s1 ! (unat len - 1)
             then (False, len, MDB_LogError MDB_ERR_CHECKSUM s1)
             else (True, len, s1))
          else (True, len, s1))"

text \<open>The outer loop, with \<open>startTime\<close> read before it. On the timeout path \<open>*length\<close> is
  never written; the model returns 0 for it, and no caller reads it after a failure.\<close>

function WaitForResponse_wait :: "u32 \<Rightarrow> engine \<Rightarrow> bool \<times> u8 \<times> engine" where
  "WaitForResponse_wait startTime s =
     (if HAL_GetTick s - startTime < MDB_RESPONSE_TIMEOUT then
        (case HAL_UART_Receive 1 s of
           (Some b, s1) \<Rightarrow> WaitForResponse_frame (s1\<lparr>rxBuffer := (rxBuffer s1)[0 := b]\<rparr>)
         | (None, s1) \<Rightarrow> WaitForResponse_wait startTime s1)
      else (False, 0, MDB_LogError MDB_ERR_TIMEOUT s))"
  by pat_completeness auto
termination
proof (relation "measures [\<lambda>(t, s). length (rx_script s), \<lambda>(t, s). 5 - unat (tick s - t)]")
  show "wf (measures [\<lambda>(t, s). length (rx_script s), \<lambda>(t, s). 5 - unat (tick s - t)])"
    by simp
next
  fix startTime :: u32 and s :: engine and x1 :: "u8 option" and s1 :: engine
  assume due: "HAL_GetTick s - startTime < MDB_RESPONSE_TIMEOUT"
    and rcv: "(x1, s1) = HAL_UART_Receive 1 s" "x1 = None"
  show "((startTime, s1), (startTime, s)) \<in>
          measures [\<lambda>(t, s). length (rx_script s), \<lambda>(t, s). 5 - unat (tick s - t)]"
  proof (cases "rx_script s")
    case Nil
    with rcv have s1: "rx_script s1 = []" "tick s1 = tick s + 1"
      by (auto simp: HAL_UART_Receive_def emit_def)
    from due have lt: "unat (tick s - startTime) < 5"
      by (simp add: HAL_GetTick_def MDB_RESPONSE_TIMEOUT_def word_less_nat_alt)
    have e: "tick s1 - startTime = (tick s - startTime) + 1" using s1(2) by simp
    have "unat ((tick s - startTime) + 1) = unat (tick s - startTime) + 1"
      using lt by (simp add: unat_word_ariths)
    then have "unat (tick s1 - startTime) = unat (tick s - startTime) + 1" by (simp only: e)
    with lt Nil s1(1) show ?thesis by simp
  next
    case (Cons p rest)
    with rcv have "rx_script s1 = rest"
      by (cases p) (auto simp: HAL_UART_Receive_def emit_def)
    with Cons show ?thesis by simp
  qed
qed

declare WaitForResponse_wait.simps [simp del]

definition WaitForResponse :: "engine \<Rightarrow> bool \<times> u8 \<times> engine" where
  "WaitForResponse s = WaitForResponse_wait (HAL_GetTick s) s"

section \<open>Reset and initialisation\<close>

definition ext_void :: "helper \<Rightarrow> (engine \<Rightarrow> engine) \<Rightarrow> engine \<Rightarrow> engine" where
  "ext_void h f s = (f s)\<lparr>events := events s @ [EvCall h]\<rparr>"

definition MDB_Reset :: "helpers \<Rightarrow> engine \<Rightarrow> bool \<times> engine" where
  "MDB_Reset H s =
     (let s0 = MDB_LogMessage LOG_INFO ''Performing reset...'' [] s in
      case SendCommand [MDB_CMD_RESET] 1 s0 of
        (False, s1) \<Rightarrow> (False, MDB_LogError MDB_ERR_COMMUNICATION s1)
      | (True, s1) \<Rightarrow>
          (case WaitForResponse s1 of
             (False, respLen, s2) \<Rightarrow> (False, MDB_LogError MDB_ERR_TIMEOUT s2)
           | (True, respLen, s2) \<Rightarrow>
               if rxBuffer s2 ! 0 \<noteq> 0x00 then (False, MDB_LogError MDB_ERR_SEQUENCE s2)
               else
                 let s3 = ext_void (H_SetState MDB_STATE_INACTIVE)
                            (MDB_SetState H MDB_STATE_INACTIVE) s2
                 in (True, MDB_LogMessage LOG_INFO ''Reset complete'' [] s3)))"

text \<open>What \<open>memset(&x, 0, sizeof x)\<close> leaves in the three structs.\<close>

definition zero_Config :: MDB_Config_t where
  "zero_Config = \<lparr>featureLevel = 0, countryCode = 0, scaleFactor = 0, decimalPlaces = 0,
     maxPrice = 0, minPrice = 0, miscOptions = 0\<rparr>"

definition zero_Session :: MDB_Session_t where
  "zero_Session = \<lparr>state = MDB_STATE_INACTIVE, availableFunds = 0, vendAmount = 0,
     itemNumber = 0, multivend = False, refundable = False, sessionTimeout = 0,
     transType = TRANS_PAID_VEND\<rparr>"

definition zero_Message :: MDB_Message_t where
  "zero_Message = \<lparr>msg_data = replicate MDB_MAX_MESSAGE_LENGTH 0, msg_length = 0,
     msg_timestamp = 0\<rparr>"

definition zero_MessageQueue :: MDB_MessageQueue_t where
  "zero_MessageQueue = \<lparr>messages = replicate MDB_QUEUE_SIZE zero_Message, head = 0, tail = 0,
     count = 0\<rparr>"

definition MDB_Initialize :: "helpers \<Rightarrow> engine \<Rightarrow> bool \<times> engine" where
  "MDB_Initialize H s =
     (let s0 = s\<lparr>mdbConfig := zero_Config, mdbSession := zero_Session,
                   messageQueue := zero_MessageQueue\<rparr>;
          s1 = MDB_LogMessage LOG_INFO ''Initializing MDB interface...'' [] s0;
          s2 = s1\<lparr>mdbSession := (mdbSession s1)\<lparr>state := MDB_STATE_INACTIVE\<rparr>\<rparr>
      in case MDB_Reset H s2 of
        (False, s3) \<Rightarrow> (False, MDB_LogMessage LOG_ERROR ''Reset failed'' [] s3)
      | (True, s3) \<Rightarrow>
          (case SendCommand [MDB_CMD_SETUP, 0x00] 2 s3 of
             (False, s4) \<Rightarrow> (False, MDB_LogMessage LOG_ERROR ''Setup command failed'' [] s4)
           | (True, s4) \<Rightarrow>
               (case WaitForResponse s4 of
                  (False, respLen, s5) \<Rightarrow>
                    (False, MDB_LogMessage LOG_ERROR ''No response to setup command'' [] s5)
                | (True, respLen, s5) \<Rightarrow>
                    (case ext H_ParseConfiguration
                            (ParseConfiguration H (rxBuffer s5) respLen) s5 of
                       (False, s6) \<Rightarrow>
                         (False, MDB_LogMessage LOG_ERROR ''Failed to parse configuration'' [] s6)
                     | (True, s6) \<Rightarrow>
                         (case ext H_EnableReader (MDB_EnableReader H) s6 of
                            (False, s7) \<Rightarrow>
                              (False, MDB_LogMessage LOG_ERROR ''Failed to enable reader'' [] s7)
                          | (True, s7) \<Rightarrow>
                              (True, MDB_LogMessage LOG_INFO
                                       ''MDB initialization complete'' [] s7))))))"

section \<open>The message handler\<close>

text \<open>The \<open>switch\<close> of \<open>MDB_ProcessMessage\<close>, with its result in \<open>success\<close>. The case labels are
  taken in the order they are written.\<close>

definition ProcessMessage_switch ::
  "helpers \<Rightarrow> u8 \<Rightarrow> u8 list \<Rightarrow> u8 \<Rightarrow> engine \<Rightarrow> bool \<times> engine" where
  "ProcessMessage_switch H command msg len s =
     (if command = MDBRxCashlessJustReset H then
        ext H_HandleJustReset (HandleJustReset H) s
      else if command = MDBRxCashlessBeginSession H then
        ext H_HandleBeginSession (HandleBeginSession H msg len) s
      else if command = MDBRxCashlessVendApproved H then
        ext H_HandleVendApproved (HandleVendApproved H msg len) s
      else if command = MDBRxCashlessVendDenied H then
        ext H_HandleVendDenied (HandleVendDenied H) s
      else if command = MDBRxCashlessEndSession H then
        ext H_HandleEndSession (HandleEndSession H) s
      else
        (False, MDB_LogMessage LOG_WARNING ''Unknown command received: 0x%02X''
                  [unat command] s))"

text \<open>\<open>msg\<close> is \<open>None\<close> for a null pointer, and otherwise the bytes it points to.\<close>

definition MDB_ProcessMessage :: "helpers \<Rightarrow> u8 list option \<Rightarrow> u8 \<Rightarrow> engine \<Rightarrow> bool \<times> engine" where
  "MDB_ProcessMessage H msg len s =
     (if len = 0 \<or> msg = None then (False, MDB_LogError MDB_ERR_PARAMETER s)
      else
        let command = the msg ! 0;
            s1 = MDB_LogMessage LOG_DEBUG ''Processing message: command=0x%02X''
                   [unat command] s
        in case ProcessMessage_switch H command (the msg) len s1 of
             (success, s2) \<Rightarrow>
               if \<not> success then (success, MDB_LogError MDB_ERR_SEQUENCE s2)
               else (success, s2))"

section \<open>The error handler\<close>

text \<open>The \<open>switch\<close> of \<open>MDB_HandleError\<close>: the recovery action of each error kind. The
  results of the calls are dropped, as in the source.\<close>

definition HandleError_recover :: "helpers \<Rightarrow> MDB_Error_t \<Rightarrow> engine \<Rightarrow> engine" where
  "HandleError_recover H error s =
     (case error of
        MDB_ERR_NAK \<Rightarrow>
          if unat (retryCount s) < 3 then
            (let s1 = s\<lparr>retryCount := retryCount s + 1\<rparr>;
                 s2 = MDB_LogMessage LOG_WARNING ''Retrying command, attempt %d''
                        [unat (retryCount s1)] s1
             in if unat (lastCommandLength s2) > 0
                then snd (SendCommand (lastCommand s2) (lastCommandLength s2) s2)
                else s2)
          else
            (let s1 = MDB_LogMessage LOG_ERROR ''Max retries exceeded'' [] s;
                 s2 = s1\<lparr>retryCount := 0\<rparr>
             in snd (MDB_Reset H s2))
      | MDB_ERR_TIMEOUT \<Rightarrow>
          (let s1 = MDB_LogMessage LOG_ERROR ''Communication timeout'' [] s in
           if state (mdbSession s1) \<noteq> MDB_STATE_INACTIVE then snd (MDB_Reset H s1) else s1)
      | MDB_ERR_CHECKSUM \<Rightarrow>
          (let s1 = MDB_LogMessage LOG_ERROR ''Checksum error'' [] s in
           snd (SendCommand [MDB_RET] 1 s1))
      | MDB_ERR_STATE \<Rightarrow>
          (let s1 = MDB_LogMessage LOG_ERROR ''Invalid state transition'' [] s in
           if state_ord (state (mdbSession s1)) > state_ord MDB_STATE_ENABLED
           then snd (ext H_SessionComplete (MDB_SessionComplete H) s1) else s1)
      | MDB_ERR_SEQUENCE \<Rightarrow>
          (let s1 = MDB_LogMessage LOG_ERROR ''Command sequence error'' [] s in
           if state_ord (state (mdbSession s1)) > state_ord MDB_STATE_ENABLED
           then snd (ext H_SessionComplete (MDB_SessionComplete H) s1)
           else snd (MDB_Reset H s1))
      | MDB_ERR_FUNDS \<Rightarrow>
          (let s1 = MDB_LogMessage LOG_ERROR ''Insufficient funds'' [] s in
           if state (mdbSession s1) = MDB_STATE_VEND
           then snd (ext H_VendFailure (MDB_VendFailure H) s1) else s1)
      | MDB_ERR_HARDWARE \<Rightarrow>
          (let s1 = MDB_LogMessage LOG_ERROR ''Hardware error detected'' [] s;
               s2 = snd (ext H_DisableReader (MDB_DisableReader H) s1);
               s3 = HAL_Delay 100 s2
           in snd (MDB_Reset H s3))
      | MDB_ERR_COMMUNICATION \<Rightarrow>
          (let s1 = MDB_LogMessage LOG_ERROR ''Communication error'' [] s;
               s2 = snd (ext H_DisableReader (MDB_DisableReader H) s1);
               s3 = HAL_Delay 100 s2;
               s4 = snd (MDB_Reset H s3);
               s5 = HAL_Delay 100 s4
           in snd (ext H_EnableReader (MDB_EnableReader H) s5))
      | _ \<Rightarrow>
          (let s1 = MDB_LogMessage LOG_ERROR ''Unknown error: %d'' [error_code error] s in
           snd (MDB_Reset H s1)))"

text \<open>The error statistics, with \<open>currentTime\<close> already read. The source declares
  \<open>rapidErrorCount\<close> inside the \<open>if\<close> block and also assigns it in the \<open>else\<close> branch; it is
  one counter.\<close>

definition HandleError_stats :: "helpers \<Rightarrow> u32 \<Rightarrow> engine \<Rightarrow> engine" where
  "HandleError_stats H currentTime s =
     (let s3 =
        (if currentTime - lastErrorTime s < 5000 then
           (let s1 = s\<lparr>rapidErrorCount := rapidErrorCount s + 1\<rparr> in
            if unat (rapidErrorCount s1) > 5 then
              (let s2 = MDB_LogMessage LOG_ERROR ''Too many errors, disabling reader'' [] s1;
                   s2' = snd (ext H_DisableReader (MDB_DisableReader H) s2)
               in s2'\<lparr>rapidErrorCount := 0\<rparr>)
            else s1)
         else s\<lparr>rapidErrorCount := 0\<rparr>)
      in s3\<lparr>lastErrorTime := currentTime\<rparr>)"

text \<open>The entry written to the error log. \<open>errorLog[errorLogIndex]\<close> with an index of 50 or
  more is outside the array (undefined in C); the list update leaves the log as it is
  there. The next index is computed in \<open>int\<close>.\<close>

definition HandleError_log :: "MDB_Error_t \<Rightarrow> u32 \<Rightarrow> engine \<Rightarrow> engine" where
  "HandleError_log error currentTime s =
     (let errorEntry = \<lparr>el_timestamp = currentTime, el_error = error,
                          el_state = state (mdbSession s),
                          el_lastCommand = lastCommand s ! 0,
                          el_lastResponse = rxBuffer s ! 0\<rparr>;
          s1 = s\<lparr>errorLog := (errorLog s)[unat (errorLogIndex s) := errorEntry]\<rparr>
      in s1\<lparr>errorLogIndex := of_nat ((unat (errorLogIndex s1) + 1) mod MDB_ERROR_LOG_SIZE)\<rparr>)"

definition HandleError_serious :: "MDB_Error_t \<Rightarrow> engine \<Rightarrow> engine" where
  "HandleError_serious error s =
     (if error = MDB_ERR_HARDWARE \<or> error = MDB_ERR_COMMUNICATION then
        (let s1 = s\<lparr>seriousErrorCount := seriousErrorCount s + 1\<rparr> in
         if unat (seriousErrorCount s1) \<ge> 3
         then (MDB_DumpLogs s1)\<lparr>seriousErrorCount := 0\<rparr>
         else s1)
      else s)"

definition MDB_HandleError :: "helpers \<Rightarrow> MDB_Error_t \<Rightarrow> engine \<Rightarrow> engine" where
  "MDB_HandleError H error s =
     (let s1 = MDB_LogError error s;
          s2 = HandleError_recover H error s1;
          currentTime = HAL_GetTick s2;
          s3 = HandleError_stats H currentTime s2;
          s4 = HandleError_log error currentTime s3
      in HandleError_serious error s4)"

section \<open>The message queue and the poll loop\<close>

text \<open>Modelled from the spec: \<open>MDB_ProcessMessageQueue\<close> is declared in MDB.h and defined
  nowhere in the sources. Spec 3 and 4.3: the queue is a circular buffer of 10 messages
  with a head index, a tail index and a count; \<open>dequeue\<close> is FIFO and an empty queue gives
  nothing; \<open>processAll\<close> drains the queue in arrival order, feeding each frame to the message
  handler. The frames it takes are those queued when it is called.\<close>

definition dequeue :: "engine \<Rightarrow> MDB_Message_t option \<times> engine" where
  "dequeue s =
     (let q = messageQueue s in
      if count q = 0 then (None, s)
      else (Some (messages q ! unat (head q)),
            s\<lparr>messageQueue := q\<lparr>head := of_nat ((unat (head q) + 1) mod MDB_QUEUE_SIZE),
                                  count := count q - 1\<rparr>\<rparr>))"

fun drain :: "helpers \<Rightarrow> nat \<Rightarrow> engine \<Rightarrow> engine" where
  "drain H 0 s = s"
| "drain H (Suc n) s =
     (case dequeue s of
        (None, s1) \<Rightarrow> s1
      | (Some m, s1) \<Rightarrow>
          drain H n (snd (MDB_ProcessMessage H (Some (msg_data m)) (msg_length m) s1)))"

definition MDB_ProcessMessageQueue :: "helpers \<Rightarrow> engine \<Rightarrow> engine" where
  "MDB_ProcessMessageQueue H s = drain H (unat (count (messageQueue s))) s"

definition MDB_Poll :: "helpers \<Rightarrow> engine \<Rightarrow> engine" where
  "MDB_Poll H s =
     (let currentTime = HAL_GetTick s in
      if currentTime - lastPollTime s < MDB_POLL_INTERVAL then s
      else
        let s1 = s\<lparr>lastPollTime := currentTime\<rparr>;
            s2 = MDB_ProcessMessageQueue H s1
        in case SendCommand [MDB_CMD_POLL] 1 s2 of
             (False, s3) \<Rightarrow> MDB_HandleError H MDB_ERR_COMMUNICATION s3
           | (True, s3) \<Rightarrow>
               (case WaitForResponse s3 of
                  (False, respLen, s4) \<Rightarrow> s4
                | (True, respLen, s4) \<Rightarrow>
                    let s5 = (if unat respLen > 0
                              then snd (MDB_ProcessMessage H (Some (rxBuffer s4)) respLen s4)
                              else s4)
                    in if state (mdbSession s5) = MDB_STATE_SESSION_IDLE then
                         (if currentTime - sessionTimeout (mdbSession s5) > 30000 then
                            snd (ext H_SessionComplete (MDB_SessionComplete H)
                                   (MDB_LogMessage LOG_WARNING ''Session timeout'' [] s5))
                          else s5)
                       else s5))"

section \<open>The engine at power-on\<close>

text \<open>The statics as their initialisers leave them (zero where there is none), the clock
  at 0, nothing scripted for the line and nothing done yet.\<close>

definition zero_TransactionLog :: MDB_TransactionLog_t where
  "zero_TransactionLog = \<lparr>tl_timestamp = 0, tl_type = TRANS_PAID_VEND, tl_amount = 0,
     tl_itemNumber = 0, tl_success = False, tl_error = MDB_ERR_NONE\<rparr>"

definition zero_ErrorLog :: MDB_ErrorLog_t where
  "zero_ErrorLog = \<lparr>el_timestamp = 0, el_error = MDB_ERR_NONE, el_state = MDB_STATE_INACTIVE,
     el_lastCommand = 0, el_lastResponse = 0\<rparr>"

definition engine0 :: engine where
  "engine0 = \<lparr>mdbConfig = zero_Config, mdbSession = zero_Session,
     messageQueue = zero_MessageQueue,
     transactionLog = replicate MDB_TRANSACTION_LOG_SIZE zero_TransactionLog,
     errorLog = replicate MDB_ERROR_LOG_SIZE zero_ErrorLog,
     transactionLogIndex = 0, errorLogIndex = 0, lastPollTime = 0,
     currentLogLevel = LOG_INFO,
     txBuffer = replicate MDB_MAX_MESSAGE_LENGTH 0,
     rxBuffer = replicate MDB_MAX_MESSAGE_LENGTH 0,
     lastCommand = replicate MDB_MAX_MESSAGE_LENGTH 0,
     lastCommandLength = 0, retryCount = 0,
     lastErrorTime = 0, rapidErrorCount = 0, seriousErrorCount = 0,
     tick = 0, rx_script = [], tx_script = [], events = []\<rparr>"

text \<open>The engine after power-on and one POLL sent.\<close>

definition polled :: engine where
  "polled = snd (SendCommand [MDB_CMD_POLL] 1 engine0)"

text \<open>The engine at tick 200 with two frames in the queue: a begin-session frame and a
  frame with the unknown command 0x09.\<close>

definition two_queued :: engine where
  "two_queued =
     engine0\<lparr>tick := 200,
       messageQueue :=
         \<lparr>messages =
            [\<lparr>msg_data = 0x03 # replicate 35 0, msg_length = 1, msg_timestamp = 150\<rparr>,
             \<lparr>msg_data = 0x09 # replicate 35 0, msg_length = 1, msg_timestamp = 180\<rparr>] @
            replicate 8 zero_Message,
          head = 0, tail = 2, count = 2\<rparr>\<rparr>"

section \<open>Observations, and one instance of the parameters\<close>

text \<open>The events a run from \<open>s\<close> to \<open>s'\<close> added.\<close>

definition new_events :: "engine \<Rightarrow> engine \<Rightarrow> event list" where
  "new_events s s' = drop (length (events s)) (events s')"

text \<open>The run from \<open>s\<close> to \<open>s'\<close> only added events, and each of them satisfies \<open>P\<close>.\<close>

definition adds :: "(event \<Rightarrow> bool) \<Rightarrow> engine \<Rightarrow> engine \<Rightarrow> bool" where
  "adds P s s' =
     (take (length (events s)) (events s') = events s \<and> list_all P (new_events s s'))"

text \<open>The events of the serial link and the error reports.\<close>

fun link_event :: "event \<Rightarrow> bool" where
  "link_event (EvTransmit bytes ok) = True"
| "link_event (EvReceive timeout r) = True"
| "link_event (EvError e) = True"
| "link_event _ = False"

text \<open>The events of receiving: the reads and the error reports.\<close>

fun rx_event :: "event \<Rightarrow> bool" where
  "rx_event (EvReceive timeout r) = True"
| "rx_event (EvError e) = True"
| "rx_event _ = False"

text \<open>The first thing \<open>MDB_Reset\<close> does, and the first thing the burst detector does when
  it disables the reader.\<close>

definition reset_marker :: event where
  "reset_marker = EvLog LOG_INFO ''Performing reset...'' []"

definition burst_marker :: event where
  "burst_marker = EvLog LOG_ERROR ''Too many errors, disabling reader'' []"

text \<open>The variables that neither \<open>SendCommand\<close> nor \<open>WaitForResponse\<close> assigns.\<close>

definition vars ::
  "engine \<Rightarrow> MDB_Config_t \<times> MDB_Session_t \<times> MDB_MessageQueue_t \<times> MDB_TransactionLog_t list \<times>
     MDB_ErrorLog_t list \<times> u8 \<times> u8 \<times> u32 \<times> MDB_LogLevel_t \<times> u8 \<times> u32 \<times> u8 \<times> u8" where
  "vars s = (mdbConfig s, mdbSession s, messageQueue s, transactionLog s, errorLog s,
     transactionLogIndex s, errorLogIndex s, lastPollTime s, currentLogLevel s,
     retryCount s, lastErrorTime s, rapidErrorCount s, seriousErrorCount s)"

text \<open>What the next call of \<open>HAL_UART_Transmit\<close> returns.\<close>

definition tx_outcome :: "engine \<Rightarrow> bool" where
  "tx_outcome s = (case tx_script s of [] \<Rightarrow> True | ok # rest \<Rightarrow> ok)"

text \<open>A function the sources do not define leaves the part \<open>f\<close> of the engine as it was.\<close>

definition keeps :: "(engine \<Rightarrow> 'a) \<Rightarrow> (engine \<Rightarrow> bool \<times> engine) \<Rightarrow> bool" where
  "keeps f h = (\<forall>s. f (snd (h s)) = f s)"

text \<open>The four functions the recovery actions call and the sources do not define leave
  the part \<open>f\<close> of the engine as it was.\<close>

definition helpers_keep :: "(engine \<Rightarrow> 'a) \<Rightarrow> helpers \<Rightarrow> bool" where
  "helpers_keep f H =
     (keeps f (MDB_EnableReader H) \<and> keeps f (MDB_DisableReader H) \<and>
      keeps f (MDB_SessionComplete H) \<and> keeps f (MDB_VendFailure H))"

text \<open>The tick \<open>MDB_HandleError\<close> reads as \<open>currentTime\<close>, after the recovery action, and the
  engine at the moment the entry of the error log is built.\<close>

definition error_time :: "helpers \<Rightarrow> MDB_Error_t \<Rightarrow> engine \<Rightarrow> u32" where
  "error_time H error s = HAL_GetTick (HandleError_recover H error (MDB_LogError error s))"

definition at_logging :: "helpers \<Rightarrow> MDB_Error_t \<Rightarrow> engine \<Rightarrow> engine" where
  "at_logging H error s =
     HandleError_stats H (error_time H error s)
       (HandleError_recover H error (MDB_LogError error s))"

text \<open>Errors handled one after the other, each after some time spent outside the engine.\<close>

definition idle :: "u32 \<Rightarrow> engine \<Rightarrow> engine" where
  "idle dt s = s\<lparr>tick := tick s + dt\<rparr>"

fun handle_all :: "helpers \<Rightarrow> (u32 \<times> MDB_Error_t) list \<Rightarrow> engine \<Rightarrow> engine" where
  "handle_all H [] s = s"
| "handle_all H ((dt, error) # es) s = handle_all H es (MDB_HandleError H error (idle dt s))"

text \<open>Every event but the one that marks a burst.\<close>

definition quiet :: "event \<Rightarrow> bool" where
  "quiet e = (e \<noteq> burst_marker)"

text \<open>\<open>rapid\<close>: every error of the run is handled less than 5000 ms after the time recorded
  for the error before it, the first one after the time the engine holds when the run
  starts. \<open>spaced\<close>: each is handled 5000 ms or more after it. The times are the ticks the
  handler reads, compared as the handler compares them.\<close>

fun rapid :: "helpers \<Rightarrow> (u32 \<times> MDB_Error_t) list \<Rightarrow> engine \<Rightarrow> bool" where
  "rapid H [] s = True"
| "rapid H ((dt, error) # es) s =
     (error_time H error (idle dt s) - lastErrorTime (idle dt s) < 5000 \<and>
      rapid H es (MDB_HandleError H error (idle dt s)))"

fun spaced :: "helpers \<Rightarrow> (u32 \<times> MDB_Error_t) list \<Rightarrow> engine \<Rightarrow> bool" where
  "spaced H [] s = True"
| "spaced H ((dt, error) # es) s =
     (\<not> error_time H error (idle dt s) - lastErrorTime (idle dt s) < 5000 \<and>
      spaced H es (MDB_HandleError H error (idle dt s)))"

text \<open>For the NAK policy: the log line of a retry, the frame a resend puts on the line,
  whether a command is recorded that \<open>SendCommand\<close> will take (and the arrays involved have
  their sizes), the transmissions among the events, and the NAKs among the errors of a
  run.\<close>

definition retry_log :: "nat \<Rightarrow> event" where
  "retry_log k = EvLog LOG_WARNING ''Retrying command, attempt %d'' [k]"

definition last_command_frame :: "engine \<Rightarrow> u8 list" where
  "last_command_frame s =
     take (unat (lastCommandLength s)) (lastCommand s) @
     [CalculateChecksum (lastCommand s) (lastCommandLength s)]"

definition command_recorded :: "engine \<Rightarrow> bool" where
  "command_recorded s =
     (0 < unat (lastCommandLength s) \<and>
      unat (lastCommandLength s) \<le> MDB_MAX_MESSAGE_LENGTH - 1 \<and>
      unat (lastCommandLength s) \<le> length (lastCommand s) \<and>
      length (txBuffer s) = MDB_MAX_MESSAGE_LENGTH)"

fun is_transmit :: "event \<Rightarrow> bool" where
  "is_transmit (EvTransmit bytes ok) = True"
| "is_transmit _ = False"

definition is_nak :: "u32 \<times> MDB_Error_t \<Rightarrow> bool" where
  "is_nak x = (snd x = MDB_ERR_NAK)"

text \<open>For the poll loop: the frames in the queue in arrival order, the invariant of the
  queue that the code relies on, the five command handlers leaving a part of the engine
  as it was, and what the events show of the frames the message handler was given: the
  command byte it logs for a frame it takes (\<open>Some\<close>), or its \<open>Parameter\<close> report for a frame
  of length 0 (\<open>None\<close>).\<close>

definition queued :: "engine \<Rightarrow> MDB_Message_t list" where
  "queued s =
     map (\<lambda>i. messages (messageQueue s) ! ((unat (head (messageQueue s)) + i) mod MDB_QUEUE_SIZE))
       [0..<unat (count (messageQueue s))]"

definition queue_ok :: "engine \<Rightarrow> bool" where
  "queue_ok s =
     (unat (head (messageQueue s)) < MDB_QUEUE_SIZE \<and>
      unat (count (messageQueue s)) \<le> MDB_QUEUE_SIZE \<and>
      length (messages (messageQueue s)) = MDB_QUEUE_SIZE)"

definition handlers_keep :: "(engine \<Rightarrow> 'a) \<Rightarrow> helpers \<Rightarrow> bool" where
  "handlers_keep f H =
     (keeps f (HandleJustReset H) \<and> (\<forall>msg len. keeps f (HandleBeginSession H msg len)) \<and>
      (\<forall>msg len. keeps f (HandleVendApproved H msg len)) \<and>
      keeps f (HandleVendDenied H) \<and> keeps f (HandleEndSession H))"

fun fed :: "event list \<Rightarrow> nat option list" where
  "fed [] = []"
| "fed (EvLog level format args # evs) =
     (if level = LOG_DEBUG \<and> format = ''Processing message: command=0x%02X''
      then Some (hd args) # fed evs else fed evs)"
| "fed (EvError error # evs) =
     (if error = MDB_ERR_PARAMETER then None # fed evs else fed evs)"
| "fed (e # evs) = fed evs"

text \<open>The events the processing of the queue adds: log lines, error reports and calls of
  the five command handlers. A call stands for all the handler does, the sources not
  defining it.\<close>

fun handler_call :: "helper \<Rightarrow> bool" where
  "handler_call H_HandleJustReset = True"
| "handler_call H_HandleBeginSession = True"
| "handler_call H_HandleVendApproved = True"
| "handler_call H_HandleVendDenied = True"
| "handler_call H_HandleEndSession = True"
| "handler_call _ = False"

fun queue_event :: "event \<Rightarrow> bool" where
  "queue_event (EvLog level format args) = True"
| "queue_event (EvError error) = True"
| "queue_event (EvCall h) = handler_call h"
| "queue_event _ = False"

definition frame_seen :: "MDB_Message_t \<Rightarrow> nat option" where
  "frame_seen m = (if msg_length m = 0 then None else Some (unat (msg_data m ! 0)))"

definition set_state :: "MDB_State_t \<Rightarrow> engine \<Rightarrow> engine" where
  "set_state st s = s\<lparr>mdbSession := (mdbSession s)\<lparr>state := st\<rparr>\<rparr>"

text \<open>Modelled from the spec: an instance of the functions Mdb.c calls and does not
  define, for the worked examples. Each makes the state change spec 4.2 gives it
  (\<open>EnableReader\<close> while \<open>Disabled\<close> goes to \<open>Enabled\<close> and is illegal elsewhere;
  \<open>DisableReader\<close> from \<open>Enabled\<close> or deeper goes to \<open>Disabled\<close>; \<open>SessionComplete\<close> goes to
  \<open>Enabled\<close> with the session fields cleared; a begin-session frame while \<open>Enabled\<close> goes to
  \<open>SessionIdle\<close>; vend approved or denied while \<open>Vend\<close> goes to \<open>SessionIdle\<close>; a just-reset
  frame resets config and session). What they send is left out. The five command bytes are
  those of the MDB cashless-device standard; the sources do not give them.\<close>

definition example_helpers :: helpers where
  "example_helpers =
     \<lparr>MDB_SetState = set_state,
      MDB_EnableReader =
        (\<lambda>s. if state (mdbSession s) = MDB_STATE_DISABLED
              then (True, set_state MDB_STATE_ENABLED s) else (False, s)),
      MDB_DisableReader =
        (\<lambda>s. if state_ord (state (mdbSession s)) \<ge> state_ord MDB_STATE_ENABLED
              then (True, set_state MDB_STATE_DISABLED s) else (False, s)),
      MDB_SessionComplete =
        (\<lambda>s. (True, s\<lparr>mdbSession := zero_Session\<lparr>state := MDB_STATE_ENABLED\<rparr>\<rparr>)),
      MDB_VendFailure =
        (\<lambda>s. if state (mdbSession s) = MDB_STATE_VEND
              then (True, set_state MDB_STATE_SESSION_IDLE s) else (False, s)),
      ParseConfiguration = (\<lambda>response len s. (True, s)),
      HandleJustReset =
        (\<lambda>s. (True, s\<lparr>mdbConfig := zero_Config, mdbSession := zero_Session\<rparr>)),
      HandleBeginSession =
        (\<lambda>msg len s. if state (mdbSession s) = MDB_STATE_ENABLED
                      then (True, set_state MDB_STATE_SESSION_IDLE s) else (False, s)),
      HandleVendApproved =
        (\<lambda>msg len s. if state (mdbSession s) = MDB_STATE_VEND
                      then (True, set_state MDB_STATE_SESSION_IDLE s) else (False, s)),
      HandleVendDenied =
        (\<lambda>s. if state (mdbSession s) = MDB_STATE_VEND
              then (True, set_state MDB_STATE_SESSION_IDLE s) else (False, s)),
      HandleEndSession =
        (\<lambda>s. (True, s\<lparr>mdbSession := zero_Session\<lparr>state := MDB_STATE_ENABLED\<rparr>\<rparr>)),
      MDBRxCashlessJustReset = 0x00,
      MDBRxCashlessBeginSession = 0x03,
      MDBRxCashlessVendApproved = 0x05,
      MDBRxCashlessVendDenied = 0x06,
      MDBRxCashlessEndSession = 0x07\<rparr>"

section \<open>Properties of the transport\<close>

lemma promoted_byte_has_no_bit_8: "(ucast (b :: u8) :: u32) AND 0x100 = 0"
proof (rule bit_word_eqI)
  fix n assume "n < LENGTH(32)"
  have p: "(0x100 :: u32) = 2 ^ 8" by simp
  have q: "bit (2 ^ 8 :: u32) n \<Longrightarrow> n = 8" by (simp only: bit_exp_iff)
  have r: "bit (ucast b :: u32) n \<Longrightarrow> n < 8"
    using bit_imp_le_length [of b n] by (simp add: bit_simps)
  have "\<not> bit ((ucast b :: u32) AND 2 ^ 8) n"
    using q r by (auto simp only: bit_and_iff)
  then show "bit ((ucast b :: u32) AND 0x100) n = bit (0 :: u32) n"
    by (simp only: p bit_0_eq) simp
qed

lemma mode_bit_never: "\<not> mode_bit b"
  unfolding mode_bit_def using promoted_byte_has_no_bit_8 by simp

lemma WaitForResponse_more_fails: "\<not> fst (WaitForResponse_more len s)"
proof (induction len s rule: WaitForResponse_more.induct)
  case (1 len s)
  show ?case
    apply (subst WaitForResponse_more.simps)
    using 1
    by (auto simp: mode_bit_never Let_def split: prod.splits option.splits)
qed

lemma WaitForResponse_frame_fails: "\<not> fst (WaitForResponse_frame s)"
  using WaitForResponse_more_fails [of 1 s]
  by (auto simp: WaitForResponse_frame_def split: prod.splits bool.splits)

lemma WaitForResponse_wait_fails: "\<not> fst (WaitForResponse_wait t s)"
proof (induction t s rule: WaitForResponse_wait.induct)
  case (1 t s)
  show ?case
    apply (subst WaitForResponse_wait.simps)
    using 1
    by (auto simp: WaitForResponse_frame_fails split: prod.splits option.splits)
qed

lemma WaitForResponse_fails: "\<not> fst (WaitForResponse s)"
  by (simp add: WaitForResponse_def WaitForResponse_wait_fails)

lemma HAL_UART_Transmit_eq:
  "HAL_UART_Transmit bytes s =
     (tx_outcome s, s\<lparr>tx_script := tl (tx_script s),
                      events := events s @ [EvTransmit bytes (tx_outcome s)]\<rparr>)"
  by (cases "tx_script s") (simp_all add: HAL_UART_Transmit_def tx_outcome_def emit_def)

lemma frame_in_txBuffer:
  assumes "n \<le> length data" and "n < length tx"
  shows "take (Suc n) ((take n data @ drop n tx)[n := c]) = take n data @ [c]"
    and "(take n data @ drop n tx)[n := c] = take n data @ c # drop (Suc n) tx"
  using assms
  by (auto simp: list_update_append take_Suc_conv_app_nth nth_append min_def
      Cons_nth_drop_Suc upd_conv_take_nth_drop)

lemma SendCommand_sends:
  assumes "unat len \<le> MDB_MAX_MESSAGE_LENGTH - 1" and "unat len \<le> length data"
    and "unat len < length (txBuffer s)"
  shows "SendCommand data len s =
     (tx_outcome s,
      s\<lparr>lastCommand := take (unat len) data @ drop (unat len) (lastCommand s),
        lastCommandLength := len,
        txBuffer := take (unat len) data @ CalculateChecksum data len #
                      drop (Suc (unat len)) (txBuffer s),
        tx_script := tl (tx_script s),
        events := events s @
          EvTransmit (take (unat len) data @ [CalculateChecksum data len]) (tx_outcome s) #
          (if tx_outcome s then [] else [EvError MDB_ERR_COMMUNICATION])\<rparr>)"
  using assms
  by (simp add: SendCommand_def Let_def memcpy_def HAL_UART_Transmit_eq emit_def
      MDB_LogError_def frame_in_txBuffer tx_outcome_def)

subsection \<open>What the link functions leave alone\<close>

lemma adds_iff: "adds P s s' \<longleftrightarrow> (\<exists>evs. events s' = events s @ evs \<and> (\<forall>e\<in>set evs. P e))"
proof
  assume a: "adds P s s'"
  then have "events s' = events s @ new_events s s'"
    unfolding adds_def new_events_def by (metis append_take_drop_id)
  with a show "\<exists>evs. events s' = events s @ evs \<and> (\<forall>e\<in>set evs. P e)"
    unfolding adds_def by (auto simp: list_all_iff)
next
  assume "\<exists>evs. events s' = events s @ evs \<and> (\<forall>e\<in>set evs. P e)"
  then show "adds P s s'" by (auto simp: adds_def new_events_def list_all_iff)
qed

lemma adds_refl: "adds P s s"
  by (simp add: adds_iff)

lemma adds_trans: "adds P s s' \<Longrightarrow> adds P s' s'' \<Longrightarrow> adds P s s''"
  unfolding adds_iff by (metis Un_iff append.assoc set_append)

lemma adds_mono: "adds P s s' \<Longrightarrow> (\<And>e. P e \<Longrightarrow> Q e) \<Longrightarrow> adds Q s s'"
  unfolding adds_iff by blast

lemma adds_emit: "P e \<Longrightarrow> adds P s (emit e s)"
  by (simp add: adds_iff emit_def)

lemma adds_then_emit: "adds P s s' \<Longrightarrow> P e \<Longrightarrow> adds P s (emit e s')"
  by (auto simp: adds_iff emit_def)

lemma vars_emit: "vars (emit e s) = vars s"
  by (simp add: vars_def emit_def)

lemma receive_link:
  "HAL_UART_Receive t s = (r, s') \<Longrightarrow> vars s' = vars s \<and> adds rx_event s s'"
  by (auto simp: HAL_UART_Receive_def vars_def emit_def adds_iff split: list.splits prod.splits)

lemma more_link:
  "WaitForResponse_more len s = (ok, len', s') \<Longrightarrow> vars s' = vars s \<and> adds rx_event s s'"
proof (induction len s arbitrary: ok len' s' rule: WaitForResponse_more.induct)
  case (1 len s)
  obtain r s1 where r: "HAL_UART_Receive MDB_INTERBYTE_TIMEOUT s = (r, s1)" by force
  note l1 = receive_link [OF r]
  show ?case
  proof (cases r)
    case None
    with 1(2) r l1 show ?thesis
      by (subst (asm) WaitForResponse_more.simps)
         (auto simp: mode_bit_never MDB_LogError_def vars_emit intro: adds_then_emit)
  next
    case (Some b)
    let ?s2 = "s1\<lparr>rxBuffer := (rxBuffer s1)[unat len := b]\<rparr>"
    have l2: "vars ?s2 = vars s \<and> adds rx_event s ?s2"
      using l1 by (simp add: vars_def adds_iff)
    show ?thesis
    proof (cases "unat (len + 1) \<ge> MDB_MAX_MESSAGE_LENGTH")
      case True
      with 1(2) r Some l2 show ?thesis
        by (subst (asm) WaitForResponse_more.simps)
           (auto simp: mode_bit_never MDB_LogError_def vars_emit Let_def intro: adds_then_emit)
    next
      case False
      with 1(2) r Some have "WaitForResponse_more (len + 1) ?s2 = (ok, len', s')"
        by (subst (asm) WaitForResponse_more.simps) (simp add: mode_bit_never Let_def)
      from 1(1) [OF _ _ _ refl False this] r Some l2 show ?thesis
        by (auto simp: mode_bit_never intro: adds_trans)
    qed
  qed
qed

lemma frame_link:
  "WaitForResponse_frame s = (ok, len', s') \<Longrightarrow> vars s' = vars s \<and> adds rx_event s s'"
proof -
  assume a: "WaitForResponse_frame s = (ok, len', s')"
  obtain ok1 len1 s1 where m: "WaitForResponse_more 1 s = (ok1, len1, s1)"
    by (metis prod_cases3)
  with WaitForResponse_more_fails [of 1 s] have "\<not> ok1" by simp
  with a m have "s' = s1" by (simp add: WaitForResponse_frame_def)
  with more_link [OF m] show ?thesis by simp
qed

lemma wait_link:
  "WaitForResponse_wait t s = (ok, len', s') \<Longrightarrow> vars s' = vars s \<and> adds rx_event s s'"
proof (induction t s arbitrary: ok len' s' rule: WaitForResponse_wait.induct)
  case (1 t s)
  show ?case
  proof (cases "HAL_GetTick s - t < MDB_RESPONSE_TIMEOUT")
    case False
    with 1(2) show ?thesis
      by (subst (asm) WaitForResponse_wait.simps)
         (auto simp: MDB_LogError_def vars_emit intro: adds_emit)
  next
    case True
    obtain r s1 where r: "HAL_UART_Receive 1 s = (r, s1)" by force
    note l1 = receive_link [OF r]
    show ?thesis
    proof (cases r)
      case None
      with 1(2) r True have "WaitForResponse_wait t s1 = (ok, len', s')"
        by (subst (asm) WaitForResponse_wait.simps) simp
      from 1(1) [OF True r [symmetric] None this] l1 show ?thesis
        by (auto intro: adds_trans)
    next
      case (Some b)
      let ?s2 = "s1\<lparr>rxBuffer := (rxBuffer s1)[0 := b]\<rparr>"
      have l2: "vars ?s2 = vars s \<and> adds rx_event s ?s2"
        using l1 by (simp add: vars_def adds_iff)
      from 1(2) r True Some have "WaitForResponse_frame ?s2 = (ok, len', s')"
        by (subst (asm) WaitForResponse_wait.simps) simp
      from frame_link [OF this] l2 show ?thesis by (auto intro: adds_trans)
    qed
  qed
qed

lemma WaitForResponse_link:
  "WaitForResponse s = (ok, len', s') \<Longrightarrow> vars s' = vars s \<and> adds rx_event s s'"
  unfolding WaitForResponse_def by (rule wait_link)

lemma rx_is_link: "rx_event e \<Longrightarrow> link_event e"
  by (cases e) simp_all

lemma WaitForResponse_link_events:
  "WaitForResponse s = (ok, len', s') \<Longrightarrow> vars s' = vars s \<and> adds link_event s s'"
  using WaitForResponse_link rx_is_link adds_mono by blast

lemma SendCommand_link:
  "SendCommand data len s = (ok, s') \<Longrightarrow> vars s' = vars s \<and> adds link_event s s'"
  by (auto simp: SendCommand_def Let_def HAL_UART_Transmit_eq MDB_LogError_def emit_def
      vars_def adds_iff split: if_splits)

lemma WaitForResponse_not_True: "WaitForResponse s = (True, len, s') \<Longrightarrow> False"
  using WaitForResponse_fails [of s] by simp

lemma MDB_Reset_fails: "\<not> fst (MDB_Reset H s)"
  by (auto simp: MDB_Reset_def Let_def split: prod.splits bool.splits
      dest: WaitForResponse_not_True)

lemma MDB_Reset_link:
  assumes "MDB_Reset H s = (ok, s')"
  shows "vars s' = vars s \<and> adds link_event (emit reset_marker s) s'"
proof -
  let ?s0 = "emit reset_marker s"
  obtain ok1 s1 where c: "SendCommand [MDB_CMD_RESET] 1 ?s0 = (ok1, s1)" by force
  note l1 = SendCommand_link [OF c]
  have v0: "vars ?s0 = vars s" by (rule vars_emit)
  show ?thesis
  proof (cases ok1)
    case False
    with assms c have "s' = MDB_LogError MDB_ERR_COMMUNICATION s1"
      by (simp add: MDB_Reset_def MDB_LogMessage_def reset_marker_def)
    with l1 v0 show ?thesis
      by (auto simp: MDB_LogError_def vars_emit intro: adds_then_emit)
  next
    case True
    obtain ok2 len2 s2 where w: "WaitForResponse s1 = (ok2, len2, s2)" by (metis prod_cases3)
    with WaitForResponse_fails [of s1] have "\<not> ok2" by simp
    with assms c True w have "s' = MDB_LogError MDB_ERR_TIMEOUT s2"
      by (simp add: MDB_Reset_def MDB_LogMessage_def reset_marker_def)
    with l1 v0 WaitForResponse_link_events [OF w] show ?thesis
      by (auto simp: MDB_LogError_def vars_emit intro: adds_then_emit adds_trans)
  qed
qed

lemma vars_state: "vars s' = vars s \<Longrightarrow> mdbSession s' = mdbSession s"
  by (simp add: vars_def)

text \<open>
  C1. The claim: a lone control byte that carries the frame-terminating marker, such as
  ACK 0x00 with nothing after it, makes \<open>WaitForResponse\<close> return success with a one-byte
  frame. The code does not: the marker is tested as bit 8 of a byte
  (\<open>promoted_byte_has_no_bit_8\<close>), so the loop never sees it and asks for another byte. On
  ACK followed by silence the interbyte read fails, and the function reports
  \<open>Communication\<close> and returns false. By \<open>WaitForResponse_fails\<close> no input at all makes it
  return success.
\<close>

theorem C1_lone_ACK_is_a_communication_failure:
  "(case WaitForResponse (engine0\<lparr>rx_script := [(0, Some MDB_ACK)]\<rparr>) of
      (ok, len, s) \<Rightarrow> (ok, len, events s)) =
   (False, 1, [EvReceive 1 (Some 0), EvReceive 1 None, EvError MDB_ERR_COMMUNICATION])"
  by (simp add: WaitForResponse_def HAL_GetTick_def engine0_def WaitForResponse_wait.simps
      MDB_RESPONSE_TIMEOUT_def HAL_UART_Receive_def emit_def WaitForResponse_frame_def
      WaitForResponse_more.simps mode_bit_never MDB_INTERBYTE_TIMEOUT_def MDB_LogError_def
      MDB_ACK_def)

text \<open>
  C7. \<open>SendCommand\<close> with a payload longer than \<open>MDB_MAX_MESSAGE_LENGTH - 1 = 35\<close> bytes
  reports \<open>Parameter\<close>, returns false and does nothing else: nothing is transmitted and no
  variable changes. With a payload of at most 35 bytes (the caller's buffer holding that
  many, and \<open>txBuffer\<close> having its 36 slots) it records the payload and its length as the
  last command, puts payload and checksum into \<open>txBuffer\<close>, hands those \<open>len + 1\<close> bytes to
  the transport, and returns what the transport returns, reporting \<open>Communication\<close> when the
  write fails.
\<close>

theorem C7_SendCommand:
  "(unat len > MDB_MAX_MESSAGE_LENGTH - 1 \<longrightarrow>
      SendCommand data len s =
        (False, s\<lparr>events := events s @ [EvError MDB_ERR_PARAMETER]\<rparr>)) \<and>
   (unat len \<le> MDB_MAX_MESSAGE_LENGTH - 1 \<and> unat len \<le> length data \<and>
    length (txBuffer s) = MDB_MAX_MESSAGE_LENGTH \<longrightarrow>
      (let frame = take (unat len) data @ [CalculateChecksum data len];
           ok = tx_outcome s
       in length frame = unat len + 1 \<and>
          SendCommand data len s =
            (ok, s\<lparr>lastCommand := take (unat len) data @ drop (unat len) (lastCommand s),
                    lastCommandLength := len,
                    txBuffer := frame @ drop (unat len + 1) (txBuffer s),
                    tx_script := tl (tx_script s),
                    events := events s @ EvTransmit frame ok #
                                (if ok then [] else [EvError MDB_ERR_COMMUNICATION])\<rparr>)))"
proof (intro conjI impI)
  assume "unat len > MDB_MAX_MESSAGE_LENGTH - 1"
  then show "SendCommand data len s =
      (False, s\<lparr>events := events s @ [EvError MDB_ERR_PARAMETER]\<rparr>)"
    by (simp add: SendCommand_def MDB_LogError_def emit_def)
next
  assume a: "unat len \<le> MDB_MAX_MESSAGE_LENGTH - 1 \<and> unat len \<le> length data \<and>
    length (txBuffer s) = MDB_MAX_MESSAGE_LENGTH"
  then have n: "unat len \<le> MDB_MAX_MESSAGE_LENGTH - 1" "unat len \<le> length data"
      "unat len < length (txBuffer s)"
    by (simp_all add: MDB_MAX_MESSAGE_LENGTH_def)
  show "let frame = take (unat len) data @ [CalculateChecksum data len];
           ok = tx_outcome s
       in length frame = unat len + 1 \<and>
          SendCommand data len s =
            (ok, s\<lparr>lastCommand := take (unat len) data @ drop (unat len) (lastCommand s),
                    lastCommandLength := len,
                    txBuffer := frame @ drop (unat len + 1) (txBuffer s),
                    tx_script := tl (tx_script s),
                    events := events s @ EvTransmit frame ok #
                                (if ok then [] else [EvError MDB_ERR_COMMUNICATION])\<rparr>)"
    using n(2) by (simp add: Let_def SendCommand_sends [OF n])
qed

text \<open>At power-on: a 36-byte payload is refused, and the two bytes 0x14 0x01 go out with the
  checksum 0x15 over a transport whose write fails.\<close>

theorem C7_SendCommand_witness:
  "SendCommand (replicate 36 0x12) 36 engine0 =
     (False, engine0\<lparr>events := [EvError MDB_ERR_PARAMETER]\<rparr>) \<and>
   SendCommand [0x14, 0x01] 2 (engine0\<lparr>tx_script := [False]\<rparr>) =
     (False, engine0\<lparr>lastCommand := [0x14, 0x01] @ replicate 34 0, lastCommandLength := 2,
        txBuffer := [0x14, 0x01, 0x15] @ replicate 33 0,
        events := [EvTransmit [0x14, 0x01, 0x15] False, EvError MDB_ERR_COMMUNICATION]\<rparr>)"
  using C7_SendCommand [of 36 "replicate 36 0x12" engine0]
    C7_SendCommand [of 2 "[0x14, 0x01]" "engine0\<lparr>tx_script := [False]\<rparr>"]
  by (simp add: MDB_MAX_MESSAGE_LENGTH_def engine0_def tx_outcome_def CalculateChecksum_def
      Let_def)

section \<open>Properties of the message handler\<close>

text \<open>
  C9. Called with a null message pointer or a length of zero, the message handler reports
  \<open>Parameter\<close> and returns false. It calls no command handler and leaves the session state,
  and every other variable of the engine, as it was: the report is all that happens.
\<close>

theorem C9_null_or_empty_message:
  "len = 0 \<or> msg = None \<Longrightarrow>
     MDB_ProcessMessage H msg len s =
       (False, s\<lparr>events := events s @ [EvError MDB_ERR_PARAMETER]\<rparr>)"
  by (simp add: MDB_ProcessMessage_def MDB_LogError_def emit_def)

theorem C9_null_or_empty_message_witness:
  "MDB_ProcessMessage example_helpers None 3 engine0 =
     (False, engine0\<lparr>events := [EvError MDB_ERR_PARAMETER]\<rparr>) \<and>
   MDB_ProcessMessage example_helpers (Some [0x03, 0x10]) 0 engine0 =
     (False, engine0\<lparr>events := [EvError MDB_ERR_PARAMETER]\<rparr>)"
  using C9_null_or_empty_message [of 3 None example_helpers engine0]
    C9_null_or_empty_message [of 0 "Some [0x03, 0x10]" example_helpers engine0]
  by (simp add: engine0_def)

text \<open>
  C10. A message with at least one byte whose first byte is none of the five handled
  commands (just reset, begin session, vend approved, vend denied, end session) makes the
  message handler return false. It logs the command as unknown and reports \<open>Sequence\<close>; it
  calls no command handler, and the session state and every other variable stay as they
  were.
\<close>

theorem C10_unknown_command:
  assumes "len \<noteq> 0" and "msg = Some m" and "m \<noteq> []"
    and "m ! 0 \<notin> {MDBRxCashlessJustReset H, MDBRxCashlessBeginSession H,
                  MDBRxCashlessVendApproved H, MDBRxCashlessVendDenied H,
                  MDBRxCashlessEndSession H}"
  shows "MDB_ProcessMessage H msg len s =
     (False, s\<lparr>events := events s @
        [EvLog LOG_DEBUG ''Processing message: command=0x%02X'' [unat (m ! 0)],
         EvLog LOG_WARNING ''Unknown command received: 0x%02X'' [unat (m ! 0)],
         EvError MDB_ERR_SEQUENCE]\<rparr>)"
  using assms
  by (simp add: MDB_ProcessMessage_def ProcessMessage_switch_def MDB_LogError_def
      MDB_LogMessage_def emit_def Let_def)

theorem C10_unknown_command_witness:
  "MDB_ProcessMessage example_helpers (Some [0x09, 0x01]) 2 engine0 =
     (False, engine0\<lparr>events :=
        [EvLog LOG_DEBUG ''Processing message: command=0x%02X'' [9],
         EvLog LOG_WARNING ''Unknown command received: 0x%02X'' [9],
         EvError MDB_ERR_SEQUENCE]\<rparr>)"
  using C10_unknown_command [of 2 "Some [0x09, 0x01]" "[0x09, 0x01]" example_helpers engine0]
  by (simp add: engine0_def example_helpers_def)

section \<open>Properties of reset and initialisation\<close>

text \<open>
  C3. \<open>MDB_Initialize\<close> returns true only after \<open>MDB_Reset\<close> has returned true, which needs a
  response whose first byte is 0x00, and after the setup response has been received and
  has passed the checksum. No run gets that far: \<open>WaitForResponse\<close> returns false on every
  input (\<open>WaitForResponse_fails\<close>), so \<open>MDB_Reset\<close> does, and \<open>MDB_Initialize\<close> returns false
  whatever the line delivers. The session state, set to \<open>Inactive\<close> at the start, is
  \<open>Inactive\<close> when it returns.
\<close>

theorem C3_Initialize_fails_and_stays_Inactive:
  "\<not> fst (MDB_Initialize H s) \<and>
   state (mdbSession (snd (MDB_Initialize H s))) = MDB_STATE_INACTIVE"
proof -
  let ?s2 = "(MDB_LogMessage LOG_INFO ''Initializing MDB interface...'' []
               (s\<lparr>mdbConfig := zero_Config, mdbSession := zero_Session,
                   messageQueue := zero_MessageQueue\<rparr>))
             \<lparr>mdbSession := zero_Session\<lparr>state := MDB_STATE_INACTIVE\<rparr>\<rparr>"
  obtain ok s3 where r: "MDB_Reset H ?s2 = (ok, s3)" by force
  with MDB_Reset_fails [of H ?s2] have nok: "\<not> ok" by simp
  from MDB_Reset_link [OF r] have "mdbSession s3 = mdbSession ?s2" by (simp add: vars_def)
  then have st: "state (mdbSession s3) = MDB_STATE_INACTIVE" by simp
  have "MDB_Initialize H s = (False, MDB_LogMessage LOG_ERROR ''Reset failed'' [] s3)"
    using r nok by (simp add: MDB_Initialize_def Let_def MDB_LogMessage_def emit_def)
  with st show ?thesis by (simp add: MDB_LogMessage_def emit_def)
qed

section \<open>Properties of the error handler\<close>

lemma events_stats:
  "events (HandleError_stats H t s) =
     events s @ (if t - lastErrorTime s < 5000 \<and> 5 < unat (rapidErrorCount s + 1)
                 then [burst_marker, EvCall H_DisableReader] else [])"
  by (simp add: HandleError_stats_def Let_def MDB_LogMessage_def emit_def ext_def
      burst_marker_def split: prod.splits)

lemma events_log: "events (HandleError_log e t s) = events s"
  by (simp add: HandleError_log_def Let_def)

lemma events_serious:
  "events (HandleError_serious e s) =
     events s @ (if (e = MDB_ERR_HARDWARE \<or> e = MDB_ERR_COMMUNICATION) \<and>
                    3 \<le> unat (seriousErrorCount s + 1) then [EvDumpLogs] else [])"
  by (simp add: HandleError_serious_def Let_def MDB_DumpLogs_def emit_def)

lemma new_events_append: "events s' = events s @ evs \<Longrightarrow> new_events s s' = evs"
  by (simp add: new_events_def)

lemma count_link: "\<forall>e\<in>set evs. link_event e \<Longrightarrow> count_list evs reset_marker = 0"
  by (induction evs) (auto simp: reset_marker_def)


subsection \<open>What the recovery actions add and keep\<close>

lemma ext_events: "events (snd (ext h f s)) = events s @ [EvCall h]"
  by (simp add: ext_def split: prod.splits)

lemma ext_field:
  assumes "\<And>s x. f (s\<lparr>events := x\<rparr>) = f s" and "keeps f g"
  shows "f (snd (ext h g s)) = f s"
proof -
  obtain r s' where g: "g s = (r, s')" by force
  with assms(2) have "f s' = f s" by (metis keeps_def snd_conv)
  with g assms(1) show ?thesis by (simp add: ext_def)
qed

lemma link_quiet: "link_event e \<Longrightarrow> quiet e"
  by (cases e) (auto simp: quiet_def burst_marker_def)

lemma then_ext: "adds P s s1 \<Longrightarrow> P (EvCall h) \<Longrightarrow> adds P s (snd (ext h f s1))"
  by (auto simp: adds_iff ext_events)

lemma then_Log: "adds P s s1 \<Longrightarrow> P (EvLog l m a) \<Longrightarrow> adds P s (MDB_LogMessage l m a s1)"
  by (auto simp: adds_iff MDB_LogMessage_def emit_def)

lemma then_Delay: "adds P s s1 \<Longrightarrow> P (EvDelay n) \<Longrightarrow> adds P s (HAL_Delay n s1)"
  by (auto simp: adds_iff HAL_Delay_def emit_def)

lemma then_retry: "adds P s s1 \<Longrightarrow> adds P s (s1\<lparr>retryCount := x\<rparr>)"
  by (simp add: adds_iff)

lemma then_Send: "adds quiet s s1 \<Longrightarrow> adds quiet s (snd (SendCommand d l s1))"
proof -
  assume a: "adds quiet s s1"
  obtain ok s' where r: "SendCommand d l s1 = (ok, s')" by force
  from SendCommand_link [OF r] have "adds quiet s1 s'" using link_quiet adds_mono by blast
  with a r show ?thesis by (auto intro: adds_trans)
qed

lemma then_Reset: "adds quiet s s1 \<Longrightarrow> adds quiet s (snd (MDB_Reset H s1))"
proof -
  assume a: "adds quiet s s1"
  obtain ok s' where r: "MDB_Reset H s1 = (ok, s')" by force
  from MDB_Reset_link [OF r] have "adds link_event (emit reset_marker s1) s'" by simp
  then have "adds quiet (emit reset_marker s1) s'" using link_quiet adds_mono by blast
  moreover have "adds quiet s1 (emit reset_marker s1)"
    by (rule adds_emit) (simp add: quiet_def reset_marker_def burst_marker_def)
  ultimately show ?thesis using a r by (auto intro: adds_trans)
qed

lemma quiet_simps:
  "quiet (EvCall h)" "quiet (EvDelay n)"
  "m \<noteq> ''Too many errors, disabling reader'' \<Longrightarrow> quiet (EvLog l m a)"
  by (auto simp: quiet_def burst_marker_def)

lemmas then_steps = then_ext then_Log then_Delay then_retry then_Send then_Reset adds_refl

lemma recover_quiet: "adds quiet s (HandleError_recover H e s)"
proof (cases e)
  case MDB_ERR_NAK
  then show ?thesis
    by (simp add: HandleError_recover_def Let_def) (intro conjI impI then_steps; simp add: quiet_simps)
next
  case MDB_ERR_TIMEOUT
  then show ?thesis
    by (simp add: HandleError_recover_def Let_def) (intro conjI impI then_steps; simp add: quiet_simps)
next
  case MDB_ERR_CHECKSUM
  then show ?thesis
    by (simp add: HandleError_recover_def Let_def) (intro conjI impI then_steps; simp add: quiet_simps)
next
  case MDB_ERR_STATE
  then show ?thesis
    by (simp add: HandleError_recover_def Let_def) (intro conjI impI then_steps; simp add: quiet_simps)
next
  case MDB_ERR_SEQUENCE
  then show ?thesis
    by (simp add: HandleError_recover_def Let_def) (intro conjI impI then_steps; simp add: quiet_simps)
next
  case MDB_ERR_FUNDS
  then show ?thesis
    by (simp add: HandleError_recover_def Let_def) (intro conjI impI then_steps; simp add: quiet_simps)
next
  case MDB_ERR_HARDWARE
  then show ?thesis
    by (simp add: HandleError_recover_def Let_def) (intro conjI impI then_steps; simp add: quiet_simps)
next
  case MDB_ERR_COMMUNICATION
  then show ?thesis
    by (simp add: HandleError_recover_def Let_def) (intro conjI impI then_steps; simp add: quiet_simps)
next
  case MDB_ERR_NONE
  then show ?thesis
    by (simp add: HandleError_recover_def Let_def) (intro conjI impI then_steps; simp add: quiet_simps)
next
  case MDB_ERR_PARAMETER
  then show ?thesis
    by (simp add: HandleError_recover_def Let_def) (intro conjI impI then_steps; simp add: quiet_simps)
qed

lemma recover_keeps:
  assumes v: "\<And>s s'. vars s' = vars s \<Longrightarrow> f s' = f s"
    and r: "\<And>s x. f (s\<lparr>retryCount := x\<rparr>) = f s"
    and k: "helpers_keep f H"
  shows "f (HandleError_recover H e s) = f s"
proof -
  have ev: "\<And>s x. f (s\<lparr>events := x\<rparr>) = f s" by (rule v) (simp add: vars_def)
  have lg: "\<And>l m a s. f (MDB_LogMessage l m a s) = f s"
    by (rule v) (simp add: MDB_LogMessage_def vars_emit)
  have dl: "\<And>n s. f (HAL_Delay n s) = f s"
    by (rule v) (simp add: HAL_Delay_def vars_def emit_def)
  have sc: "\<And>d l s. f (snd (SendCommand d l s)) = f s"
    by (rule v) (metis SendCommand_link prod.collapse)
  have rs: "\<And>s. f (snd (MDB_Reset H s)) = f s"
    by (rule v) (metis MDB_Reset_link prod.collapse)
  have ex: "\<And>h s. f (snd (ext h (MDB_EnableReader H) s)) = f s"
    "\<And>h s. f (snd (ext h (MDB_DisableReader H) s)) = f s"
    "\<And>h s. f (snd (ext h (MDB_SessionComplete H) s)) = f s"
    "\<And>h s. f (snd (ext h (MDB_VendFailure H) s)) = f s"
    using k by (simp_all add: helpers_keep_def ext_field [OF ev])
  show ?thesis
    by (cases e) (simp_all add: HandleError_recover_def Let_def lg dl sc rs ex r)
qed

lemma stats_counters:
  "rapidErrorCount (HandleError_stats H t s) =
     (if t - lastErrorTime s < 5000 \<and> unat (rapidErrorCount s + 1) \<le> 5
      then rapidErrorCount s + 1 else 0)"
  "lastErrorTime (HandleError_stats H t s) = t"
  by (simp_all add: HandleError_stats_def Let_def)

lemma log_serious_counters:
  "rapidErrorCount (HandleError_serious e (HandleError_log e t s)) = rapidErrorCount s"
  "lastErrorTime (HandleError_serious e (HandleError_log e t s)) = lastErrorTime s"
  by (simp_all add: HandleError_serious_def HandleError_log_def Let_def MDB_DumpLogs_def emit_def)

lemma HandleError_counters:
  assumes "helpers_keep lastErrorTime H" and "helpers_keep rapidErrorCount H"
  shows "rapidErrorCount (MDB_HandleError H e s) =
           (if error_time H e s - lastErrorTime s < 5000 \<and> unat (rapidErrorCount s + 1) \<le> 5
            then rapidErrorCount s + 1 else 0)"
    and "lastErrorTime (MDB_HandleError H e s) = error_time H e s"
proof -
  let ?s1 = "MDB_LogError e s"
  let ?s2 = "HandleError_recover H e ?s1"
  have a: "lastErrorTime ?s2 = lastErrorTime ?s1"
    by (rule recover_keeps [OF _ _ assms(1)]) (simp_all add: vars_def)
  have b: "rapidErrorCount ?s2 = rapidErrorCount ?s1"
    by (rule recover_keeps [OF _ _ assms(2)]) (simp_all add: vars_def)
  have c: "lastErrorTime ?s1 = lastErrorTime s" "rapidErrorCount ?s1 = rapidErrorCount s"
    by (simp_all add: MDB_LogError_def emit_def)
  show "rapidErrorCount (MDB_HandleError H e s) =
           (if error_time H e s - lastErrorTime s < 5000 \<and> unat (rapidErrorCount s + 1) \<le> 5
            then rapidErrorCount s + 1 else 0)"
    using a b c by (simp add: MDB_HandleError_def Let_def log_serious_counters stats_counters error_time_def)
  show "lastErrorTime (MDB_HandleError H e s) = error_time H e s"
    by (simp add: MDB_HandleError_def Let_def log_serious_counters stats_counters error_time_def)
qed

lemma count_quiet: "\<forall>e\<in>set evs. quiet e \<Longrightarrow> count_list evs burst_marker = 0"
  by (induction evs) (auto simp: quiet_def)

lemma HandleError_events:
  assumes "helpers_keep lastErrorTime H" and "helpers_keep rapidErrorCount H"
  shows "\<exists>pre post. events (MDB_HandleError H e s) =
           events s @ pre @
           (if error_time H e s - lastErrorTime s < 5000 \<and> 5 < unat (rapidErrorCount s + 1)
            then [burst_marker, EvCall H_DisableReader] else []) @ post \<and>
           count_list pre burst_marker = 0 \<and> count_list post burst_marker = 0"
proof -
  let ?s1 = "MDB_LogError e s"
  let ?s2 = "HandleError_recover H e ?s1"
  have a: "lastErrorTime ?s2 = lastErrorTime s"
    using recover_keeps [of lastErrorTime H e ?s1] assms(1)
    by (simp add: vars_def MDB_LogError_def emit_def)
  have b: "rapidErrorCount ?s2 = rapidErrorCount s"
    using recover_keeps [of rapidErrorCount H e ?s1] assms(2)
    by (simp add: vars_def MDB_LogError_def emit_def)
  from recover_quiet [of ?s1 H e] obtain evs where
    evs: "events ?s2 = events ?s1 @ evs" "\<forall>x\<in>set evs. quiet x"
    by (auto simp: adds_iff)
  let ?pre = "EvError e # evs"
  let ?post = "if (e = MDB_ERR_HARDWARE \<or> e = MDB_ERR_COMMUNICATION) \<and>
      3 \<le> unat (seriousErrorCount (HandleError_log e (error_time H e s) (HandleError_stats H (error_time H e s) ?s2)) + 1)
      then [EvDumpLogs] else []"
  have "events (MDB_HandleError H e s) = events s @ ?pre @
           (if error_time H e s - lastErrorTime s < 5000 \<and> 5 < unat (rapidErrorCount s + 1)
            then [burst_marker, EvCall H_DisableReader] else []) @ ?post"
    using evs(1) a b
    by (simp add: MDB_HandleError_def Let_def events_serious events_log events_stats
        error_time_def MDB_LogError_def emit_def)
  moreover have "count_list ?pre burst_marker = 0"
    using count_quiet [OF evs(2)] by (simp add: burst_marker_def)
  moreover have "count_list ?post burst_marker = 0" by (simp add: burst_marker_def)
  ultimately show ?thesis by blast
qed

subsection \<open>Runs of errors and the burst detector\<close>

lemma idle_simps:
  "events (idle dt s) = events s" "rapidErrorCount (idle dt s) = rapidErrorCount s"
  "lastErrorTime (idle dt s) = lastErrorTime s"
  by (simp_all add: idle_def)

lemma rapid_append:
  "rapid H (es @ es') s \<longleftrightarrow> rapid H es s \<and> rapid H es' (handle_all H es s)"
  by (induction es arbitrary: s) auto

lemma handle_all_append:
  "handle_all H (es @ es') s = handle_all H es' (handle_all H es s)"
  by (induction es arbitrary: s) auto

lemma rapid_run:
  assumes k: "helpers_keep lastErrorTime H" "helpers_keep rapidErrorCount H"
  shows "rapid H es s \<Longrightarrow> unat (rapidErrorCount s) + length es \<le> 5 \<Longrightarrow>
     unat (rapidErrorCount (handle_all H es s)) = unat (rapidErrorCount s) + length es \<and>
     (\<exists>evs. events (handle_all H es s) = events s @ evs \<and> count_list evs burst_marker = 0)"
proof (induction es arbitrary: s)
  case Nil
  then show ?case by simp
next
  case (Cons x es)
  obtain dt e where x: "x = (dt, e)" by force
  let ?s0 = "idle dt s"
  let ?s1 = "MDB_HandleError H e ?s0"
  from Cons.prems x have r: "error_time H e ?s0 - lastErrorTime ?s0 < 5000" "rapid H es ?s1"
    by simp_all
  from Cons.prems have c: "unat (rapidErrorCount s) \<le> 4" by simp
  then have c1: "unat (rapidErrorCount s + 1) = unat (rapidErrorCount s) + 1"
    by (simp add: unat_word_ariths)
  with c have le: "unat (rapidErrorCount s + 1) \<le> 5" by simp
  have n1: "unat (rapidErrorCount ?s1) = unat (rapidErrorCount s) + 1"
    using HandleError_counters(1) [OF k, of e ?s0] r(1) le c1 by (simp add: idle_simps)
  from HandleError_events [OF k, of e ?s0] le obtain pre post where
    ev1: "events ?s1 = events s @ pre @ post" and
    cnt: "count_list pre burst_marker = 0" "count_list post burst_marker = 0"
    by (auto simp: idle_simps)
  from Cons.IH [OF r(2)] n1 Cons.prems(2) obtain evs where
    ih: "unat (rapidErrorCount (handle_all H es ?s1)) = unat (rapidErrorCount ?s1) + length es"
      "events (handle_all H es ?s1) = events ?s1 @ evs" "count_list evs burst_marker = 0"
    by auto
  have "events (handle_all H (x # es) s) = events s @ (pre @ post @ evs)"
    using x ih(2) ev1 by simp
  moreover have "count_list (pre @ post @ evs) burst_marker = 0" using cnt ih(3) by simp
  ultimately show ?case using x ih(1) n1 by auto
qed

lemma spaced_run:
  assumes k: "helpers_keep lastErrorTime H" "helpers_keep rapidErrorCount H"
  shows "spaced H es s \<Longrightarrow>
     (es \<noteq> [] \<longrightarrow> rapidErrorCount (handle_all H es s) = 0) \<and>
     (\<exists>evs. events (handle_all H es s) = events s @ evs \<and> count_list evs burst_marker = 0)"
proof (induction es arbitrary: s)
  case Nil
  then show ?case by simp
next
  case (Cons x es)
  obtain dt e where x: "x = (dt, e)" by force
  let ?s0 = "idle dt s"
  let ?s1 = "MDB_HandleError H e ?s0"
  from Cons.prems x have r: "\<not> error_time H e ?s0 - lastErrorTime ?s0 < 5000" "spaced H es ?s1"
    by simp_all
  have n1: "rapidErrorCount ?s1 = 0"
    using HandleError_counters(1) [OF k, of e ?s0] r(1) by (simp add: idle_simps)
  from HandleError_events [OF k, of e ?s0] r(1) obtain pre post where
    ev1: "events ?s1 = events s @ pre @ post" and
    cnt: "count_list pre burst_marker = 0" "count_list post burst_marker = 0"
    by (auto simp: idle_simps)
  from Cons.IH [OF r(2)] obtain evs where
    ih: "es \<noteq> [] \<longrightarrow> rapidErrorCount (handle_all H es ?s1) = 0"
      "events (handle_all H es ?s1) = events ?s1 @ evs" "count_list evs burst_marker = 0"
    by auto
  have "events (handle_all H (x # es) s) = events s @ (pre @ post @ evs)"
    using x ih(2) ev1 by simp
  moreover have "count_list (pre @ post @ evs) burst_marker = 0" using cnt ih(3) by simp
  moreover have "rapidErrorCount (handle_all H (x # es) s) = 0"
    using x ih(1) n1 by (cases es) auto
  ultimately show ?case by blast
qed

text \<open>What the burst detector does over a run of errors, when the functions the recovery
  actions call leave its two statics alone. The counter counts the errors handled less
  than 5000 ms after the time recorded for the error before. With the counter at 0, six
  errors each handled less than 5000 ms after the time recorded before it (the first one
  included) do not disable the reader on the first five, and on the sixth log the burst,
  call \<open>MDB_DisableReader\<close> once and leave the counter at 0. With the counter at 4 or less,
  errors each handled 5000 ms or more after the one before never disable the reader
  through the burst detector, every such gap leaving the counter at 0.\<close>

lemma burst_detection:
  assumes k: "helpers_keep lastErrorTime H" "helpers_keep rapidErrorCount H"
  shows
  "(rapidErrorCount s = 0 \<and> length es = 5 \<and> rapid H (es @ [(dt, e)]) s \<longrightarrow>
      (let s5 = handle_all H es s; s6 = MDB_HandleError H e (idle dt s5) in
         count_list (new_events s s5) burst_marker = 0 \<and>
         (\<exists>pre post. new_events s5 s6 = pre @ [burst_marker, EvCall H_DisableReader] @ post \<and>
            count_list pre burst_marker = 0 \<and> count_list post burst_marker = 0) \<and>
         rapidErrorCount s6 = 0)) \<and>
   (unat (rapidErrorCount s) \<le> 4 \<and> spaced H es (MDB_HandleError H e (idle dt s)) \<longrightarrow>
      count_list (new_events s (handle_all H ((dt, e) # es) s)) burst_marker = 0 \<and>
      (es \<noteq> [] \<longrightarrow> rapidErrorCount (handle_all H ((dt, e) # es) s) = 0))"
proof (intro conjI impI)
  assume a: "rapidErrorCount s = 0 \<and> length es = 5 \<and> rapid H (es @ [(dt, e)]) s"
  let ?s5 = "handle_all H es s"
  let ?s0 = "idle dt ?s5"
  let ?s6 = "MDB_HandleError H e ?s0"
  from a have r: "rapid H es s" "error_time H e ?s0 - lastErrorTime ?s0 < 5000"
    by (simp_all add: rapid_append)
  from rapid_run [OF k r(1)] a obtain evs where
    five: "unat (rapidErrorCount ?s5) = 5" "events ?s5 = events s @ evs"
      "count_list evs burst_marker = 0"
    by auto
  have six: "unat (rapidErrorCount ?s5 + 1) = 6" using five(1) by (simp add: unat_word_ariths)
  from HandleError_events [OF k, of e ?s0] r(2) six obtain pre post where
    ev: "events ?s6 = events ?s5 @ pre @ [burst_marker, EvCall H_DisableReader] @ post"
      "count_list pre burst_marker = 0" "count_list post burst_marker = 0"
    by (auto simp: idle_simps)
  have z: "rapidErrorCount ?s6 = 0"
    using HandleError_counters(1) [OF k, of e ?s0] six by (simp add: idle_simps)
  show "let s5 = handle_all H es s; s6 = MDB_HandleError H e (idle dt s5) in
         count_list (new_events s s5) burst_marker = 0 \<and>
         (\<exists>pre post. new_events s5 s6 = pre @ [burst_marker, EvCall H_DisableReader] @ post \<and>
            count_list pre burst_marker = 0 \<and> count_list post burst_marker = 0) \<and>
         rapidErrorCount s6 = 0"
    using five(2,3) ev z by (auto simp: Let_def new_events_append)
next
  assume b: "unat (rapidErrorCount s) \<le> 4 \<and> spaced H es (MDB_HandleError H e (idle dt s))"
  let ?s0 = "idle dt s"
  let ?s1 = "MDB_HandleError H e ?s0"
  from b have "unat (rapidErrorCount s + 1) \<le> 5" by (simp add: unat_word_ariths)
  with HandleError_events [OF k, of e ?s0] obtain pre post where
    ev1: "events ?s1 = events s @ pre @ post" and
    cnt: "count_list pre burst_marker = 0" "count_list post burst_marker = 0"
    by (auto simp: idle_simps)
  from spaced_run [OF k, of es ?s1] b obtain evs where
    sp: "es \<noteq> [] \<longrightarrow> rapidErrorCount (handle_all H es ?s1) = 0"
      "events (handle_all H es ?s1) = events ?s1 @ evs" "count_list evs burst_marker = 0"
    by auto
  have "events (handle_all H ((dt, e) # es) s) = events s @ (pre @ post @ evs)"
    using sp(2) ev1 by simp
  then have "new_events s (handle_all H ((dt, e) # es) s) = pre @ post @ evs"
    by (rule new_events_append)
  then show "count_list (new_events s (handle_all H ((dt, e) # es) s)) burst_marker = 0"
    using cnt sp(3) by simp
  show "es \<noteq> [] \<Longrightarrow> rapidErrorCount (handle_all H ((dt, e) # es) s) = 0"
    using sp(1) by simp
qed

lemmas handler_defs =
  MDB_HandleError_def HandleError_recover_def HandleError_stats_def HandleError_log_def
  HandleError_serious_def MDB_LogError_def MDB_LogMessage_def emit_def HAL_GetTick_def
  error_time_def idle_def Let_def

lemma ex_frames:
  "helpers_keep lastErrorTime example_helpers" "helpers_keep rapidErrorCount example_helpers"
  by (simp_all add: helpers_keep_def keeps_def example_helpers_def set_state_def)

lemma count_marker_once:
  "count_list pre burst_marker = 0 \<Longrightarrow> count_list post burst_marker = 0 \<Longrightarrow>
   count_list (pre @ [burst_marker, EvCall H_DisableReader] @ post) burst_marker = 1"
  by (simp add: burst_marker_def)

text \<open>With the example helpers, after power-on: six errors 1 ms apart, the first at tick 1,
  disable the reader on the sixth and only there; three errors at ticks 6000, 11000 and
  18000 do not.\<close>

lemma burst_detection_example:
  "helpers_keep lastErrorTime example_helpers \<and>
   helpers_keep rapidErrorCount example_helpers \<and>
   rapid example_helpers
     [(1, MDB_ERR_FUNDS), (1, MDB_ERR_FUNDS), (1, MDB_ERR_FUNDS), (1, MDB_ERR_FUNDS),
      (1, MDB_ERR_FUNDS), (1, MDB_ERR_FUNDS)] engine0 \<and>
   count_list (new_events engine0 (handle_all example_helpers
       [(1, MDB_ERR_FUNDS), (1, MDB_ERR_FUNDS), (1, MDB_ERR_FUNDS), (1, MDB_ERR_FUNDS),
        (1, MDB_ERR_FUNDS)] engine0)) burst_marker = 0 \<and>
   count_list (new_events
       (handle_all example_helpers
          [(1, MDB_ERR_FUNDS), (1, MDB_ERR_FUNDS), (1, MDB_ERR_FUNDS), (1, MDB_ERR_FUNDS),
           (1, MDB_ERR_FUNDS)] engine0)
       (handle_all example_helpers
          [(1, MDB_ERR_FUNDS), (1, MDB_ERR_FUNDS), (1, MDB_ERR_FUNDS), (1, MDB_ERR_FUNDS),
           (1, MDB_ERR_FUNDS), (1, MDB_ERR_FUNDS)] engine0)) burst_marker = 1 \<and>
   rapidErrorCount (handle_all example_helpers
       [(1, MDB_ERR_FUNDS), (1, MDB_ERR_FUNDS), (1, MDB_ERR_FUNDS), (1, MDB_ERR_FUNDS),
        (1, MDB_ERR_FUNDS), (1, MDB_ERR_FUNDS)] engine0) = 0 \<and>
   spaced example_helpers [(5000, MDB_ERR_FUNDS), (7000, MDB_ERR_FUNDS)]
     (handle_all example_helpers [(6000, MDB_ERR_FUNDS)] engine0) \<and>
   count_list (new_events engine0 (handle_all example_helpers
       [(6000, MDB_ERR_FUNDS), (5000, MDB_ERR_FUNDS), (7000, MDB_ERR_FUNDS)] engine0))
     burst_marker = 0"
proof -
  let ?five = "[(1, MDB_ERR_FUNDS), (1, MDB_ERR_FUNDS), (1, MDB_ERR_FUNDS), (1, MDB_ERR_FUNDS),
      (1 :: u32, MDB_ERR_FUNDS)]"
  have r: "rapid example_helpers (?five @ [(1, MDB_ERR_FUNDS)]) engine0"
    by (simp add: handler_defs engine0_def zero_Session_def MDB_ERROR_LOG_SIZE_def)
  have sp: "spaced example_helpers [(5000, MDB_ERR_FUNDS), (7000, MDB_ERR_FUNDS)]
     (MDB_HandleError example_helpers MDB_ERR_FUNDS (idle 6000 engine0))"
    by (simp add: handler_defs engine0_def zero_Session_def MDB_ERROR_LOG_SIZE_def)
  have z: "rapidErrorCount engine0 = 0" "length ?five = 5" "unat (rapidErrorCount engine0) \<le> 4"
    by (simp_all add: engine0_def)
  note A = burst_detection [OF ex_frames, of engine0 ?five 1 MDB_ERR_FUNDS, THEN conjunct1, rule_format, OF conjI [OF z(1) conjI [OF z(2) r]]]
  note B = burst_detection [OF ex_frames, of engine0 "[(5000, MDB_ERR_FUNDS), (7000, MDB_ERR_FUNDS)]" 6000 MDB_ERR_FUNDS,
      THEN conjunct2, rule_format, OF conjI [OF z(3) sp]]
  from A obtain pre post where
    a: "count_list (new_events engine0 (handle_all example_helpers ?five engine0)) burst_marker = 0"
       "new_events (handle_all example_helpers ?five engine0)
          (MDB_HandleError example_helpers MDB_ERR_FUNDS (idle 1 (handle_all example_helpers ?five engine0))) =
        pre @ [burst_marker, EvCall H_DisableReader] @ post"
       "count_list pre burst_marker = 0" "count_list post burst_marker = 0"
       "rapidErrorCount (MDB_HandleError example_helpers MDB_ERR_FUNDS (idle 1 (handle_all example_helpers ?five engine0))) = 0"
    unfolding Let_def by blast
  have six: "handle_all example_helpers (?five @ [(1, MDB_ERR_FUNDS)]) engine0 =
      MDB_HandleError example_helpers MDB_ERR_FUNDS (idle 1 (handle_all example_helpers ?five engine0))"
    by (simp only: handle_all_append handle_all.simps)
  have one: "count_list (new_events (handle_all example_helpers ?five engine0)
       (handle_all example_helpers (?five @ [(1, MDB_ERR_FUNDS)]) engine0)) burst_marker = 1"
    unfolding six a(2) by (rule count_marker_once [OF a(3,4)])
  show ?thesis
    using ex_frames r sp a(1) a(5) one B six by simp
qed

text \<open>
  C4. Six errors, each arriving less than 5000 ms after the one before, do not always
  disable the reader on the sixth. The detector compares the time of an error with the
  time recorded for the error before, which is 0 at power-on, and an error that comes
  5000 ms or more after that time sets the counter to 0 instead of counting itself: the
  first error of such a burst is not counted. After power-on, with the example helpers
  and the session \<open>Inactive\<close> (the recovery of a \<open>Funds\<close> error then only logs): six errors
  handled at the ticks 5000 to 5005, as the error log records them, leave the counter at
  5, the burst is not logged and \<open>MDB_DisableReader\<close> is not called; it takes a seventh
  error, 1 ms later, to disable the reader. The same six errors at the ticks 1 to 6
  disable it on the sixth, as the comment of the threshold has it ("more than 5 errors in
  5 seconds").
\<close>

theorem C4_first_error_of_a_burst_is_not_counted:
  "(let s6 = handle_all example_helpers
               [(5000, MDB_ERR_FUNDS), (1, MDB_ERR_FUNDS), (1, MDB_ERR_FUNDS),
                (1, MDB_ERR_FUNDS), (1, MDB_ERR_FUNDS), (1, MDB_ERR_FUNDS)] engine0;
        s7 = MDB_HandleError example_helpers MDB_ERR_FUNDS (idle 1 s6)
    in map (\<lambda>i. el_timestamp (errorLog s6 ! i)) [0, 1, 2, 3, 4, 5] =
         [5000, 5001, 5002, 5003, 5004, 5005] \<and>
       count_list (events s6) burst_marker = 0 \<and>
       count_list (events s6) (EvCall H_DisableReader) = 0 \<and>
       rapidErrorCount s6 = 5 \<and>
       new_events s6 s7 =
         [EvError MDB_ERR_FUNDS, EvLog LOG_ERROR ''Insufficient funds'' [],
          burst_marker, EvCall H_DisableReader]) \<and>
   (let t6 = handle_all example_helpers
               [(1, MDB_ERR_FUNDS), (1, MDB_ERR_FUNDS), (1, MDB_ERR_FUNDS),
                (1, MDB_ERR_FUNDS), (1, MDB_ERR_FUNDS), (1, MDB_ERR_FUNDS)] engine0
    in map (\<lambda>i. el_timestamp (errorLog t6 ! i)) [0, 1, 2, 3, 4, 5] = [1, 2, 3, 4, 5, 6] \<and>
       count_list (events t6) burst_marker = 1 \<and>
       drop 10 (events t6) =
         [EvError MDB_ERR_FUNDS, EvLog LOG_ERROR ''Insufficient funds'' [],
          burst_marker, EvCall H_DisableReader])"
  by (simp add: handler_defs engine0_def zero_Session_def burst_marker_def MDB_ERROR_LOG_SIZE_def
      new_events_def ext_def example_helpers_def)

subsection \<open>The error log\<close>

lemma stats_keeps:
  assumes ev: "\<And>s x. f (s\<lparr>events := x\<rparr>) = f s"
    and u: "\<And>s x. f (s\<lparr>rapidErrorCount := x\<rparr>) = f s" "\<And>s x. f (s\<lparr>lastErrorTime := x\<rparr>) = f s"
    and k: "helpers_keep f H"
  shows "f (HandleError_stats H t s) = f s"
proof -
  have "keeps f (MDB_DisableReader H)" using k by (simp add: helpers_keep_def)
  note ex = ext_field [of f, OF ev this]
  show ?thesis
    by (simp add: HandleError_stats_def Let_def u ex MDB_LogMessage_def emit_def ev)
qed

lemma at_logging_keeps:
  assumes v: "\<And>s s'. vars s' = vars s \<Longrightarrow> f s' = f s"
    and u: "\<And>s x. f (s\<lparr>retryCount := x\<rparr>) = f s"
      "\<And>s x. f (s\<lparr>rapidErrorCount := x\<rparr>) = f s" "\<And>s x. f (s\<lparr>lastErrorTime := x\<rparr>) = f s"
    and k: "helpers_keep f H"
  shows "f (at_logging H e s) = f s"
proof -
  have ev: "\<And>s x. f (s\<lparr>events := x\<rparr>) = f s" by (rule v) (simp add: vars_def)
  have "f (at_logging H e s) = f (HandleError_recover H e (MDB_LogError e s))"
    unfolding at_logging_def by (rule stats_keeps [OF ev u(2,3) k])
  also have "\<dots> = f (MDB_LogError e s)" by (rule recover_keeps [OF v u(1) k])
  also have "\<dots> = f s" by (simp add: MDB_LogError_def emit_def ev)
  finally show ?thesis .
qed

lemma HandleError_after_logging:
  "MDB_HandleError H e s =
     HandleError_serious e (HandleError_log e (error_time H e s) (at_logging H e s))"
  by (simp add: MDB_HandleError_def at_logging_def error_time_def Let_def)

lemma serious_log:
  "errorLog (HandleError_serious e s) = errorLog s"
  "errorLogIndex (HandleError_serious e s) = errorLogIndex s"
  by (simp_all add: HandleError_serious_def Let_def MDB_DumpLogs_def emit_def)

lemma unat_next_index:
  "unat (of_nat (Suc (unat (i :: u8)) mod MDB_ERROR_LOG_SIZE) :: u8) =
     Suc (unat i) mod MDB_ERROR_LOG_SIZE"
proof -
  have "Suc (unat i) mod MDB_ERROR_LOG_SIZE < 50" by (simp add: MDB_ERROR_LOG_SIZE_def)
  then show ?thesis by (simp add: unat_of_nat)
qed

lemma HandleError_writes_log:
  assumes k: "helpers_keep errorLog H" "helpers_keep errorLogIndex H"
  shows "errorLog (MDB_HandleError H e s) =
           (errorLog s)[unat (errorLogIndex s) :=
              \<lparr>el_timestamp = error_time H e s, el_error = e,
                el_state = state (mdbSession (at_logging H e s)),
                el_lastCommand = lastCommand (at_logging H e s) ! 0,
                el_lastResponse = rxBuffer (at_logging H e s) ! 0\<rparr>]"
    and "unat (errorLogIndex (MDB_HandleError H e s)) =
           (unat (errorLogIndex s) + 1) mod MDB_ERROR_LOG_SIZE"
proof -
  have a: "errorLog (at_logging H e s) = errorLog s"
    by (rule at_logging_keeps [OF _ _ _ _ k(1)]) (simp_all add: vars_def)
  have b: "errorLogIndex (at_logging H e s) = errorLogIndex s"
    by (rule at_logging_keeps [OF _ _ _ _ k(2)]) (simp_all add: vars_def)
  show "errorLog (MDB_HandleError H e s) =
           (errorLog s)[unat (errorLogIndex s) :=
              \<lparr>el_timestamp = error_time H e s, el_error = e,
                el_state = state (mdbSession (at_logging H e s)),
                el_lastCommand = lastCommand (at_logging H e s) ! 0,
                el_lastResponse = rxBuffer (at_logging H e s) ! 0\<rparr>]"
    using a b by (simp add: HandleError_after_logging serious_log HandleError_log_def Let_def)
  show "unat (errorLogIndex (MDB_HandleError H e s)) =
           (unat (errorLogIndex s) + 1) mod MDB_ERROR_LOG_SIZE"
    using b by (simp add: HandleError_after_logging serious_log HandleError_log_def Let_def
        unat_next_index)
qed

lemma run_index:
  assumes k: "helpers_keep errorLog H" "helpers_keep errorLogIndex H"
  shows "unat (errorLogIndex s) < MDB_ERROR_LOG_SIZE \<Longrightarrow>
     unat (errorLogIndex (handle_all H es s)) =
       (unat (errorLogIndex s) + length es) mod MDB_ERROR_LOG_SIZE"
proof (induction es arbitrary: s)
  case Nil
  then show ?case by simp
next
  case (Cons x es)
  obtain dt e where x: "x = (dt, e)" by force
  let ?s1 = "MDB_HandleError H e (idle dt s)"
  have i1: "unat (errorLogIndex ?s1) = (unat (errorLogIndex s) + 1) mod MDB_ERROR_LOG_SIZE"
    using HandleError_writes_log(2) [OF k, of e "idle dt s"] by (simp add: idle_def)
  then have "unat (errorLogIndex ?s1) < MDB_ERROR_LOG_SIZE" by (simp add: MDB_ERROR_LOG_SIZE_def)
  from Cons.IH [OF this] i1 x show ?case by (simp add: mod_add_left_eq)
qed

text \<open>
  C5, as amended. Every call of the error handler, for every error kind, writes one entry
  into the error log, at the slot the index names, and moves the index on by one modulo
  50, so the index is below 50 afterwards and the slot written 50 entries ago is the next
  to be overwritten. The entry holds the tick read after the recovery action, the error
  kind, and the session state, the first byte of \<open>lastCommand\<close> and the first byte of
  \<open>rxBuffer\<close> as they are when the entry is built, that is after the recovery action and
  the burst check (\<open>at_logging\<close>): the claim has the state at the time of the error, and
  the example after the theorem shows the two differ. This holds when the functions the
  recovery actions call leave the error log and its index alone.
\<close>

theorem C5_error_log_entry:
  assumes k: "helpers_keep errorLog H" "helpers_keep errorLogIndex H"
  shows
  "(let s' = MDB_HandleError H e s; w = at_logging H e s; i = unat (errorLogIndex s);
        entry = \<lparr>el_timestamp = error_time H e s, el_error = e,
                  el_state = state (mdbSession w), el_lastCommand = lastCommand w ! 0,
                  el_lastResponse = rxBuffer w ! 0\<rparr>
    in errorLog s' = (errorLog s)[i := entry] \<and>
       unat (errorLogIndex s') = (i + 1) mod MDB_ERROR_LOG_SIZE \<and>
       unat (errorLogIndex s') < MDB_ERROR_LOG_SIZE \<and>
       (i < MDB_ERROR_LOG_SIZE \<and> length (errorLog s) = MDB_ERROR_LOG_SIZE \<longrightarrow>
          errorLog s' ! i = entry \<and> length (errorLog s') = MDB_ERROR_LOG_SIZE \<and>
          (\<forall>es. unat (errorLogIndex (handle_all H es s)) =
                  (i + length es) mod MDB_ERROR_LOG_SIZE)))"
proof -
  note w = HandleError_writes_log [OF k, of e s]
  have lt: "(unat (errorLogIndex s) + 1) mod MDB_ERROR_LOG_SIZE < MDB_ERROR_LOG_SIZE"
    by (simp add: MDB_ERROR_LOG_SIZE_def)
  show ?thesis
    unfolding Let_def
    using w lt run_index [OF k, of s] by simp
qed

lemma Reset_session: "mdbSession (snd (MDB_Reset H s)) = mdbSession s"
  by (metis MDB_Reset_link prod.collapse vars_state)

lemma ex_log_frames:
  "helpers_keep errorLog example_helpers" "helpers_keep errorLogIndex example_helpers"
  by (simp_all add: helpers_keep_def keeps_def example_helpers_def set_state_def)

text \<open>A \<open>Hardware\<close> error in state \<open>Enabled\<close>, with helpers that do what spec 4.2 says:
  the recovery action disables the reader first, and the entry records \<open>Disabled\<close>.\<close>

theorem C5_state_at_error_counterexample:
  "state (mdbSession (set_state MDB_STATE_ENABLED engine0)) = MDB_STATE_ENABLED \<and>
   el_state (errorLog (MDB_HandleError example_helpers MDB_ERR_HARDWARE
                         (set_state MDB_STATE_ENABLED engine0)) ! 0) = MDB_STATE_DISABLED"
proof -
  let ?s = "set_state MDB_STATE_ENABLED engine0"
  have st: "state (mdbSession (at_logging example_helpers MDB_ERR_HARDWARE ?s)) = MDB_STATE_DISABLED"
    by (simp add: at_logging_def HandleError_stats_def HandleError_recover_def Let_def
        Reset_session HAL_Delay_def emit_def ext_def example_helpers_def set_state_def
        MDB_LogMessage_def MDB_LogError_def engine0_def zero_Session_def split: prod.splits)
  have "errorLog ?s = replicate 50 zero_ErrorLog" "unat (errorLogIndex ?s) = 0"
    by (simp_all add: set_state_def engine0_def MDB_ERROR_LOG_SIZE_def)
  with HandleError_writes_log(1) [OF ex_log_frames, of MDB_ERR_HARDWARE ?s] st
  show ?thesis by (simp add: set_state_def engine0_def zero_Session_def)
qed

text \<open>After power-on, a \<open>Funds\<close> error at tick 7 fills slot 0, and after 50 errors the
  index is back at 0.\<close>

theorem C5_error_log_entry_witness:
  "helpers_keep errorLog example_helpers \<and> helpers_keep errorLogIndex example_helpers \<and>
   errorLog (MDB_HandleError example_helpers MDB_ERR_FUNDS (idle 7 engine0)) =
     (replicate 50 zero_ErrorLog)
       [0 := \<lparr>el_timestamp = 7, el_error = MDB_ERR_FUNDS, el_state = MDB_STATE_INACTIVE,
               el_lastCommand = 0, el_lastResponse = 0\<rparr>] \<and>
   unat (errorLogIndex (MDB_HandleError example_helpers MDB_ERR_FUNDS (idle 7 engine0))) = 1 \<and>
   unat (errorLogIndex (handle_all example_helpers (replicate 50 (1, MDB_ERR_NAK))
                          (idle 7 engine0))) = 0"
proof -
  let ?s = "idle 7 engine0"
  have i: "unat (errorLogIndex ?s) < MDB_ERROR_LOG_SIZE \<and> length (errorLog ?s) = MDB_ERROR_LOG_SIZE"
    by (simp add: idle_def engine0_def MDB_ERROR_LOG_SIZE_def)
  have v: "error_time example_helpers MDB_ERR_FUNDS ?s = 7"
    "state (mdbSession (at_logging example_helpers MDB_ERR_FUNDS ?s)) = MDB_STATE_INACTIVE"
    "lastCommand (at_logging example_helpers MDB_ERR_FUNDS ?s) ! 0 = 0"
    "rxBuffer (at_logging example_helpers MDB_ERR_FUNDS ?s) ! 0 = 0"
    by (simp_all add: at_logging_def error_time_def HandleError_stats_def
        HandleError_recover_def Let_def HAL_GetTick_def emit_def idle_def
        MDB_LogMessage_def MDB_LogError_def engine0_def zero_Session_def
        MDB_MAX_MESSAGE_LENGTH_def)
  note T = C5_error_log_entry [OF ex_log_frames, of MDB_ERR_FUNDS ?s, unfolded Let_def]
  from T i have r: "\<forall>es. unat (errorLogIndex (handle_all example_helpers es ?s)) =
      (unat (errorLogIndex ?s) + length es) mod MDB_ERROR_LOG_SIZE"
    by blast
  have "unat (errorLogIndex (handle_all example_helpers (replicate 50 (1, MDB_ERR_NAK)) ?s)) = 0"
    using r [rule_format, of "replicate 50 (1, MDB_ERR_NAK)"]
    by (simp add: idle_def engine0_def MDB_ERROR_LOG_SIZE_def)
  moreover have "errorLog ?s = replicate 50 zero_ErrorLog" "unat (errorLogIndex ?s) = 0"
    by (simp_all add: idle_def engine0_def MDB_ERROR_LOG_SIZE_def)
  ultimately show ?thesis
    using T v ex_log_frames by (simp add: MDB_ERROR_LOG_SIZE_def)
qed

subsection \<open>The NAK policy\<close>

lemma HandleError_grows: "\<exists>evs. events (MDB_HandleError H e s) = events s @ evs"
proof -
  from recover_quiet [of "MDB_LogError e s" H e] obtain evs where
    "events (HandleError_recover H e (MDB_LogError e s)) = events (MDB_LogError e s) @ evs"
    by (auto simp: adds_iff)
  then show ?thesis
    by (simp add: MDB_HandleError_def Let_def events_serious events_log events_stats
        MDB_LogError_def emit_def)
qed

lemma Reset_events:
  assumes "length (txBuffer s) = MDB_MAX_MESSAGE_LENGTH"
  shows "\<exists>evs. events (snd (MDB_Reset H s)) =
           events s @ reset_marker # EvTransmit [MDB_CMD_RESET, CalculateChecksum [MDB_CMD_RESET] 1] (tx_outcome s) # evs \<and>
           (\<forall>e\<in>set evs. rx_event e)"
proof -
  let ?s0 = "MDB_LogMessage LOG_INFO ''Performing reset...'' [] s"
  have e0: "events ?s0 = events s @ [reset_marker]" "tx_outcome ?s0 = tx_outcome s"
    "length (txBuffer ?s0) = MDB_MAX_MESSAGE_LENGTH"
    using assms by (simp_all add: MDB_LogMessage_def emit_def reset_marker_def tx_outcome_def)
  obtain ok s1 where c: "SendCommand [MDB_CMD_RESET] 1 ?s0 = (ok, s1)" by force
  have sc: "ok = tx_outcome s"
    "events s1 = events s @ reset_marker # EvTransmit [MDB_CMD_RESET, CalculateChecksum [MDB_CMD_RESET] 1] (tx_outcome s) #
       (if tx_outcome s then [] else [EvError MDB_ERR_COMMUNICATION])"
    using c e0 SendCommand_sends [of 1 "[MDB_CMD_RESET]" ?s0]
    by (auto simp: MDB_MAX_MESSAGE_LENGTH_def)
  show ?thesis
  proof (cases ok)
    case False
    with c have "snd (MDB_Reset H s) = MDB_LogError MDB_ERR_COMMUNICATION s1"
      by (simp add: MDB_Reset_def)
    with sc False show ?thesis by (simp add: MDB_LogError_def emit_def)
  next
    case True
    obtain ok2 len2 s2 where w: "WaitForResponse s1 = (ok2, len2, s2)" by (metis prod_cases3)
    with WaitForResponse_fails [of s1] have "\<not> ok2" by simp
    with c True w have r: "snd (MDB_Reset H s) = MDB_LogError MDB_ERR_TIMEOUT s2"
      by (simp add: MDB_Reset_def)
    from WaitForResponse_link [OF w] obtain evs where
      "events s2 = events s1 @ evs" "\<forall>e\<in>set evs. rx_event e"
      by (auto simp: adds_iff)
    with r sc True show ?thesis by (simp add: MDB_LogError_def emit_def)
  qed
qed

lemma recover_NAK_retry:
  assumes "unat (retryCount s) < 3"
  shows "retryCount (HandleError_recover H MDB_ERR_NAK (MDB_LogError MDB_ERR_NAK s)) = retryCount s + 1"
    and "\<exists>evs. events (HandleError_recover H MDB_ERR_NAK (MDB_LogError MDB_ERR_NAK s)) =
           events s @ [EvError MDB_ERR_NAK, retry_log (unat (retryCount s) + 1)] @ evs \<and>
           (\<forall>e\<in>set evs. link_event e) \<and>
           (command_recorded s \<longrightarrow> evs \<noteq> [] \<and>
              hd evs = EvTransmit (last_command_frame s) (tx_outcome s))"
proof -
  let ?s0 = "MDB_LogError MDB_ERR_NAK s"
  let ?s2 = "MDB_LogMessage LOG_WARNING ''Retrying command, attempt %d''
               [unat (retryCount s + 1)] (?s0\<lparr>retryCount := retryCount s + 1\<rparr>)"
  let ?r = "HandleError_recover H MDB_ERR_NAK ?s0"
  have n: "unat (retryCount s + 1) = unat (retryCount s) + 1"
    using assms by (simp add: unat_word_ariths)
  have rec: "?r = (if unat (lastCommandLength s) > 0
              then snd (SendCommand (lastCommand s) (lastCommandLength s) ?s2) else ?s2)"
    using assms
    by (simp add: HandleError_recover_def Let_def MDB_LogError_def MDB_LogMessage_def emit_def)
  have e2: "events ?s2 = events s @ [EvError MDB_ERR_NAK, retry_log (unat (retryCount s) + 1)]"
    by (simp add: MDB_LogError_def MDB_LogMessage_def emit_def retry_log_def n)
  have f2: "retryCount ?s2 = retryCount s + 1" "lastCommand ?s2 = lastCommand s"
    "lastCommandLength ?s2 = lastCommandLength s" "txBuffer ?s2 = txBuffer s"
    "tx_outcome ?s2 = tx_outcome s"
    by (simp_all add: MDB_LogError_def MDB_LogMessage_def emit_def tx_outcome_def)
  obtain ok s3 where c: "SendCommand (lastCommand s) (lastCommandLength s) ?s2 = (ok, s3)"
    by force
  from SendCommand_link [OF c] have l3: "retryCount s3 = retryCount ?s2"
    and "adds link_event ?s2 s3"
    by (simp_all add: vars_def)
  then obtain evs where evs: "events s3 = events ?s2 @ evs" "\<forall>e\<in>set evs. link_event e"
    by (auto simp: adds_iff)
  show "retryCount ?r = retryCount s + 1"
    using rec c l3 f2(1) by simp
  have cr: "command_recorded s \<Longrightarrow>
      evs \<noteq> [] \<and> hd evs = EvTransmit (last_command_frame s) (tx_outcome s)"
  proof -
    assume "command_recorded s"
    then have "unat (lastCommandLength s) \<le> MDB_MAX_MESSAGE_LENGTH - 1"
      "unat (lastCommandLength s) \<le> length (lastCommand s)"
      "unat (lastCommandLength s) < length (txBuffer ?s2)"
      by (simp_all add: command_recorded_def f2 MDB_MAX_MESSAGE_LENGTH_def)
    from SendCommand_sends [OF this] c evs(1) f2(5)
    show ?thesis by (auto simp: last_command_frame_def)
  qed
  show "\<exists>evs. events ?r =
           events s @ [EvError MDB_ERR_NAK, retry_log (unat (retryCount s) + 1)] @ evs \<and>
           (\<forall>e\<in>set evs. link_event e) \<and>
           (command_recorded s \<longrightarrow> evs \<noteq> [] \<and>
              hd evs = EvTransmit (last_command_frame s) (tx_outcome s))"
  proof (cases "unat (lastCommandLength s) > 0")
    case True
    with rec c have "?r = s3" by simp
    with evs e2 cr show ?thesis by auto
  next
    case False
    with rec have "?r = ?s2" by simp
    moreover from False have "\<not> command_recorded s" by (simp add: command_recorded_def)
    ultimately show ?thesis using e2 by auto
  qed
qed

lemma recover_NAK_reset:
  assumes "3 \<le> unat (retryCount s)"
  shows "retryCount (HandleError_recover H MDB_ERR_NAK (MDB_LogError MDB_ERR_NAK s)) = 0"
    and "\<exists>evs. events (HandleError_recover H MDB_ERR_NAK (MDB_LogError MDB_ERR_NAK s)) =
           events s @ [EvError MDB_ERR_NAK, EvLog LOG_ERROR ''Max retries exceeded'' [],
                       reset_marker] @ evs \<and>
           (\<forall>e\<in>set evs. link_event e) \<and>
           (length (txBuffer s) = MDB_MAX_MESSAGE_LENGTH \<longrightarrow>
              filter is_transmit evs =
                [EvTransmit [MDB_CMD_RESET, CalculateChecksum [MDB_CMD_RESET] 1] (tx_outcome s)])"
proof -
  let ?s0 = "MDB_LogError MDB_ERR_NAK s"
  let ?s2 = "(MDB_LogMessage LOG_ERROR ''Max retries exceeded'' [] ?s0)\<lparr>retryCount := 0\<rparr>"
  let ?r = "HandleError_recover H MDB_ERR_NAK ?s0"
  have rec: "?r = snd (MDB_Reset H ?s2)"
    using assms by (simp add: HandleError_recover_def Let_def MDB_LogError_def emit_def)
  have e2: "events ?s2 = events s @ [EvError MDB_ERR_NAK, EvLog LOG_ERROR ''Max retries exceeded'' []]"
    "retryCount ?s2 = 0" "txBuffer ?s2 = txBuffer s" "tx_outcome ?s2 = tx_outcome s"
    by (simp_all add: MDB_LogError_def MDB_LogMessage_def emit_def tx_outcome_def)
  obtain ok s3 where r: "MDB_Reset H ?s2 = (ok, s3)" by force
  from MDB_Reset_link [OF r] have "retryCount s3 = retryCount ?s2"
    and "adds link_event (emit reset_marker ?s2) s3"
    by (simp_all add: vars_def)
  then obtain evs where evs: "events s3 = events ?s2 @ reset_marker # evs"
    "\<forall>e\<in>set evs. link_event e" "retryCount s3 = 0"
    using e2(2) by (auto simp: adds_iff emit_def)
  show "retryCount ?r = 0" using rec r evs(3) by simp
  have tx: "length (txBuffer s) = MDB_MAX_MESSAGE_LENGTH \<Longrightarrow>
      filter is_transmit evs = [EvTransmit [MDB_CMD_RESET, CalculateChecksum [MDB_CMD_RESET] 1] (tx_outcome s)]"
  proof -
    assume "length (txBuffer s) = MDB_MAX_MESSAGE_LENGTH"
    then have "length (txBuffer ?s2) = MDB_MAX_MESSAGE_LENGTH" by (simp add: e2)
    from Reset_events [OF this, of H] r evs(1) e2(4) obtain evs' where
      "evs = EvTransmit [MDB_CMD_RESET, CalculateChecksum [MDB_CMD_RESET] 1] (tx_outcome s) # evs'"
      "\<forall>e\<in>set evs'. rx_event e"
      by auto
    moreover from this(2) have "filter is_transmit evs' = []"
      by (induction evs') (auto elim: rx_event.elims)
    ultimately show ?thesis by simp
  qed
  show "\<exists>evs. events ?r =
           events s @ [EvError MDB_ERR_NAK, EvLog LOG_ERROR ''Max retries exceeded'' [],
                       reset_marker] @ evs \<and>
           (\<forall>e\<in>set evs. link_event e) \<and>
           (length (txBuffer s) = MDB_MAX_MESSAGE_LENGTH \<longrightarrow>
              filter is_transmit evs =
                [EvTransmit [MDB_CMD_RESET, CalculateChecksum [MDB_CMD_RESET] 1] (tx_outcome s)])"
    using rec r evs(1,2) e2(1) tx by auto
qed

lemma recover_keeps_retryCount:
  assumes k: "helpers_keep retryCount H" and e: "e \<noteq> MDB_ERR_NAK"
  shows "retryCount (HandleError_recover H e s) = retryCount s"
proof -
  have v: "\<And>s s'. vars s' = vars s \<Longrightarrow> retryCount s' = retryCount s" by (simp add: vars_def)
  have ev: "\<And>s x. retryCount (s\<lparr>events := x\<rparr>) = retryCount s" by simp
  have lg: "\<And>l m a s. retryCount (MDB_LogMessage l m a s) = retryCount s"
    by (simp add: MDB_LogMessage_def emit_def)
  have dl: "\<And>n s. retryCount (HAL_Delay n s) = retryCount s"
    by (simp add: HAL_Delay_def emit_def)
  have sc: "\<And>d l s. retryCount (snd (SendCommand d l s)) = retryCount s"
    by (rule v) (metis SendCommand_link prod.collapse)
  have rs: "\<And>s. retryCount (snd (MDB_Reset H s)) = retryCount s"
    by (rule v) (metis MDB_Reset_link prod.collapse)
  have ex: "\<And>h s. retryCount (snd (ext h (MDB_EnableReader H) s)) = retryCount s"
    "\<And>h s. retryCount (snd (ext h (MDB_DisableReader H) s)) = retryCount s"
    "\<And>h s. retryCount (snd (ext h (MDB_SessionComplete H) s)) = retryCount s"
    "\<And>h s. retryCount (snd (ext h (MDB_VendFailure H) s)) = retryCount s"
    using k by (simp_all add: helpers_keep_def ext_field [OF ev])
  show ?thesis
    using e by (cases e) (simp_all add: HandleError_recover_def Let_def lg dl sc rs ex)
qed

lemma HandleError_retryCount:
  assumes k: "helpers_keep retryCount H"
  shows "retryCount (MDB_HandleError H e s) =
           retryCount (HandleError_recover H e (MDB_LogError e s))"
proof -
  have "retryCount (at_logging H e s) = retryCount (HandleError_recover H e (MDB_LogError e s))"
    unfolding at_logging_def by (rule stats_keeps [OF _ _ _ k]) simp_all
  moreover have "\<And>t w. retryCount (HandleError_serious e (HandleError_log e t w)) = retryCount w"
    by (simp add: HandleError_serious_def HandleError_log_def Let_def MDB_DumpLogs_def emit_def)
  ultimately show ?thesis by (simp add: HandleError_after_logging)
qed

lemma HandleError_NAK_events:
  "\<exists>burst. events (MDB_HandleError H MDB_ERR_NAK s) =
      events (HandleError_recover H MDB_ERR_NAK (MDB_LogError MDB_ERR_NAK s)) @ burst \<and>
      (burst = [] \<or> burst = [burst_marker, EvCall H_DisableReader])"
  by (simp add: MDB_HandleError_def Let_def events_serious events_log events_stats)

lemma link_not_retry: "link_event e \<Longrightarrow> e \<noteq> retry_log k"
  by (cases e) (simp_all add: retry_log_def)

lemma HandleError_NAK_retry:
  assumes k: "helpers_keep retryCount H" and n: "unat (retryCount s) < 3"
  shows "retryCount (MDB_HandleError H MDB_ERR_NAK s) = retryCount s + 1"
    and "take 2 (new_events s (MDB_HandleError H MDB_ERR_NAK s)) =
           [EvError MDB_ERR_NAK, retry_log (unat (retryCount s) + 1)]"
    and "count_list (new_events s (MDB_HandleError H MDB_ERR_NAK s)) reset_marker = 0"
    and "command_recorded s \<Longrightarrow>
           new_events s (MDB_HandleError H MDB_ERR_NAK s) ! 2 =
             EvTransmit (last_command_frame s) (tx_outcome s)"
proof -
  from recover_NAK_retry(2) [OF n, of H] obtain evs where
    evs: "events (HandleError_recover H MDB_ERR_NAK (MDB_LogError MDB_ERR_NAK s)) =
           events s @ [EvError MDB_ERR_NAK, retry_log (unat (retryCount s) + 1)] @ evs"
      "\<forall>e\<in>set evs. link_event e"
      "command_recorded s \<longrightarrow> evs \<noteq> [] \<and>
              hd evs = EvTransmit (last_command_frame s) (tx_outcome s)"
    by blast
  from HandleError_NAK_events [of H s] obtain burst where
    b: "events (MDB_HandleError H MDB_ERR_NAK s) =
      events (HandleError_recover H MDB_ERR_NAK (MDB_LogError MDB_ERR_NAK s)) @ burst"
      "burst = [] \<or> burst = [burst_marker, EvCall H_DisableReader]"
    by blast
  have new: "new_events s (MDB_HandleError H MDB_ERR_NAK s) =
      [EvError MDB_ERR_NAK, retry_log (unat (retryCount s) + 1)] @ evs @ burst"
    using evs(1) b(1) by (simp add: new_events_append)
  show "retryCount (MDB_HandleError H MDB_ERR_NAK s) = retryCount s + 1"
    using HandleError_retryCount [OF k] recover_NAK_retry(1) [OF n] by simp
  show "take 2 (new_events s (MDB_HandleError H MDB_ERR_NAK s)) =
           [EvError MDB_ERR_NAK, retry_log (unat (retryCount s) + 1)]"
    by (simp add: new)
  have "count_list burst reset_marker = 0"
    using b(2) by (auto simp: reset_marker_def burst_marker_def)
  then show "count_list (new_events s (MDB_HandleError H MDB_ERR_NAK s)) reset_marker = 0"
    using count_link [OF evs(2)] by (simp add: new reset_marker_def retry_log_def)
  show "new_events s (MDB_HandleError H MDB_ERR_NAK s) ! 2 =
             EvTransmit (last_command_frame s) (tx_outcome s)" if "command_recorded s"
  proof -
    from that evs(3) obtain evs' where
      "evs = EvTransmit (last_command_frame s) (tx_outcome s) # evs'"
      by (cases evs) auto
    then show ?thesis by (simp add: new)
  qed
qed

lemma HandleError_NAK_reset:
  assumes k: "helpers_keep retryCount H" and n: "3 \<le> unat (retryCount s)"
  shows "retryCount (MDB_HandleError H MDB_ERR_NAK s) = 0"
    and "take 3 (new_events s (MDB_HandleError H MDB_ERR_NAK s)) =
           [EvError MDB_ERR_NAK, EvLog LOG_ERROR ''Max retries exceeded'' [], reset_marker]"
    and "count_list (new_events s (MDB_HandleError H MDB_ERR_NAK s)) reset_marker = 1"
    and "retry_log j \<notin> set (new_events s (MDB_HandleError H MDB_ERR_NAK s))"
    and "length (txBuffer s) = MDB_MAX_MESSAGE_LENGTH \<Longrightarrow>
           filter is_transmit (new_events s (MDB_HandleError H MDB_ERR_NAK s)) =
             [EvTransmit [MDB_CMD_RESET, CalculateChecksum [MDB_CMD_RESET] 1] (tx_outcome s)]"
proof -
  from recover_NAK_reset(2) [OF n, of H] obtain evs where
    evs: "events (HandleError_recover H MDB_ERR_NAK (MDB_LogError MDB_ERR_NAK s)) =
           events s @ [EvError MDB_ERR_NAK, EvLog LOG_ERROR ''Max retries exceeded'' [],
                       reset_marker] @ evs"
      "\<forall>e\<in>set evs. link_event e"
      "length (txBuffer s) = MDB_MAX_MESSAGE_LENGTH \<longrightarrow>
              filter is_transmit evs =
                [EvTransmit [MDB_CMD_RESET, CalculateChecksum [MDB_CMD_RESET] 1] (tx_outcome s)]"
    by blast
  from HandleError_NAK_events [of H s] obtain burst where
    b: "events (MDB_HandleError H MDB_ERR_NAK s) =
      events (HandleError_recover H MDB_ERR_NAK (MDB_LogError MDB_ERR_NAK s)) @ burst"
      "burst = [] \<or> burst = [burst_marker, EvCall H_DisableReader]"
    by blast
  have new: "new_events s (MDB_HandleError H MDB_ERR_NAK s) =
      [EvError MDB_ERR_NAK, EvLog LOG_ERROR ''Max retries exceeded'' [], reset_marker] @
      evs @ burst"
    using evs(1) b(1) by (simp add: new_events_append)
  show "retryCount (MDB_HandleError H MDB_ERR_NAK s) = 0"
    using HandleError_retryCount [OF k] recover_NAK_reset(1) [OF n] by simp
  show "take 3 (new_events s (MDB_HandleError H MDB_ERR_NAK s)) =
           [EvError MDB_ERR_NAK, EvLog LOG_ERROR ''Max retries exceeded'' [], reset_marker]"
    by (simp add: new)
  have "count_list burst reset_marker = 0"
    using b(2) by (auto simp: reset_marker_def burst_marker_def)
  then show "count_list (new_events s (MDB_HandleError H MDB_ERR_NAK s)) reset_marker = 1"
    using count_link [OF evs(2)] by (simp add: new reset_marker_def)
  have "retry_log j \<notin> set burst"
    using b(2) by (auto simp: retry_log_def burst_marker_def)
  moreover have "retry_log j \<notin> set evs" using evs(2) link_not_retry by blast
  ultimately show "retry_log j \<notin> set (new_events s (MDB_HandleError H MDB_ERR_NAK s))"
    by (simp add: new retry_log_def reset_marker_def)
  have "filter is_transmit burst = []" using b(2) by (auto simp: burst_marker_def)
  then show "filter is_transmit (new_events s (MDB_HandleError H MDB_ERR_NAK s)) =
             [EvTransmit [MDB_CMD_RESET, CalculateChecksum [MDB_CMD_RESET] 1] (tx_outcome s)]"
    if "length (txBuffer s) = MDB_MAX_MESSAGE_LENGTH"
    using that evs(3) by (simp add: new reset_marker_def)
qed

lemma run_retryCount:
  assumes k: "helpers_keep retryCount H"
  shows "unat (retryCount s) \<le> 3 \<Longrightarrow>
     unat (retryCount (handle_all H es s)) =
       (unat (retryCount s) + length (filter is_nak es)) mod 4"
proof (induction es arbitrary: s)
  case Nil
  then show ?case by simp
next
  case (Cons x es)
  obtain dt e where x: "x = (dt, e)" by force
  let ?s0 = "idle dt s"
  let ?s1 = "MDB_HandleError H e ?s0"
  have r0: "retryCount ?s0 = retryCount s" by (simp add: idle_def)
  show ?case
  proof (cases "e = MDB_ERR_NAK")
    case False
    have "retryCount ?s1 = retryCount s"
      using HandleError_retryCount [OF k, of e ?s0] recover_keeps_retryCount [OF k False] r0
      by (simp add: MDB_LogError_def emit_def)
    with Cons.IH [of ?s1] Cons.prems x False show ?thesis by (simp add: is_nak_def)
  next
    case True
    show ?thesis
    proof (cases "unat (retryCount s) < 3")
      case lt: True
      then have "unat (retryCount s + 1) = unat (retryCount s) + 1"
        by (simp add: unat_word_ariths)
      with HandleError_NAK_retry(1) [OF k, of ?s0] lt r0 True
      have n1: "unat (retryCount ?s1) = unat (retryCount s) + 1" by simp
      with lt have "unat (retryCount ?s1) \<le> 3" by simp
      from Cons.IH [OF this] n1 x True show ?thesis by (simp add: is_nak_def)
    next
      case False
      with Cons.prems have three: "unat (retryCount s) = 3" by simp
      with HandleError_NAK_reset(1) [OF k, of ?s0] r0 True
      have n1: "retryCount ?s1 = 0" by simp
      then have "unat (retryCount ?s1) \<le> 3" by simp
      from Cons.IH [OF this] n1 three x True show ?thesis
        by (simp add: is_nak_def)
    qed
  qed
qed

lemma recover_NAK_retry_sends:
  assumes n: "unat (retryCount s) < 3"
    and sz: "length (lastCommand s) = MDB_MAX_MESSAGE_LENGTH"
      "length (txBuffer s) = MDB_MAX_MESSAGE_LENGTH"
  shows "events (HandleError_recover H MDB_ERR_NAK (MDB_LogError MDB_ERR_NAK s)) =
           events s @ [EvError MDB_ERR_NAK, retry_log (unat (retryCount s) + 1)] @
           (if unat (lastCommandLength s) = 0 then []
            else if MDB_MAX_MESSAGE_LENGTH - 1 < unat (lastCommandLength s)
              then [EvError MDB_ERR_PARAMETER]
            else EvTransmit (last_command_frame s) (tx_outcome s) #
                   (if tx_outcome s then [] else [EvError MDB_ERR_COMMUNICATION]))"
proof -
  let ?s0 = "MDB_LogError MDB_ERR_NAK s"
  let ?s2 = "MDB_LogMessage LOG_WARNING ''Retrying command, attempt %d''
               [unat (retryCount s + 1)] (?s0\<lparr>retryCount := retryCount s + 1\<rparr>)"
  let ?r = "HandleError_recover H MDB_ERR_NAK ?s0"
  let ?len = "unat (lastCommandLength s)"
  have k: "unat (retryCount s + 1) = unat (retryCount s) + 1"
    using n by (simp add: unat_word_ariths)
  have rec: "?r = (if ?len > 0
              then snd (SendCommand (lastCommand s) (lastCommandLength s) ?s2) else ?s2)"
    using n
    by (simp add: HandleError_recover_def Let_def MDB_LogError_def MDB_LogMessage_def emit_def)
  have e2: "events ?s2 = events s @ [EvError MDB_ERR_NAK, retry_log (unat (retryCount s) + 1)]"
    by (simp add: MDB_LogError_def MDB_LogMessage_def emit_def retry_log_def k)
  have f2: "txBuffer ?s2 = txBuffer s" "tx_outcome ?s2 = tx_outcome s"
    by (simp_all add: MDB_LogError_def MDB_LogMessage_def emit_def tx_outcome_def)
  consider (none) "?len = 0" | (long) "MDB_MAX_MESSAGE_LENGTH - 1 < ?len"
    | (sends) "0 < ?len" "?len \<le> MDB_MAX_MESSAGE_LENGTH - 1"
    by linarith
  then show ?thesis
  proof cases
    case none
    with rec e2 show ?thesis by simp
  next
    case long
    then have "SendCommand (lastCommand s) (lastCommandLength s) ?s2 =
        (False, MDB_LogError MDB_ERR_PARAMETER ?s2)"
      by (simp add: SendCommand_def)
    with rec long e2 show ?thesis
      by (simp add: MDB_LogError_def emit_def MDB_MAX_MESSAGE_LENGTH_def)
  next
    case sends
    have "?len \<le> length (lastCommand s)" "?len < length (txBuffer ?s2)"
      using sends(2) sz by (simp_all add: f2 MDB_MAX_MESSAGE_LENGTH_def)
    from SendCommand_sends [OF sends(2) this]
    have "events (snd (SendCommand (lastCommand s) (lastCommandLength s) ?s2)) =
        events ?s2 @ EvTransmit (last_command_frame s) (tx_outcome s) #
          (if tx_outcome s then [] else [EvError MDB_ERR_COMMUNICATION])"
      by (simp add: last_command_frame_def f2)
    with rec sends e2 show ?thesis by simp
  qed
qed

lemma HandleError_NAK_retry_sends:
  assumes n: "unat (retryCount s) < 3"
    and sz: "length (lastCommand s) = MDB_MAX_MESSAGE_LENGTH"
      "length (txBuffer s) = MDB_MAX_MESSAGE_LENGTH"
  shows "filter is_transmit (new_events s (MDB_HandleError H MDB_ERR_NAK s)) =
           (if 0 < unat (lastCommandLength s) \<and>
               unat (lastCommandLength s) \<le> MDB_MAX_MESSAGE_LENGTH - 1
            then [EvTransmit (last_command_frame s) (tx_outcome s)] else [])"
proof -
  from HandleError_NAK_events [of H s] obtain burst where
    b: "events (MDB_HandleError H MDB_ERR_NAK s) =
      events (HandleError_recover H MDB_ERR_NAK (MDB_LogError MDB_ERR_NAK s)) @ burst"
      "burst = [] \<or> burst = [burst_marker, EvCall H_DisableReader]"
    by blast
  have "filter is_transmit burst = []" using b(2) by (auto simp: burst_marker_def)
  then show ?thesis
    using b(1) recover_NAK_retry_sends [OF n sz, of H]
    by (simp add: new_events_def retry_log_def)
qed

lemma recover_NAK_retry_state:
  assumes n: "unat (retryCount s) < 3" and cr: "command_recorded s"
    and sz: "length (lastCommand s) = MDB_MAX_MESSAGE_LENGTH"
  shows "lastCommand (HandleError_recover H MDB_ERR_NAK (MDB_LogError MDB_ERR_NAK s)) =
           lastCommand s"
    and "lastCommandLength (HandleError_recover H MDB_ERR_NAK (MDB_LogError MDB_ERR_NAK s)) =
           lastCommandLength s"
    and "length (txBuffer (HandleError_recover H MDB_ERR_NAK (MDB_LogError MDB_ERR_NAK s))) =
           MDB_MAX_MESSAGE_LENGTH"
proof -
  let ?s0 = "MDB_LogError MDB_ERR_NAK s"
  let ?s2 = "MDB_LogMessage LOG_WARNING ''Retrying command, attempt %d''
               [unat (retryCount s + 1)] (?s0\<lparr>retryCount := retryCount s + 1\<rparr>)"
  let ?r = "HandleError_recover H MDB_ERR_NAK ?s0"
  let ?len = "unat (lastCommandLength s)"
  from cr have c: "0 < ?len" "?len \<le> MDB_MAX_MESSAGE_LENGTH - 1" "?len \<le> length (lastCommand s)"
    "length (txBuffer s) = MDB_MAX_MESSAGE_LENGTH"
    by (simp_all add: command_recorded_def)
  have rec: "?r = snd (SendCommand (lastCommand s) (lastCommandLength s) ?s2)"
    using n c(1)
    by (simp add: HandleError_recover_def Let_def MDB_LogError_def MDB_LogMessage_def emit_def)
  have f2: "txBuffer ?s2 = txBuffer s" "lastCommand ?s2 = lastCommand s"
    by (simp_all add: MDB_LogError_def MDB_LogMessage_def emit_def)
  have "?len < length (txBuffer ?s2)"
    using c(2,4) by (simp add: f2 MDB_MAX_MESSAGE_LENGTH_def)
  note sc = SendCommand_sends [OF c(2,3) this]
  show "lastCommand ?r = lastCommand s" by (simp add: rec sc f2)
  show "lastCommandLength ?r = lastCommandLength s" by (simp add: rec sc)
  show "length (txBuffer ?r) = MDB_MAX_MESSAGE_LENGTH"
    using c(2,3,4) by (simp add: rec sc f2 MDB_MAX_MESSAGE_LENGTH_def)
qed

lemma HandleError_field:
  assumes ev: "\<And>s x. f (s\<lparr>events := x\<rparr>) = f s"
    and u: "\<And>s x. f (s\<lparr>rapidErrorCount := x\<rparr>) = f s" "\<And>s x. f (s\<lparr>lastErrorTime := x\<rparr>) = f s"
      "\<And>s x. f (s\<lparr>errorLog := x\<rparr>) = f s" "\<And>s x. f (s\<lparr>errorLogIndex := x\<rparr>) = f s"
      "\<And>s x. f (s\<lparr>seriousErrorCount := x\<rparr>) = f s"
    and k: "helpers_keep f H"
  shows "f (MDB_HandleError H e s) = f (HandleError_recover H e (MDB_LogError e s))"
proof -
  have "f (at_logging H e s) = f (HandleError_recover H e (MDB_LogError e s))"
    unfolding at_logging_def by (rule stats_keeps [OF ev u(1,2) k])
  moreover have "\<And>t w. f (HandleError_serious e (HandleError_log e t w)) = f w"
    by (simp add: HandleError_serious_def HandleError_log_def Let_def MDB_DumpLogs_def emit_def
        ev u)
  ultimately show ?thesis by (simp add: HandleError_after_logging)
qed

lemma retry_step:
  assumes k: "helpers_keep retryCount H" "helpers_keep lastCommand H"
      "helpers_keep lastCommandLength H" "helpers_keep txBuffer H"
    and n: "unat (retryCount s) < 3" and cr: "command_recorded s"
    and sz: "length (lastCommand s) = MDB_MAX_MESSAGE_LENGTH"
  shows "\<exists>evs ok. events (MDB_HandleError H MDB_ERR_NAK (idle d s)) = events s @ evs \<and>
           filter is_transmit evs = [EvTransmit (last_command_frame s) ok]"
    and "retryCount (MDB_HandleError H MDB_ERR_NAK (idle d s)) = retryCount s + 1"
    and "command_recorded (MDB_HandleError H MDB_ERR_NAK (idle d s))"
    and "length (lastCommand (MDB_HandleError H MDB_ERR_NAK (idle d s))) = MDB_MAX_MESSAGE_LENGTH"
    and "last_command_frame (MDB_HandleError H MDB_ERR_NAK (idle d s)) = last_command_frame s"
proof -
  let ?i = "idle d s"
  let ?s' = "MDB_HandleError H MDB_ERR_NAK ?i"
  let ?r = "HandleError_recover H MDB_ERR_NAK (MDB_LogError MDB_ERR_NAK ?i)"
  have i: "unat (retryCount ?i) < 3" "command_recorded ?i"
    "length (lastCommand ?i) = MDB_MAX_MESSAGE_LENGTH" "retryCount ?i = retryCount s"
    "last_command_frame ?i = last_command_frame s" "events ?i = events s"
    "length (txBuffer ?i) = MDB_MAX_MESSAGE_LENGTH"
    "lastCommand ?i = lastCommand s" "lastCommandLength ?i = lastCommandLength s"
    using n cr sz by (simp_all add: idle_def command_recorded_def last_command_frame_def)
  have g: "0 < unat (lastCommandLength ?i) \<and>
      unat (lastCommandLength ?i) \<le> MDB_MAX_MESSAGE_LENGTH - 1"
    using i(2) by (simp add: command_recorded_def)
  from HandleError_NAK_retry_sends [OF i(1,3,7), of H] g
  have tx: "filter is_transmit (new_events ?i ?s') =
      [EvTransmit (last_command_frame s) (tx_outcome ?i)]"
    by (simp add: i(5))
  from HandleError_grows [of H MDB_ERR_NAK ?i] obtain evs where
    evs: "events ?s' = events s @ evs" by (auto simp: i(6))
  then have "new_events ?i ?s' = evs" by (simp add: new_events_append i(6))
  with tx evs show "\<exists>evs ok. events ?s' = events s @ evs \<and>
           filter is_transmit evs = [EvTransmit (last_command_frame s) ok]"
    by blast
  show "retryCount ?s' = retryCount s + 1"
    using HandleError_NAK_retry(1) [OF k(1) i(1)] i(4) by simp
  have a: "lastCommand ?s' = lastCommand s"
    using HandleError_field [of lastCommand H MDB_ERR_NAK ?i, OF _ _ _ _ _ _ k(2)]
      recover_NAK_retry_state(1) [OF i(1,2,3), of H] i(8) by simp
  have b: "lastCommandLength ?s' = lastCommandLength s"
    using HandleError_field [of lastCommandLength H MDB_ERR_NAK ?i, OF _ _ _ _ _ _ k(3)]
      recover_NAK_retry_state(2) [OF i(1,2,3), of H] i(9) by simp
  have c: "length (txBuffer ?s') = MDB_MAX_MESSAGE_LENGTH"
    using HandleError_field [of txBuffer H MDB_ERR_NAK ?i, OF _ _ _ _ _ _ k(4)]
      recover_NAK_retry_state(3) [OF i(1,2,3), of H] by simp
  show "command_recorded ?s'"
    using cr a b c by (simp add: command_recorded_def)
  show "length (lastCommand ?s') = MDB_MAX_MESSAGE_LENGTH" using a sz by simp
  show "last_command_frame ?s' = last_command_frame s"
    using a b by (simp add: last_command_frame_def)
qed

lemma reset_step:
  assumes k: "helpers_keep retryCount H" and n: "3 \<le> unat (retryCount s)"
    and sz: "length (txBuffer s) = MDB_MAX_MESSAGE_LENGTH"
  shows "\<exists>evs ok. events (MDB_HandleError H MDB_ERR_NAK (idle d s)) = events s @ evs \<and>
           filter is_transmit evs =
             [EvTransmit [MDB_CMD_RESET, CalculateChecksum [MDB_CMD_RESET] 1] ok]"
proof -
  let ?i = "idle d s"
  let ?s' = "MDB_HandleError H MDB_ERR_NAK ?i"
  have i: "3 \<le> unat (retryCount ?i)" "length (txBuffer ?i) = MDB_MAX_MESSAGE_LENGTH"
    "events ?i = events s"
    using n sz by (simp_all add: idle_def)
  from HandleError_grows [of H MDB_ERR_NAK ?i] obtain evs where
    evs: "events ?s' = events s @ evs" by (auto simp: i(3))
  then have "new_events ?i ?s' = evs" by (simp add: new_events_append i(3))
  with HandleError_NAK_reset(5) [OF k i(1,2)] evs show ?thesis by auto
qed

lemma four_NAKs:
  assumes k: "helpers_keep retryCount H" "helpers_keep lastCommand H"
      "helpers_keep lastCommandLength H" "helpers_keep txBuffer H"
    and z: "retryCount s = 0" and cr: "command_recorded s"
    and sz: "length (lastCommand s) = MDB_MAX_MESSAGE_LENGTH"
  shows "\<exists>o1 o2 o3 o4.
     filter is_transmit (new_events s (handle_all H
        [(d1, MDB_ERR_NAK), (d2, MDB_ERR_NAK), (d3, MDB_ERR_NAK), (d4, MDB_ERR_NAK)] s)) =
     [EvTransmit (last_command_frame s) o1, EvTransmit (last_command_frame s) o2,
      EvTransmit (last_command_frame s) o3,
      EvTransmit [MDB_CMD_RESET, CalculateChecksum [MDB_CMD_RESET] 1] o4]"
proof -
  let ?s1 = "MDB_HandleError H MDB_ERR_NAK (idle d1 s)"
  let ?s2 = "MDB_HandleError H MDB_ERR_NAK (idle d2 ?s1)"
  let ?s3 = "MDB_HandleError H MDB_ERR_NAK (idle d3 ?s2)"
  let ?s4 = "MDB_HandleError H MDB_ERR_NAK (idle d4 ?s3)"
  have n0: "unat (retryCount s) < 3" using z by simp
  note A = retry_step [OF k n0 cr sz, of d1]
  have n1: "unat (retryCount ?s1) < 3" using A(2) z by simp
  note B = retry_step [OF k n1 A(3,4), of d2]
  have n2: "unat (retryCount ?s2) < 3" using B(2) A(2) z by simp
  note C = retry_step [OF k n2 B(3,4), of d3]
  have n3: "3 \<le> unat (retryCount ?s3)" using C(2) B(2) A(2) z by simp
  have "length (txBuffer ?s3) = MDB_MAX_MESSAGE_LENGTH"
    using C(3) by (simp add: command_recorded_def)
  note D = reset_step [OF k(1) n3 this, of d4]
  from A(1) obtain e1 o1 where
    e1: "events ?s1 = events s @ e1" "filter is_transmit e1 = [EvTransmit (last_command_frame s) o1]"
    by blast
  from B(1) obtain e2 o2 where
    e2: "events ?s2 = events ?s1 @ e2" "filter is_transmit e2 = [EvTransmit (last_command_frame s) o2]"
    unfolding A(5) by blast
  from C(1) obtain e3 o3 where
    e3: "events ?s3 = events ?s2 @ e3" "filter is_transmit e3 = [EvTransmit (last_command_frame s) o3]"
    unfolding B(5) A(5) by blast
  from D obtain e4 o4 where
    e4: "events ?s4 = events ?s3 @ e4"
      "filter is_transmit e4 = [EvTransmit [MDB_CMD_RESET, CalculateChecksum [MDB_CMD_RESET] 1] o4]"
    by blast
  have "events ?s4 = events s @ (e1 @ e2 @ e3 @ e4)"
    using e1(1) e2(1) e3(1) e4(1) by simp
  then have "new_events s ?s4 = e1 @ e2 @ e3 @ e4" by (rule new_events_append)
  then have "filter is_transmit (new_events s ?s4) =
     [EvTransmit (last_command_frame s) o1, EvTransmit (last_command_frame s) o2,
      EvTransmit (last_command_frame s) o3,
      EvTransmit [MDB_CMD_RESET, CalculateChecksum [MDB_CMD_RESET] 1] o4]"
    using e1(2) e2(2) e3(2) e4(2) by simp
  then show ?thesis by (simp only: handle_all.simps) blast
qed

text \<open>
  C2, as amended. The retry counter is 0 at power-on and is cleared only by the forced
  reset of this policy, so what decides between a resend and a reset is the counter, and
  not whether the NAKs are consecutive (the example after the theorem has a third
  consecutive NAK that resets). When the functions the recovery actions call leave the
  retry counter alone:
  a NAK handled with the counter below 3 increments the counter, logs the retry and runs
  no reset, and, the arrays having their sizes, its transmissions are exactly one resend
  of the recorded command with its checksum when a command of 1 to 35 bytes is recorded,
  and none otherwise;
  a NAK handled with the counter at 3 runs no retry, sets the counter to 0 and runs
  \<open>MDB_Reset\<close> once, the RESET command being its only transmission;
  over any run of errors the counter is the number of NAKs handled, modulo 4;
  and four NAKs handled from a counter of 0 with a command recorded, when the functions
  the recovery actions call also leave the recorded command and \<open>txBuffer\<close> alone, put on
  the line three resends of that command and then the RESET command, and nothing else.
\<close>

theorem C2_NAK_retry_policy:
  assumes k: "helpers_keep retryCount H"
  shows
  "(let s' = MDB_HandleError H MDB_ERR_NAK s; n = unat (retryCount s);
        new = new_events s s'
    in (n < 3 \<longrightarrow>
          retryCount s' = retryCount s + 1 \<and>
          take 2 new = [EvError MDB_ERR_NAK, retry_log (n + 1)] \<and>
          count_list new reset_marker = 0 \<and>
          (command_recorded s \<longrightarrow>
             new ! 2 = EvTransmit (last_command_frame s) (tx_outcome s)) \<and>
          (length (lastCommand s) = MDB_MAX_MESSAGE_LENGTH \<and>
           length (txBuffer s) = MDB_MAX_MESSAGE_LENGTH \<longrightarrow>
             filter is_transmit new =
               (if 0 < unat (lastCommandLength s) \<and>
                   unat (lastCommandLength s) \<le> MDB_MAX_MESSAGE_LENGTH - 1
                then [EvTransmit (last_command_frame s) (tx_outcome s)] else []))) \<and>
       (3 \<le> n \<longrightarrow>
          retryCount s' = 0 \<and>
          take 3 new = [EvError MDB_ERR_NAK, EvLog LOG_ERROR ''Max retries exceeded'' [],
                        reset_marker] \<and>
          count_list new reset_marker = 1 \<and>
          (\<forall>j. retry_log j \<notin> set new) \<and>
          (length (txBuffer s) = MDB_MAX_MESSAGE_LENGTH \<longrightarrow>
             filter is_transmit new =
               [EvTransmit [MDB_CMD_RESET, CalculateChecksum [MDB_CMD_RESET] 1]
                  (tx_outcome s)]))) \<and>
   (unat (retryCount s) \<le> 3 \<longrightarrow>
      (\<forall>es. unat (retryCount (handle_all H es s)) =
              (unat (retryCount s) + length (filter is_nak es)) mod 4)) \<and>
   (retryCount s = 0 \<and> command_recorded s \<and>
    length (lastCommand s) = MDB_MAX_MESSAGE_LENGTH \<and>
    helpers_keep lastCommand H \<and> helpers_keep lastCommandLength H \<and>
    helpers_keep txBuffer H \<longrightarrow>
      (\<forall>d1 d2 d3 d4. \<exists>o1 o2 o3 o4.
         filter is_transmit (new_events s (handle_all H
            [(d1, MDB_ERR_NAK), (d2, MDB_ERR_NAK), (d3, MDB_ERR_NAK), (d4, MDB_ERR_NAK)] s)) =
         [EvTransmit (last_command_frame s) o1, EvTransmit (last_command_frame s) o2,
          EvTransmit (last_command_frame s) o3,
          EvTransmit [MDB_CMD_RESET, CalculateChecksum [MDB_CMD_RESET] 1] o4]))"
proof -
  have a: "unat (retryCount s) < 3 \<longrightarrow>
      retryCount (MDB_HandleError H MDB_ERR_NAK s) = retryCount s + 1 \<and>
      take 2 (new_events s (MDB_HandleError H MDB_ERR_NAK s)) =
        [EvError MDB_ERR_NAK, retry_log (unat (retryCount s) + 1)] \<and>
      count_list (new_events s (MDB_HandleError H MDB_ERR_NAK s)) reset_marker = 0 \<and>
      (command_recorded s \<longrightarrow>
         new_events s (MDB_HandleError H MDB_ERR_NAK s) ! 2 =
           EvTransmit (last_command_frame s) (tx_outcome s)) \<and>
      (length (lastCommand s) = MDB_MAX_MESSAGE_LENGTH \<and>
       length (txBuffer s) = MDB_MAX_MESSAGE_LENGTH \<longrightarrow>
         filter is_transmit (new_events s (MDB_HandleError H MDB_ERR_NAK s)) =
           (if 0 < unat (lastCommandLength s) \<and>
               unat (lastCommandLength s) \<le> MDB_MAX_MESSAGE_LENGTH - 1
            then [EvTransmit (last_command_frame s) (tx_outcome s)] else []))"
    using HandleError_NAK_retry [OF k, of s] HandleError_NAK_retry_sends [of s H] by blast
  have b: "3 \<le> unat (retryCount s) \<longrightarrow>
      retryCount (MDB_HandleError H MDB_ERR_NAK s) = 0 \<and>
      take 3 (new_events s (MDB_HandleError H MDB_ERR_NAK s)) =
        [EvError MDB_ERR_NAK, EvLog LOG_ERROR ''Max retries exceeded'' [], reset_marker] \<and>
      count_list (new_events s (MDB_HandleError H MDB_ERR_NAK s)) reset_marker = 1 \<and>
      (\<forall>j. retry_log j \<notin> set (new_events s (MDB_HandleError H MDB_ERR_NAK s))) \<and>
      (length (txBuffer s) = MDB_MAX_MESSAGE_LENGTH \<longrightarrow>
         filter is_transmit (new_events s (MDB_HandleError H MDB_ERR_NAK s)) =
           [EvTransmit [MDB_CMD_RESET, CalculateChecksum [MDB_CMD_RESET] 1]
              (tx_outcome s)])"
    using HandleError_NAK_reset [OF k, of s] by blast
  have c: "unat (retryCount s) \<le> 3 \<longrightarrow>
      (\<forall>es. unat (retryCount (handle_all H es s)) =
              (unat (retryCount s) + length (filter is_nak es)) mod 4)"
    using run_retryCount [OF k, of s] by blast
  have d: "retryCount s = 0 \<and> command_recorded s \<and>
    length (lastCommand s) = MDB_MAX_MESSAGE_LENGTH \<and>
    helpers_keep lastCommand H \<and> helpers_keep lastCommandLength H \<and>
    helpers_keep txBuffer H \<longrightarrow>
      (\<forall>d1 d2 d3 d4. \<exists>o1 o2 o3 o4.
         filter is_transmit (new_events s (handle_all H
            [(d1, MDB_ERR_NAK), (d2, MDB_ERR_NAK), (d3, MDB_ERR_NAK), (d4, MDB_ERR_NAK)] s)) =
         [EvTransmit (last_command_frame s) o1, EvTransmit (last_command_frame s) o2,
          EvTransmit (last_command_frame s) o3,
          EvTransmit [MDB_CMD_RESET, CalculateChecksum [MDB_CMD_RESET] 1] o4])"
    using four_NAKs [OF k, of s] by blast
  show ?thesis unfolding Let_def using a b c d by (intro conjI)
qed

lemma ex_retry_frame: "helpers_keep retryCount example_helpers"
  by (simp add: helpers_keep_def keeps_def example_helpers_def set_state_def)

lemma polled_eq:
  "polled =
     engine0\<lparr>lastCommand := 0x12 # replicate 35 0, lastCommandLength := 1,
       txBuffer := 0x12 # 0x12 # replicate 34 0,
       events := [EvTransmit [0x12, 0x12] True]\<rparr>"
proof -
  have "SendCommand [MDB_CMD_POLL] 1 engine0 =
     (tx_outcome engine0,
      engine0\<lparr>lastCommand := take (unat (1 :: u8)) [MDB_CMD_POLL] @ drop (unat (1 :: u8)) (lastCommand engine0),
        lastCommandLength := 1,
        txBuffer := take (unat (1 :: u8)) [MDB_CMD_POLL] @ CalculateChecksum [MDB_CMD_POLL] 1 #
                      drop (Suc (unat (1 :: u8))) (txBuffer engine0),
        tx_script := tl (tx_script engine0),
        events := events engine0 @
          EvTransmit (take (unat (1 :: u8)) [MDB_CMD_POLL] @ [CalculateChecksum [MDB_CMD_POLL] 1]) (tx_outcome engine0) #
          (if tx_outcome engine0 then [] else [EvError MDB_ERR_COMMUNICATION])\<rparr>)"
    by (rule SendCommand_sends) (simp_all add: engine0_def MDB_MAX_MESSAGE_LENGTH_def)
  then show ?thesis
    by (simp add: polled_def engine0_def tx_outcome_def CalculateChecksum_def MDB_CMD_POLL_def
        MDB_MAX_MESSAGE_LENGTH_def)
qed

text \<open>After a POLL: a NAK, an error of another kind, and then three NAKs in a row. The third
  of the three consecutive NAKs finds the counter at 3: it resets and does not resend.\<close>

theorem C2_third_consecutive_NAK_counterexample:
  "take 3 (new_events
      (handle_all example_helpers
         [(0, MDB_ERR_NAK), (0, MDB_ERR_FUNDS), (0, MDB_ERR_NAK), (0, MDB_ERR_NAK)] polled)
      (handle_all example_helpers
         [(0, MDB_ERR_NAK), (0, MDB_ERR_FUNDS), (0, MDB_ERR_NAK), (0, MDB_ERR_NAK),
          (0, MDB_ERR_NAK)] polled)) =
   [EvError MDB_ERR_NAK, EvLog LOG_ERROR ''Max retries exceeded'' [], reset_marker]"
proof -
  let ?run = "[(0, MDB_ERR_NAK), (0, MDB_ERR_FUNDS), (0, MDB_ERR_NAK), (0 :: u32, MDB_ERR_NAK)]"
  let ?s4 = "handle_all example_helpers ?run polled"
  have z: "unat (retryCount polled) = 0" unfolding polled_eq by (simp add: engine0_def)
  then have "unat (retryCount polled) \<le> 3" by simp
  from run_retryCount [OF ex_retry_frame this, of ?run] z
  have "unat (retryCount ?s4) = 3" by (simp add: is_nak_def)
  then have "3 \<le> unat (retryCount (idle 0 ?s4))" by (simp add: idle_def)
  from HandleError_NAK_reset(2) [OF ex_retry_frame this]
  have "take 3 (new_events ?s4 (MDB_HandleError example_helpers MDB_ERR_NAK (idle 0 ?s4))) =
     [EvError MDB_ERR_NAK, EvLog LOG_ERROR ''Max retries exceeded'' [], reset_marker]"
    by (simp add: new_events_def idle_def)
  moreover have "handle_all example_helpers (?run @ [(0, MDB_ERR_NAK)]) polled =
      MDB_HandleError example_helpers MDB_ERR_NAK (idle 0 ?s4)"
    by (simp only: handle_all_append handle_all.simps)
  ultimately show ?thesis by simp
qed

lemma ex_command_frames:
  "helpers_keep lastCommand example_helpers" "helpers_keep lastCommandLength example_helpers"
  "helpers_keep txBuffer example_helpers"
  by (simp_all add: helpers_keep_def keeps_def example_helpers_def set_state_def)

text \<open>With the example helpers. After a POLL: the first NAK resends the POLL frame, once, and
  leaves the counter at 1; a NAK with the counter at 3 transmits the RESET frame only and
  leaves it at 0; three NAKs in a row leave the counter at 3 and four at 0, and the four
  put on the line the POLL frame three times and then the RESET frame. At power-on, where
  no command is recorded, a NAK transmits nothing.\<close>

theorem C2_NAK_retry_policy_witness:
  "helpers_keep retryCount example_helpers \<and>
   command_recorded polled \<and> retryCount polled = 0 \<and>
   retryCount (MDB_HandleError example_helpers MDB_ERR_NAK polled) = 1 \<and>
   take 2 (new_events polled (MDB_HandleError example_helpers MDB_ERR_NAK polled)) =
     [EvError MDB_ERR_NAK, retry_log 1] \<and>
   new_events polled (MDB_HandleError example_helpers MDB_ERR_NAK polled) ! 2 =
     EvTransmit [0x12, 0x12] True \<and>
   filter is_transmit (new_events polled (MDB_HandleError example_helpers MDB_ERR_NAK polled)) =
     [EvTransmit [0x12, 0x12] True] \<and>
   filter is_transmit (new_events engine0 (MDB_HandleError example_helpers MDB_ERR_NAK engine0)) =
     [] \<and>
   retryCount (MDB_HandleError example_helpers MDB_ERR_NAK (polled\<lparr>retryCount := 3\<rparr>)) = 0 \<and>
   filter is_transmit
     (new_events (polled\<lparr>retryCount := 3\<rparr>)
        (MDB_HandleError example_helpers MDB_ERR_NAK (polled\<lparr>retryCount := 3\<rparr>))) =
     [EvTransmit [0x10, 0x10] True] \<and>
   unat (retryCount (handle_all example_helpers
           [(0, MDB_ERR_NAK), (0, MDB_ERR_NAK), (0, MDB_ERR_NAK)] polled)) = 3 \<and>
   unat (retryCount (handle_all example_helpers
           [(0, MDB_ERR_NAK), (0, MDB_ERR_NAK), (0, MDB_ERR_NAK), (0, MDB_ERR_NAK)]
           polled)) = 0 \<and>
   (\<exists>o1 o2 o3 o4.
      filter is_transmit (new_events polled (handle_all example_helpers
           [(0, MDB_ERR_NAK), (0, MDB_ERR_NAK), (0, MDB_ERR_NAK), (0, MDB_ERR_NAK)] polled)) =
      [EvTransmit [0x12, 0x12] o1, EvTransmit [0x12, 0x12] o2, EvTransmit [0x12, 0x12] o3,
       EvTransmit [0x10, 0x10] o4])"
proof -
  let ?s3 = "polled\<lparr>retryCount := 3\<rparr>"
  have c: "command_recorded polled" "retryCount polled = 0"
    "last_command_frame polled = [0x12, 0x12]" "tx_outcome polled = True"
    "length (lastCommand polled) = MDB_MAX_MESSAGE_LENGTH"
    "length (txBuffer polled) = MDB_MAX_MESSAGE_LENGTH"
    "unat (lastCommandLength polled) = 1"
    unfolding polled_eq
    by (simp_all add: command_recorded_def last_command_frame_def tx_outcome_def
        engine0_def MDB_MAX_MESSAGE_LENGTH_def CalculateChecksum_def)
  have d: "unat (retryCount ?s3) = 3" "length (txBuffer ?s3) = MDB_MAX_MESSAGE_LENGTH"
    "tx_outcome ?s3 = True"
    unfolding polled_eq
    by (simp_all add: tx_outcome_def engine0_def MDB_MAX_MESSAGE_LENGTH_def)
  have z: "unat (retryCount engine0) = 0" "unat (lastCommandLength engine0) = 0"
    "length (lastCommand engine0) = MDB_MAX_MESSAGE_LENGTH"
    "length (txBuffer engine0) = MDB_MAX_MESSAGE_LENGTH"
    by (simp_all add: engine0_def MDB_MAX_MESSAGE_LENGTH_def)
  have ck: "MDB_CMD_RESET = 0x10" "CalculateChecksum [0x10] 1 = 0x10"
    by (simp_all add: CalculateChecksum_def MDB_CMD_RESET_def)
  note A = C2_NAK_retry_policy [OF ex_retry_frame, of polled, unfolded Let_def]
  note B = C2_NAK_retry_policy [OF ex_retry_frame, of ?s3, unfolded Let_def]
  note E = C2_NAK_retry_policy [OF ex_retry_frame, of engine0, unfolded Let_def]
  from A c have a:
    "retryCount (MDB_HandleError example_helpers MDB_ERR_NAK polled) = 1"
    "take 2 (new_events polled (MDB_HandleError example_helpers MDB_ERR_NAK polled)) =
       [EvError MDB_ERR_NAK, retry_log 1]"
    "new_events polled (MDB_HandleError example_helpers MDB_ERR_NAK polled) ! 2 =
       EvTransmit [0x12, 0x12] True"
    "filter is_transmit (new_events polled (MDB_HandleError example_helpers MDB_ERR_NAK polled)) =
       [EvTransmit [0x12, 0x12] True]"
    "\<forall>es. unat (retryCount (handle_all example_helpers es polled)) = length (filter is_nak es) mod 4"
    by (simp_all add: MDB_MAX_MESSAGE_LENGTH_def)
  from A c ex_command_frames have
    "\<forall>d1 d2 d3 d4. \<exists>o1 o2 o3 o4.
       filter is_transmit (new_events polled (handle_all example_helpers
          [(d1, MDB_ERR_NAK), (d2, MDB_ERR_NAK), (d3, MDB_ERR_NAK), (d4, MDB_ERR_NAK)] polled)) =
       [EvTransmit [0x12, 0x12] o1, EvTransmit [0x12, 0x12] o2, EvTransmit [0x12, 0x12] o3,
        EvTransmit [0x10, 0x10] o4]"
    by (simp add: ck)
  then have four: "\<exists>o1 o2 o3 o4.
      filter is_transmit (new_events polled (handle_all example_helpers
           [(0, MDB_ERR_NAK), (0, MDB_ERR_NAK), (0, MDB_ERR_NAK), (0, MDB_ERR_NAK)] polled)) =
      [EvTransmit [0x12, 0x12] o1, EvTransmit [0x12, 0x12] o2, EvTransmit [0x12, 0x12] o3,
       EvTransmit [0x10, 0x10] o4]"
    by blast
  from B d have b:
    "retryCount (MDB_HandleError example_helpers MDB_ERR_NAK ?s3) = 0"
    "filter is_transmit (new_events ?s3 (MDB_HandleError example_helpers MDB_ERR_NAK ?s3)) =
       [EvTransmit [0x10, 0x10] True]"
    by (simp_all add: ck)
  from E z have e:
    "filter is_transmit (new_events engine0 (MDB_HandleError example_helpers MDB_ERR_NAK engine0)) =
       []"
    by simp
  show ?thesis
    using ex_retry_frame c(1,2) a(1,2,3,4) b e four
      a(5) [rule_format, of "[(0, MDB_ERR_NAK), (0, MDB_ERR_NAK), (0, MDB_ERR_NAK)]"]
      a(5) [rule_format, of "[(0, MDB_ERR_NAK), (0, MDB_ERR_NAK), (0, MDB_ERR_NAK), (0, MDB_ERR_NAK)]"]
    by (simp add: is_nak_def)
qed

section \<open>Properties of the poll loop\<close>

lemma fed_append: "fed (xs @ ys) = fed xs @ fed ys"
  by (induction xs rule: fed.induct) auto

lemma switch_events:
  "\<exists>x. events (snd (ProcessMessage_switch H c d len s1)) = events s1 @ [x] \<and>
       fed [x] = [] \<and> \<not> is_transmit x"
  by (simp add: ProcessMessage_switch_def ext_events MDB_LogMessage_def emit_def)

lemma switch_keeps:
  assumes ev: "\<And>s x. f (s\<lparr>events := x\<rparr>) = f s" and k: "handlers_keep f H"
  shows "f (snd (ProcessMessage_switch H c d len s1)) = f s1"
proof -
  have ex: "\<And>h s. f (snd (ext h (HandleJustReset H) s)) = f s"
    "\<And>h m l s. f (snd (ext h (HandleBeginSession H m l) s)) = f s"
    "\<And>h m l s. f (snd (ext h (HandleVendApproved H m l) s)) = f s"
    "\<And>h s. f (snd (ext h (HandleVendDenied H) s)) = f s"
    "\<And>h s. f (snd (ext h (HandleEndSession H) s)) = f s"
    using k by (simp_all add: handlers_keep_def ext_field [OF ev])
  show ?thesis
    by (simp add: ProcessMessage_switch_def ex MDB_LogMessage_def emit_def ev)
qed

lemma ProcessMessage_events:
  "\<exists>evs. events (snd (MDB_ProcessMessage H (Some d) len s)) = events s @ evs \<and>
     fed evs = [if len = 0 then None else Some (unat (d ! 0))] \<and>
     filter is_transmit evs = []"
proof (cases "len = 0")
  case True
  then show ?thesis by (simp add: MDB_ProcessMessage_def MDB_LogError_def emit_def)
next
  case False
  let ?s1 = "MDB_LogMessage LOG_DEBUG ''Processing message: command=0x%02X'' [unat (d ! 0)] s"
  obtain ok s2 where sw: "ProcessMessage_switch H (d ! 0) d len ?s1 = (ok, s2)" by force
  from switch_events [of H "d ! 0" d len ?s1] sw obtain x where
    x: "events s2 = events ?s1 @ [x]" "fed [x] = []" "\<not> is_transmit x"
    by auto
  have e1: "events ?s1 = events s @ [EvLog LOG_DEBUG ''Processing message: command=0x%02X'' [unat (d ! 0)]]"
    by (simp add: MDB_LogMessage_def emit_def)
  have pm: "snd (MDB_ProcessMessage H (Some d) len s) =
      (if \<not> ok then MDB_LogError MDB_ERR_SEQUENCE s2 else s2)"
    using False sw by (simp add: MDB_ProcessMessage_def Let_def)
  let ?evs = "EvLog LOG_DEBUG ''Processing message: command=0x%02X'' [unat (d ! 0)] # x #
      (if \<not> ok then [EvError MDB_ERR_SEQUENCE] else [])"
  have a: "events (snd (MDB_ProcessMessage H (Some d) len s)) = events s @ ?evs"
    using pm x(1) e1 by (simp add: MDB_LogError_def emit_def)
  have b: "fed ?evs = [Some (unat (d ! 0))]"
    using x(2) fed_append [of "[x]" "[EvError MDB_ERR_SEQUENCE]"] by simp
  have c: "filter is_transmit ?evs = []" using x(3) by simp
  show ?thesis
    apply (rule exI [of _ ?evs])
    using a b c False by simp
qed

lemma ProcessMessage_keeps:
  assumes ev: "\<And>s x. f (s\<lparr>events := x\<rparr>) = f s" and k: "handlers_keep f H"
  shows "f (snd (MDB_ProcessMessage H msg len s)) = f s"
proof (cases "len = 0 \<or> msg = None")
  case True
  then show ?thesis by (simp add: MDB_ProcessMessage_def MDB_LogError_def emit_def ev)
next
  case False
  then obtain d where d: "msg = Some d" "len \<noteq> 0" by auto
  let ?s1 = "MDB_LogMessage LOG_DEBUG ''Processing message: command=0x%02X''
               [unat (d ! 0)] s"
  obtain ok s2 where sw: "ProcessMessage_switch H (d ! 0) d len ?s1 = (ok, s2)"
    by force
  from switch_keeps [OF ev k, of "d ! 0" d len ?s1] sw
  have "f s2 = f s" by (simp add: MDB_LogMessage_def emit_def ev)
  moreover have "snd (MDB_ProcessMessage H msg len s) =
      (if \<not> ok then MDB_LogError MDB_ERR_SEQUENCE s2 else s2)"
    using d sw by (simp add: MDB_ProcessMessage_def Let_def)
  ultimately show ?thesis by (simp add: MDB_LogError_def emit_def ev)
qed

lemma queued_empty: "count (messageQueue s) = 0 \<Longrightarrow> queued s = []"
  by (simp add: queued_def)

lemma dequeue_queued:
  assumes ok: "queue_ok s" and ne: "count (messageQueue s) \<noteq> 0"
  shows "\<exists>m s1. dequeue s = (Some m, s1) \<and> queued s = m # queued s1 \<and> queue_ok s1 \<and>
           unat (count (messageQueue s1)) = unat (count (messageQueue s)) - 1 \<and>
           events s1 = events s"
proof -
  let ?q = "messageQueue s"
  let ?h = "unat (head ?q)"
  let ?c = "unat (count ?q)"
  let ?h' = "(?h + 1) mod MDB_QUEUE_SIZE"
  let ?s1 = "s\<lparr>messageQueue := ?q\<lparr>head := of_nat ?h', count := count ?q - 1\<rparr>\<rparr>"
  from ok have h: "?h < 10" and c: "?c \<le> 10"
    by (simp_all add: queue_ok_def MDB_QUEUE_SIZE_def)
  from ne have cpos: "0 < ?c" by (simp add: unat_gt_0)
  have d: "dequeue s = (Some (messages ?q ! ?h), ?s1)"
    using ne by (simp add: dequeue_def Let_def)
  have h': "unat (of_nat (Suc ?h mod 10) :: u8) = Suc ?h mod 10"
  proof -
    have "Suc ?h mod 10 < 10" by simp
    then show ?thesis by (simp add: unat_of_nat)
  qed
  have c': "unat (count ?q - 1) = ?c - 1" using ne by (rule unat_minus_one)
  have upt: "[0..<?c] = 0 # map Suc [0..<?c - 1]"
    using cpos by (metis One_nat_def Suc_pred map_Suc_upt upt_conv_Cons)
  have idx: "\<And>i. (Suc ?h mod 10 + i) mod 10 = Suc (?h + i) mod 10"
    by (metis add_Suc mod_add_left_eq)
  have "queued s = messages ?q ! ?h # queued ?s1"
    using h by (simp add: queued_def upt h' c' idx MDB_QUEUE_SIZE_def o_def)
  moreover have "queue_ok ?s1"
    using ok c by (simp add: queue_ok_def h' c' MDB_QUEUE_SIZE_def)
  ultimately show ?thesis using d c' by simp
qed

lemma drain_feeds:
  assumes k: "handlers_keep messageQueue H"
  shows "queue_ok s \<Longrightarrow> n = unat (count (messageQueue s)) \<Longrightarrow>
     count (messageQueue (drain H n s)) = 0 \<and>
     (\<exists>evs. events (drain H n s) = events s @ evs \<and> fed evs = map frame_seen (queued s))"
proof (induction n arbitrary: s)
  case 0
  then have "count (messageQueue s) = 0" by (simp add: unat_eq_zero)
  then show ?case by (simp add: queued_empty)
next
  case (Suc n)
  then have ne: "count (messageQueue s) \<noteq> 0" by auto
  from dequeue_queued [OF Suc.prems(1) ne] obtain m s1 where
    d: "dequeue s = (Some m, s1)" "queued s = m # queued s1" "queue_ok s1"
       "unat (count (messageQueue s1)) = unat (count (messageQueue s)) - 1"
       "events s1 = events s"
    by blast
  let ?s2 = "snd (MDB_ProcessMessage H (Some (msg_data m)) (msg_length m) s1)"
  have q2: "messageQueue ?s2 = messageQueue s1"
    by (rule ProcessMessage_keeps [OF _ k]) simp
  then have ok2: "queue_ok ?s2" "queued ?s2 = queued s1"
    using d(3) by (simp_all add: queue_ok_def queued_def)
  have n2: "n = unat (count (messageQueue ?s2))" using q2 d(4) Suc.prems(2) by simp
  from ProcessMessage_events [of H "msg_data m" "msg_length m" s1] obtain evs1 where
    e1: "events ?s2 = events s1 @ evs1" "fed evs1 = [frame_seen m]"
    by (auto simp: frame_seen_def)
  from Suc.IH [OF ok2(1) n2] obtain evs2 where
    e2: "count (messageQueue (drain H n ?s2)) = 0"
      "events (drain H n ?s2) = events ?s2 @ evs2" "fed evs2 = map frame_seen (queued ?s2)"
    by blast
  have dr: "drain H (Suc n) s = drain H n ?s2" using d(1) by simp
  have "events (drain H (Suc n) s) = events s @ (evs1 @ evs2)"
    using dr e1(1) e2(2) d(5) by simp
  moreover have "fed (evs1 @ evs2) = map frame_seen (queued s)"
    using e1(2) e2(3) ok2(2) d(2) by (simp add: fed_append)
  ultimately show ?case using dr e2(1) by metis
qed

lemma SendCommand_POLL:
  "\<exists>bytes rest. events (snd (SendCommand [MDB_CMD_POLL] 1 q)) =
       events q @ EvTransmit bytes (fst (SendCommand [MDB_CMD_POLL] 1 q)) # rest \<and>
     take 1 bytes = [MDB_CMD_POLL] \<and>
     (length (txBuffer q) = MDB_MAX_MESSAGE_LENGTH \<longrightarrow> bytes = [MDB_CMD_POLL, CalculateChecksum [MDB_CMD_POLL] 1])"
proof -
  let ?tb = "(MDB_CMD_POLL # drop 1 (txBuffer q))[1 := CalculateChecksum [MDB_CMD_POLL] 1]"
  have sc: "SendCommand [MDB_CMD_POLL] 1 q =
      (tx_outcome q,
       (if tx_outcome q then (\<lambda>s. s) else MDB_LogError MDB_ERR_COMMUNICATION)
         (q\<lparr>lastCommand := MDB_CMD_POLL # drop 1 (lastCommand q), lastCommandLength := 1,
             txBuffer := ?tb, tx_script := tl (tx_script q),
             events := events q @ [EvTransmit (take 2 ?tb) (tx_outcome q)]\<rparr>))"
    by (simp add: SendCommand_def Let_def memcpy_def HAL_UART_Transmit_eq
        MDB_MAX_MESSAGE_LENGTH_def tx_outcome_def)
  have t1: "take 1 (take 2 ?tb) = [MDB_CMD_POLL]" by simp
  have t2: "length (txBuffer q) = MDB_MAX_MESSAGE_LENGTH \<Longrightarrow> take 2 ?tb = [MDB_CMD_POLL, CalculateChecksum [MDB_CMD_POLL] 1]"
    by (cases "txBuffer q"; cases "tl (txBuffer q)") (auto simp: MDB_MAX_MESSAGE_LENGTH_def)
  show ?thesis
    apply (rule exI [of _ "take 2 ?tb"])
    apply (rule exI [of _ "if tx_outcome q then [] else [EvError MDB_ERR_COMMUNICATION]"])
    using t1 t2 by (simp add: sc MDB_LogError_def emit_def)
qed

lemma Poll_due:
  assumes due: "\<not> HAL_GetTick s - lastPollTime s < MDB_POLL_INTERVAL"
  shows "\<exists>bytes ok rest.
     events (MDB_Poll H s) =
       events (MDB_ProcessMessageQueue H (s\<lparr>lastPollTime := HAL_GetTick s\<rparr>)) @
       EvTransmit bytes ok # rest \<and>
     take 1 bytes = [MDB_CMD_POLL] \<and>
     (length (txBuffer (MDB_ProcessMessageQueue H (s\<lparr>lastPollTime := HAL_GetTick s\<rparr>))) =
        MDB_MAX_MESSAGE_LENGTH \<longrightarrow> bytes = [MDB_CMD_POLL, CalculateChecksum [MDB_CMD_POLL] 1])"
proof -
  let ?q = "MDB_ProcessMessageQueue H (s\<lparr>lastPollTime := HAL_GetTick s\<rparr>)"
  obtain ok s3 where c: "SendCommand [MDB_CMD_POLL] 1 ?q = (ok, s3)" by force
  from SendCommand_POLL [of ?q] c obtain bytes rest where
    b: "events s3 = events ?q @ EvTransmit bytes ok # rest" "take 1 bytes = [MDB_CMD_POLL]"
      "length (txBuffer ?q) = MDB_MAX_MESSAGE_LENGTH \<longrightarrow> bytes = [MDB_CMD_POLL, CalculateChecksum [MDB_CMD_POLL] 1]"
    by auto
  have "\<exists>more. events (MDB_Poll H s) = events s3 @ more"
  proof (cases ok)
    case False
    with due c have "MDB_Poll H s = MDB_HandleError H MDB_ERR_COMMUNICATION s3"
      by (simp add: MDB_Poll_def Let_def)
    with HandleError_grows [of H MDB_ERR_COMMUNICATION s3] show ?thesis by simp
  next
    case True
    obtain ok2 len2 s4 where w: "WaitForResponse s3 = (ok2, len2, s4)" by (metis prod_cases3)
    with WaitForResponse_fails [of s3] have "\<not> ok2" by simp
    with due c True w have "MDB_Poll H s = s4" by (simp add: MDB_Poll_def Let_def)
    with WaitForResponse_link [OF w] show ?thesis by (auto simp: adds_iff)
  qed
  then obtain more where "events (MDB_Poll H s) = events s3 @ more" by blast
  with b have "events (MDB_Poll H s) = events ?q @ EvTransmit bytes ok # (rest @ more)" by simp
  with b(2,3) show ?thesis by blast
qed

lemma drain_keeps:
  assumes ev: "\<And>s x. f (s\<lparr>events := x\<rparr>) = f s"
    and qu: "\<And>s x. f (s\<lparr>messageQueue := x\<rparr>) = f s"
    and k: "handlers_keep f H"
  shows "f (drain H n s) = f s"
proof (induction n arbitrary: s)
  case 0
  then show ?case by simp
next
  case (Suc n)
  show ?case
  proof (cases "dequeue s")
    case (Pair r s1)
    have f1: "f s1 = f s" using Pair by (auto simp: dequeue_def Let_def qu split: if_splits)
    show ?thesis
    proof (cases r)
      case None
      with Pair f1 show ?thesis by simp
    next
      case (Some m)
      with Pair Suc.IH f1 ProcessMessage_keeps [OF ev k] show ?thesis by simp
    qed
  qed
qed

lemma switch_queue_event:
  "\<exists>x. events (snd (ProcessMessage_switch H c d len s1)) = events s1 @ [x] \<and> queue_event x"
  by (simp add: ProcessMessage_switch_def ext_events MDB_LogMessage_def emit_def)

lemma ProcessMessage_queue_events:
  "adds queue_event s (snd (MDB_ProcessMessage H msg len s))"
proof (cases "len = 0 \<or> msg = None")
  case True
  then show ?thesis
    by (simp add: MDB_ProcessMessage_def MDB_LogError_def adds_emit)
next
  case False
  then obtain d where d: "msg = Some d" "len \<noteq> 0" by auto
  let ?s1 = "MDB_LogMessage LOG_DEBUG ''Processing message: command=0x%02X'' [unat (d ! 0)] s"
  obtain ok s2 where sw: "ProcessMessage_switch H (d ! 0) d len ?s1 = (ok, s2)" by force
  from switch_queue_event [of H "d ! 0" d len ?s1] sw obtain x where
    x: "events s2 = events ?s1 @ [x]" "queue_event x"
    by auto
  have "adds queue_event s ?s1" by (simp add: MDB_LogMessage_def adds_emit)
  moreover have "adds queue_event ?s1 s2" using x by (auto simp: adds_iff)
  ultimately have a: "adds queue_event s s2" by (rule adds_trans)
  have "snd (MDB_ProcessMessage H msg len s) =
      (if \<not> ok then MDB_LogError MDB_ERR_SEQUENCE s2 else s2)"
    using d sw by (simp add: MDB_ProcessMessage_def Let_def)
  with a show ?thesis by (simp add: MDB_LogError_def adds_then_emit)
qed

lemma drain_queue_events: "adds queue_event s (drain H n s)"
proof (induction n arbitrary: s)
  case 0
  then show ?case by (simp add: adds_refl)
next
  case (Suc n)
  show ?case
  proof (cases "dequeue s")
    case (Pair r s1)
    have e1: "events s1 = events s"
      using Pair by (auto simp: dequeue_def Let_def split: if_splits)
    then have a1: "adds queue_event s s1" by (simp add: adds_iff)
    show ?thesis
    proof (cases r)
      case None
      with Pair a1 show ?thesis by simp
    next
      case (Some m)
      let ?s2 = "snd (MDB_ProcessMessage H (Some (msg_data m)) (msg_length m) s1)"
      have "adds queue_event s1 ?s2" by (rule ProcessMessage_queue_events)
      with a1 have "adds queue_event s ?s2" by (rule adds_trans)
      from this Suc.IH [of ?s2] have "adds queue_event s (drain H n ?s2)" by (rule adds_trans)
      with Pair Some show ?thesis by simp
    qed
  qed
qed

lemma HandleError_lastPollTime:
  assumes k: "helpers_keep lastPollTime H"
  shows "lastPollTime (MDB_HandleError H e s) = lastPollTime s"
proof -
  have "lastPollTime (MDB_HandleError H e s) =
      lastPollTime (HandleError_recover H e (MDB_LogError e s))"
    by (rule HandleError_field [OF _ _ _ _ _ _ k]) simp_all
  also have "\<dots> = lastPollTime (MDB_LogError e s)"
    by (rule recover_keeps [OF _ _ k]) (simp_all add: vars_def)
  finally show ?thesis by (simp add: MDB_LogError_def emit_def)
qed

lemma Poll_records:
  assumes due: "\<not> HAL_GetTick s - lastPollTime s < MDB_POLL_INTERVAL"
    and k: "handlers_keep lastPollTime H" "helpers_keep lastPollTime H"
  shows "lastPollTime (MDB_Poll H s) = HAL_GetTick s"
proof -
  let ?s1 = "s\<lparr>lastPollTime := HAL_GetTick s\<rparr>"
  let ?q = "MDB_ProcessMessageQueue H ?s1"
  have q: "lastPollTime ?q = HAL_GetTick s"
    unfolding MDB_ProcessMessageQueue_def
    by (subst drain_keeps [OF _ _ k(1)]) simp_all
  obtain ok s3 where c: "SendCommand [MDB_CMD_POLL] 1 ?q = (ok, s3)" by force
  from SendCommand_link [OF c] have s3: "lastPollTime s3 = HAL_GetTick s"
    by (simp add: vars_def q)
  show ?thesis
  proof (cases ok)
    case False
    with due c have "MDB_Poll H s = MDB_HandleError H MDB_ERR_COMMUNICATION s3"
      by (simp add: MDB_Poll_def Let_def)
    with HandleError_lastPollTime [OF k(2)] s3 show ?thesis by simp
  next
    case True
    obtain ok2 len2 s4 where w: "WaitForResponse s3 = (ok2, len2, s4)" by (metis prod_cases3)
    with WaitForResponse_fails [of s3] have "\<not> ok2" by simp
    with due c True w have "MDB_Poll H s = s4" by (simp add: MDB_Poll_def Let_def)
    with WaitForResponse_link [OF w] s3 show ?thesis by (simp add: vars_def)
  qed
qed

text \<open>
  C8. When fewer than 200 ms have passed since the poll time the engine holds, \<open>MDB_Poll\<close>
  returns the engine as it was: nothing is sent and nothing changes. Otherwise the poll is
  accepted: it records the time, processes the queue and only then sends. The processing
  of the queue adds log lines, error reports and calls of the command handlers and
  nothing else, and the first event after it is the transmission of the POLL frame. When
  the command handlers leave the queue alone and the queue satisfies its invariant, the
  queue is empty when POLL goes out and the message handler has been given every queued
  frame, in arrival order. When the command handlers and the functions the recovery
  actions call leave the poll time alone, the engine an accepted poll returns holds the
  time at which it was accepted, so that a later call made while the engine holds that
  time, fewer than 200 ms after it, returns the engine as it was.
\<close>

theorem C8_Poll_gate_and_order:
  "(HAL_GetTick s - lastPollTime s < MDB_POLL_INTERVAL \<longrightarrow> MDB_Poll H s = s) \<and>
   (\<not> HAL_GetTick s - lastPollTime s < MDB_POLL_INTERVAL \<longrightarrow>
      (let q = MDB_ProcessMessageQueue H (s\<lparr>lastPollTime := HAL_GetTick s\<rparr>);
           p = MDB_Poll H s
       in list_all queue_event (new_events s q) \<and>
          (\<exists>bytes ok rest.
             events p = events q @ EvTransmit bytes ok # rest \<and>
             take 1 bytes = [MDB_CMD_POLL] \<and>
             (length (txBuffer q) = MDB_MAX_MESSAGE_LENGTH \<longrightarrow>
                bytes = [MDB_CMD_POLL, CalculateChecksum [MDB_CMD_POLL] 1])) \<and>
          (handlers_keep messageQueue H \<and> queue_ok s \<longrightarrow>
             count (messageQueue q) = 0 \<and>
             fed (new_events s q) = map frame_seen (queued s)) \<and>
          (handlers_keep lastPollTime H \<and> helpers_keep lastPollTime H \<longrightarrow>
             lastPollTime p = HAL_GetTick s \<and>
             (\<forall>s'. lastPollTime s' = lastPollTime p \<and>
                    HAL_GetTick s' - HAL_GetTick s < MDB_POLL_INTERVAL \<longrightarrow>
                    MDB_Poll H s' = s'))))"
proof (intro conjI impI)
  assume "HAL_GetTick s - lastPollTime s < MDB_POLL_INTERVAL"
  then show "MDB_Poll H s = s" by (simp add: MDB_Poll_def Let_def)
next
  assume due: "\<not> HAL_GetTick s - lastPollTime s < MDB_POLL_INTERVAL"
  let ?s1 = "s\<lparr>lastPollTime := HAL_GetTick s\<rparr>"
  let ?q = "MDB_ProcessMessageQueue H ?s1"
  let ?p = "MDB_Poll H s"
  have "adds queue_event ?s1 ?q"
    unfolding MDB_ProcessMessageQueue_def by (rule drain_queue_events)
  then have a: "list_all queue_event (new_events s ?q)"
    by (simp add: adds_def new_events_def)
  have c: "count (messageQueue ?q) = 0 \<and> fed (new_events s ?q) = map frame_seen (queued s)"
    if k: "handlers_keep messageQueue H \<and> queue_ok s"
  proof -
    from k have ok1: "queue_ok ?s1" by (simp add: queue_ok_def)
    from drain_feeds [OF _ ok1 refl, of H] k obtain evs where
      "count (messageQueue ?q) = 0" "events ?q = events ?s1 @ evs"
      "fed evs = map frame_seen (queued ?s1)"
      by (auto simp: MDB_ProcessMessageQueue_def)
    then show ?thesis by (simp add: new_events_append queued_def)
  qed
  have d: "lastPollTime ?p = HAL_GetTick s \<and>
       (\<forall>s'. lastPollTime s' = lastPollTime ?p \<and>
              HAL_GetTick s' - HAL_GetTick s < MDB_POLL_INTERVAL \<longrightarrow> MDB_Poll H s' = s')"
    if k: "handlers_keep lastPollTime H \<and> helpers_keep lastPollTime H"
  proof -
    from k Poll_records [OF due] have r: "lastPollTime ?p = HAL_GetTick s" by blast
    then show ?thesis by (simp add: MDB_Poll_def Let_def)
  qed
  show "let q = MDB_ProcessMessageQueue H (s\<lparr>lastPollTime := HAL_GetTick s\<rparr>);
           p = MDB_Poll H s
       in list_all queue_event (new_events s q) \<and>
          (\<exists>bytes ok rest.
             events p = events q @ EvTransmit bytes ok # rest \<and>
             take 1 bytes = [MDB_CMD_POLL] \<and>
             (length (txBuffer q) = MDB_MAX_MESSAGE_LENGTH \<longrightarrow>
                bytes = [MDB_CMD_POLL, CalculateChecksum [MDB_CMD_POLL] 1])) \<and>
          (handlers_keep messageQueue H \<and> queue_ok s \<longrightarrow>
             count (messageQueue q) = 0 \<and>
             fed (new_events s q) = map frame_seen (queued s)) \<and>
          (handlers_keep lastPollTime H \<and> helpers_keep lastPollTime H \<longrightarrow>
             lastPollTime p = HAL_GetTick s \<and>
             (\<forall>s'. lastPollTime s' = lastPollTime p \<and>
                    HAL_GetTick s' - HAL_GetTick s < MDB_POLL_INTERVAL \<longrightarrow>
                    MDB_Poll H s' = s'))"
    unfolding Let_def using a Poll_due [OF due, of H] c d by blast
qed

text \<open>With the example helpers. At power-on (tick 0) a poll does nothing. At tick 200 with
  two frames queued, the handler is given the frames 0x03 and 0x09 in that order, the
  queue is empty, and the POLL frame 0x12 0x12 follows; the engine returned holds the poll
  time 200, and a poll of it at tick 399 does nothing.\<close>

theorem C8_Poll_gate_and_order_witness:
  "MDB_Poll example_helpers engine0 = engine0 \<and>
   handlers_keep messageQueue example_helpers \<and> queue_ok two_queued \<and>
   handlers_keep lastPollTime example_helpers \<and> helpers_keep lastPollTime example_helpers \<and>
   count (messageQueue (MDB_ProcessMessageQueue example_helpers
                          (two_queued\<lparr>lastPollTime := 200\<rparr>))) = 0 \<and>
   fed (new_events two_queued
          (MDB_ProcessMessageQueue example_helpers (two_queued\<lparr>lastPollTime := 200\<rparr>))) =
     [Some 3, Some 9] \<and>
   list_all queue_event (new_events two_queued
          (MDB_ProcessMessageQueue example_helpers (two_queued\<lparr>lastPollTime := 200\<rparr>))) \<and>
   (\<exists>ok rest. events (MDB_Poll example_helpers two_queued) =
        events (MDB_ProcessMessageQueue example_helpers (two_queued\<lparr>lastPollTime := 200\<rparr>)) @
        EvTransmit [0x12, 0x12] ok # rest) \<and>
   lastPollTime (MDB_Poll example_helpers two_queued) = 200 \<and>
   MDB_Poll example_helpers ((MDB_Poll example_helpers two_queued)\<lparr>tick := 399\<rparr>) =
     (MDB_Poll example_helpers two_queued)\<lparr>tick := 399\<rparr>"
proof -
  let ?q = "MDB_ProcessMessageQueue example_helpers (two_queued\<lparr>lastPollTime := 200\<rparr>)"
  let ?p = "MDB_Poll example_helpers two_queued"
  have g: "HAL_GetTick engine0 - lastPollTime engine0 < MDB_POLL_INTERVAL"
    by (simp add: HAL_GetTick_def engine0_def MDB_POLL_INTERVAL_def)
  have d: "\<not> HAL_GetTick two_queued - lastPollTime two_queued < MDB_POLL_INTERVAL"
    "HAL_GetTick two_queued = 200"
    by (simp_all add: HAL_GetTick_def two_queued_def engine0_def MDB_POLL_INTERVAL_def)
  have k: "handlers_keep messageQueue example_helpers" "handlers_keep txBuffer example_helpers"
    "handlers_keep lastPollTime example_helpers"
    by (simp_all add: handlers_keep_def keeps_def example_helpers_def set_state_def)
  have h: "helpers_keep lastPollTime example_helpers"
    by (simp add: helpers_keep_def keeps_def example_helpers_def set_state_def)
  have ok: "queue_ok two_queued"
    by (simp add: queue_ok_def two_queued_def MDB_QUEUE_SIZE_def)
  have qd: "map frame_seen (queued two_queued) = [Some 3, Some 9]"
    by (simp add: queued_def two_queued_def frame_seen_def MDB_QUEUE_SIZE_def upt_rec)
  have tb: "length (txBuffer ?q) = MDB_MAX_MESSAGE_LENGTH"
    unfolding MDB_ProcessMessageQueue_def
    by (subst drain_keeps [OF _ _ k(2)]) (simp_all add: two_queued_def engine0_def)
  note A = C8_Poll_gate_and_order [of engine0 example_helpers, THEN conjunct1, rule_format, OF g]
  note B = C8_Poll_gate_and_order [of two_queued example_helpers, THEN conjunct2, rule_format, OF d(1),
      unfolded Let_def d(2)]
  have ck: "CalculateChecksum [MDB_CMD_POLL] 1 = 0x12"
    by (simp add: CalculateChecksum_def MDB_CMD_POLL_def)
  from B tb obtain ok' rest where
    "events ?p = events ?q @ EvTransmit [0x12, 0x12] ok' # rest"
    by (auto simp: ck) (auto simp: MDB_CMD_POLL_def)
  then have e: "\<exists>ok rest. events ?p = events ?q @ EvTransmit [0x12, 0x12] ok # rest" by blast
  from B k(1) ok qd have f:
    "count (messageQueue ?q) = 0" "fed (new_events two_queued ?q) = [Some 3, Some 9]"
    "list_all queue_event (new_events two_queued ?q)"
    by simp_all
  from B k(3) h have r: "lastPollTime ?p = 200"
    and later: "\<forall>s'. lastPollTime s' = lastPollTime ?p \<and>
        HAL_GetTick s' - 200 < MDB_POLL_INTERVAL \<longrightarrow> MDB_Poll example_helpers s' = s'"
    by blast+
  have "lastPollTime (?p\<lparr>tick := 399\<rparr>) = lastPollTime ?p \<and>
      HAL_GetTick (?p\<lparr>tick := 399\<rparr>) - 200 < MDB_POLL_INTERVAL"
    by (simp add: HAL_GetTick_def MDB_POLL_INTERVAL_def)
  with later have n: "MDB_Poll example_helpers (?p\<lparr>tick := 399\<rparr>) = ?p\<lparr>tick := 399\<rparr>"
    by blast
  from A k(1,3) h ok e f r n show ?thesis by simp
qed

end
